theory Spec2Isabelle
  imports Complex_Main "HOL-Library.Char_ord" "HOL-Library.List_Lexorder" "HOL-Library.Sublist"
begin

section \<open>Conventions of the embedding\<close>

text \<open>
  The Go sources of the copy-trading pipeline are embedded function by function.
  \<^item> A Go \<open>string\<close> is a byte sequence: \<^typ>\<open>string\<close>.
  \<^item> A \<open>float64\<close> is read as a \<^typ>\<open>real\<close>: finite values with exact arithmetic.
    Rounding, infinities and NaN are outside the model.
  \<^item> \<open>int\<close>, \<open>int64\<close> and \<open>time.Duration\<close> (nanoseconds) are \<^typ>\<open>int\<close>; the code
    only compares and copies them.
  \<^item> A Go \<open>error\<close> built by \<open>errors.New\<close> or \<open>fmt.Errorf\<close> is its message text.
  \<^item> A Go map read at a missing key gives the zero value: \<open>lookup0\<close>.
\<close>

type_synonym error = string

definition lookup0 :: "(string \<rightharpoonup> real) \<Rightarrow> string \<Rightarrow> real" where
  "lookup0 m k = (case m k of None \<Rightarrow> 0 | Some v \<Rightarrow> v)"

section \<open>The functions of package strings that the sources call\<close>

text \<open>
  \<open>strings.TrimSpace\<close> removes leading and trailing runes for which \<open>unicode.IsSpace\<close>
  holds. On the bytes of a string that is: as long as the string starts (ends) with the
  UTF-8 encoding of one of these runes, remove that encoding. The runes are U+0009 to
  U+000D, U+0020, U+0085, U+00A0, U+1680, U+2000 to U+200A, U+2028, U+2029, U+202F,
  U+205F and U+3000.
\<close>

definition unicode_space_utf8 :: "string list" where
  "unicode_space_utf8 =
    [[CHR 0x09], [CHR 0x0A], [CHR 0x0B], [CHR 0x0C], [CHR 0x0D], [CHR 0x20],
     [CHR 0xC2, CHR 0x85], [CHR 0xC2, CHR 0xA0],
     [CHR 0xE1, CHR 0x9A, CHR 0x80],
     [CHR 0xE2, CHR 0x80, CHR 0x80], [CHR 0xE2, CHR 0x80, CHR 0x81],
     [CHR 0xE2, CHR 0x80, CHR 0x82], [CHR 0xE2, CHR 0x80, CHR 0x83],
     [CHR 0xE2, CHR 0x80, CHR 0x84], [CHR 0xE2, CHR 0x80, CHR 0x85],
     [CHR 0xE2, CHR 0x80, CHR 0x86], [CHR 0xE2, CHR 0x80, CHR 0x87],
     [CHR 0xE2, CHR 0x80, CHR 0x88], [CHR 0xE2, CHR 0x80, CHR 0x89],
     [CHR 0xE2, CHR 0x80, CHR 0x8A],
     [CHR 0xE2, CHR 0x80, CHR 0xA8], [CHR 0xE2, CHR 0x80, CHR 0xA9],
     [CHR 0xE2, CHR 0x80, CHR 0xAF], [CHR 0xE2, CHR 0x81, CHR 0x9F],
     [CHR 0xE3, CHR 0x80, CHR 0x80]]"

text \<open>The encoding among \<open>encs\<close> that \<open>s\<close> starts with, if there is one.\<close>

definition leading_space :: "string list \<Rightarrow> string \<Rightarrow> string option" where
  "leading_space encs s = find (\<lambda>e. e \<noteq> [] \<and> prefix e s) encs"

function trim_leading :: "string list \<Rightarrow> string \<Rightarrow> string" where
  "trim_leading encs s =
     (case leading_space encs s of
        None \<Rightarrow> s
      | Some e \<Rightarrow> trim_leading encs (drop (length e) s))"
  by pat_completeness auto
termination
  by (relation "measure (\<lambda>(encs, s). length s)")
     (auto simp: leading_space_def find_Some_iff prefix_def)

declare trim_leading.simps [simp del]

definition strings_TrimLeft :: "string \<Rightarrow> string" where
  "strings_TrimLeft s = trim_leading unicode_space_utf8 s"

definition strings_TrimRight :: "string \<Rightarrow> string" where
  "strings_TrimRight s = rev (trim_leading (map rev unicode_space_utf8) (rev s))"

definition strings_TrimSpace :: "string \<Rightarrow> string" where
  "strings_TrimSpace s = strings_TrimRight (strings_TrimLeft s)"

text \<open>
  \<open>strings.ToUpper\<close> on the ASCII letters. Bytes from 0x80 on stay as they are: Go maps
  letters outside ASCII by the Unicode case tables, which are not part of the model. No
  statement below depends on what \<open>ToUpper\<close> returns.
\<close>

definition ascii_upper :: "char \<Rightarrow> char" where
  "ascii_upper c =
     (if CHR ''a'' \<le> c \<and> c \<le> CHR ''z'' then char_of (of_char c - (32::nat)) else c)"

definition strings_ToUpper :: "string \<Rightarrow> string" where
  "strings_ToUpper s = map ascii_upper s"

definition strings_HasSuffix :: "string \<Rightarrow> string \<Rightarrow> bool" where
  "strings_HasSuffix s suf = suffix suf s"

text \<open>\<open>strings.ReplaceAll(s, old, "")\<close> for a non-empty \<open>old\<close>: scan left to right, drop each
  occurrence, continue after it.\<close>

fun strings_RemoveAll :: "string \<Rightarrow> string \<Rightarrow> string" where
  "strings_RemoveAll old [] = []"
| "strings_RemoveAll old (c # cs) =
     (if old \<noteq> [] \<and> prefix old (c # cs)
      then strings_RemoveAll old (drop (length old - 1) cs)
      else c # strings_RemoveAll old cs)"

section \<open>trader/copy\_trading\_config.go\<close>

record CopyTradingConfig =
  FollowOpen :: bool
  FollowAdd :: bool
  FollowReduce :: bool
  FollowRatio :: real
  MinAmount :: real
  MaxAmount :: real
  SyncLeverage :: bool
  SyncMarginMode :: bool

definition DefaultCopyTradingConfig :: CopyTradingConfig where
  "DefaultCopyTradingConfig =
     \<lparr>FollowOpen = True, FollowAdd = True, FollowReduce = True, FollowRatio = 100,
      MinAmount = 0, MaxAmount = 0, SyncLeverage = True, SyncMarginMode = True\<rparr>"

definition normalizeCopyTradingConfig :: "CopyTradingConfig \<Rightarrow> CopyTradingConfig" where
  "normalizeCopyTradingConfig cfg0 =
     (let defaultCfg = DefaultCopyTradingConfig;
          cfg1 = (if FollowRatio cfg0 \<le> 0
                  then cfg0\<lparr>FollowRatio := FollowRatio defaultCfg\<rparr> else cfg0);
          cfg2 = (if MaxAmount cfg1 < 0 then cfg1\<lparr>MaxAmount := 0\<rparr> else cfg1);
          cfg3 = (if MinAmount cfg2 < 0 then cfg2\<lparr>MinAmount := 0\<rparr> else cfg2)
      in if \<not> FollowOpen cfg3 \<and> \<not> FollowAdd cfg3 \<and> \<not> FollowReduce cfg3
         then cfg3\<lparr>FollowOpen := FollowOpen defaultCfg,
                   FollowAdd := FollowAdd defaultCfg,
                   FollowReduce := FollowReduce defaultCfg\<rparr>
         else cfg3)"

text \<open>
  \<open>json.Unmarshal(data, &cfg)\<close> belongs to the Go library. It first checks that \<open>data\<close> is
  well-formed JSON and, if not, returns a syntax error without touching \<open>cfg\<close>. Only
  well-formed text is decoded into \<open>cfg\<close>; decoding can still fail (a field of the wrong
  JSON type) after other fields have been stored. The two library parts are parameters:
  \<open>json_Valid\<close> is the well-formedness check and \<open>json_decode\<close> the decoder, which
  returns the error (if any) and the destination as it left it.
\<close>

record json =
  json_Valid :: "string \<Rightarrow> bool"
  json_decode :: "string \<Rightarrow> CopyTradingConfig \<Rightarrow> error option \<times> CopyTradingConfig"

definition json_Unmarshal ::
  "json \<Rightarrow> string \<Rightarrow> CopyTradingConfig \<Rightarrow> error option \<times> CopyTradingConfig" where
  "json_Unmarshal J data cfg =
     (if \<not> json_Valid J data then (Some ''json: syntax error'', cfg)
      else json_decode J data cfg)"

definition ParseCopyTradingConfig :: "json \<Rightarrow> string \<Rightarrow> CopyTradingConfig" where
  "ParseCopyTradingConfig J raw =
     (let cfg = DefaultCopyTradingConfig in
      if strings_TrimSpace raw = [] then cfg
      else case json_Unmarshal J raw cfg of
             (Some err, cfg') \<Rightarrow> cfg'
           | (None, cfg') \<Rightarrow> normalizeCopyTradingConfig cfg')"

section \<open>copytrading: shared types, the provider factory, action classification\<close>

datatype SignalAction =
    ActionOpenLong | ActionOpenShort | ActionCloseLong | ActionCloseShort
  | ActionAddLong | ActionAddShort | ActionReduceLong | ActionReduceShort

text \<open>
  \<open>Signal\<close>, with the field \<open>Price\<close> that both observers fill in. \<open>Timestamp\<close> is the
  instant \<open>time.Now()\<close> returned, as a number.
\<close>

record Signal =
  Symbol :: string
  Action :: SignalAction
  NotionalUSD :: real
  Price :: real
  LeaderEquity :: real
  LeaderLeverage :: int
  MarginMode :: string
  Timestamp :: int
  DeltaSize :: real
  LeaderPosBefore :: real
  LeaderPosAfter :: real

text \<open>\<open>http.Client\<close>: only the timeout is set by this code. A \<open>*http.Client\<close> is an
  \<^typ>\<open>'a option\<close>, \<open>nil\<close> being \<open>None\<close>.\<close>

record http_Client =
  Timeout :: int

definition time_Second :: int where
  "time_Second = 1000000000"

record Config =
  Type :: string
  Identifier :: string
  PollInterval :: int
  HTTPClient :: "http_Client option"

record hyperliquidProvider =
  hl_user :: string
  hl_pollInterval :: int
  hl_client :: "http_Client option"
  hl_lastTID :: int
  hl_initialized :: bool
  hl_lastPositions :: "string \<rightharpoonup> real"
  hl_lastPrices :: "string \<rightharpoonup> real"

record okxProvider =
  okx_uniqueName :: string
  okx_pollInterval :: int
  okx_client :: "http_Client option"
  okx_lastFillTime :: int
  okx_initialized :: bool
  okx_lastPositions :: "string \<rightharpoonup> real"
  okx_lastPrices :: "string \<rightharpoonup> real"

datatype Provider = Hyperliquid hyperliquidProvider | OKX okxProvider

definition newHyperliquidProvider ::
  "string \<Rightarrow> int \<Rightarrow> http_Client option \<Rightarrow> Provider" where
  "newHyperliquidProvider user pollInterval client =
     Hyperliquid \<lparr>hl_user = strings_TrimSpace user, hl_pollInterval = pollInterval,
       hl_client = client, hl_lastTID = 0, hl_initialized = False,
       hl_lastPositions = Map.empty, hl_lastPrices = Map.empty\<rparr>"

definition newOKXProvider :: "string \<Rightarrow> int \<Rightarrow> http_Client option \<Rightarrow> Provider" where
  "newOKXProvider uniqueName pollInterval client =
     OKX \<lparr>okx_uniqueName = strings_TrimSpace uniqueName, okx_pollInterval = pollInterval,
       okx_client = client, okx_lastFillTime = 0, okx_initialized = False,
       okx_lastPositions = Map.empty, okx_lastPrices = Map.empty\<rparr>"

definition NewProvider :: "Config \<Rightarrow> error + Provider" where
  "NewProvider cfg0 =
     (let cfg1 = (if HTTPClient cfg0 = None
                  then cfg0\<lparr>HTTPClient := Some \<lparr>Timeout = 10 * time_Second\<rparr>\<rparr> else cfg0);
          cfg = (if PollInterval cfg1 \<le> 0
                 then cfg1\<lparr>PollInterval := 3 * time_Second\<rparr> else cfg1)
      in if Type cfg = ''hyperliquid_wallet'' \<or> Type cfg = ''hyperliquid''
         then Inr (newHyperliquidProvider (Identifier cfg) (PollInterval cfg) (HTTPClient cfg))
         else if Type cfg = ''okx_wallet'' \<or> Type cfg = ''okx''
         then Inr (newOKXProvider (Identifier cfg) (PollInterval cfg) (HTTPClient cfg))
         else Inl ''unsupported signal source type'')"

text \<open>\<open>deriveActionFromDelta\<close> returns the empty action \<open>""\<close> for "no change": \<open>None\<close>.\<close>

definition deriveActionFromDelta :: "real \<Rightarrow> real \<Rightarrow> SignalAction option" where
  "deriveActionFromDelta prev cur =
     (let delta = cur - prev in
      if delta = 0 then None
      else if cur > prev then (if cur > 0 then Some ActionAddLong else Some ActionReduceShort)
      else if cur < prev then (if cur < 0 then Some ActionAddShort else Some ActionReduceLong)
      else None)"

section \<open>What an observer sees of the outside\<close>

text \<open>
  A poll cycle reads three things it does not control:
  \<^item> \<open>strconv.ParseFloat(s, 64)\<close>, whose error the code drops: \<open>ParseFloat\<close>;
  \<^item> \<open>market.Get(symbol)\<close>, the market-data fallback: \<open>None\<close> when it returns an error,
    \<open>Some c\<close> when it returns data with \<open>CurrentPrice = c\<close>;
  \<^item> \<open>time.Now()\<close>.
  The last two may answer differently each time they are asked. Every call of either
  consumes one tick of a counter, and the answer is a function of the counter.

  The venue's answers (the HTTP calls) are arguments of the cycle, each an
  \<^typ>\<open>error + 'a\<close>. A Go map that the code ranges over is given as the list of its entries
  in the order the \<open>range\<close> yields them.
\<close>

record env =
  ParseFloat :: "string \<Rightarrow> real"
  market_Get :: "nat \<Rightarrow> string \<Rightarrow> real option"
  time_Now :: "nat \<Rightarrow> int"

text \<open>The provider \<open>p\<close>, the signals sent on \<open>out\<close> so far (oldest first), the counter.\<close>

record 'p run =
  prov :: 'p
  sent :: "Signal list"
  ticks :: nat

text \<open>\<open>out <- Signal{..., Timestamp: time.Now(), ...}\<close>\<close>

definition send :: "env \<Rightarrow> (int \<Rightarrow> Signal) \<Rightarrow> 'p run \<Rightarrow> 'p run" where
  "send env mk r = r\<lparr>sent := sent r @ [mk (time_Now env (ticks r))], ticks := Suc (ticks r)\<rparr>"

text \<open>The signals sent between two moments of a run.\<close>

definition emitted :: "'p run \<Rightarrow> 'q run \<Rightarrow> Signal list" where
  "emitted r r' = drop (length (sent r)) (sent r')"

text \<open>
  \<open>sort.Slice(xs, less)\<close>. The library leaves elements that \<open>less\<close> does not separate in
  an unspecified order; the model keeps them in the order they had.
\<close>

fun insert_by :: "('a \<Rightarrow> 'a \<Rightarrow> bool) \<Rightarrow> 'a \<Rightarrow> 'a list \<Rightarrow> 'a list" where
  "insert_by lt x [] = [x]"
| "insert_by lt x (y # ys) =
     (if lt y x then y # insert_by lt x ys else x # y # ys)"

definition sort_Slice :: "('a \<Rightarrow> 'a \<Rightarrow> bool) \<Rightarrow> 'a list \<Rightarrow> 'a list" where
  "sort_Slice lt xs = foldr (insert_by lt) xs []"

section \<open>copytrading/hyperliquid\_provider.go\<close>

record hyperliquidFill =
  Coin :: string
  Dir :: string
  Px :: string
  Sz :: string
  Time :: int
  TID :: int

definition hyperliquidFill_price :: "env \<Rightarrow> hyperliquidFill \<Rightarrow> real" where
  "hyperliquidFill_price env f = ParseFloat env (Px f)"

record hyperliquidPositionMeta =
  hl_MarginMode :: string
  hl_Leverage :: int
  hl_Size :: real

record hyperliquidState =
  AccountValue :: real
  Positions :: "(string \<times> hyperliquidPositionMeta) list"

definition convertHyperliquidSymbol :: "string \<Rightarrow> string" where
  "convertHyperliquidSymbol coin0 =
     (let coin1 = strings_TrimSpace coin0 in
      if coin1 = [] then []
      else let coin = strings_ToUpper coin1 in
           if strings_HasSuffix coin ''USDT'' then coin else coin @ ''USDT'')"

definition hl_fill_less :: "hyperliquidFill \<Rightarrow> hyperliquidFill \<Rightarrow> bool" where
  "hl_fill_less f g = (if Time f = Time g then TID f < TID g else Time f < Time g)"

text \<open>One round of the loop over the sorted fills; the loop's variables are \<open>maxTID\<close> and
  the provider.\<close>

definition hl_ingest_fill ::
  "env \<Rightarrow> hyperliquidFill \<Rightarrow> int \<times> hyperliquidProvider \<Rightarrow> int \<times> hyperliquidProvider" where
  "hl_ingest_fill env fill mp =
     (let maxTID = fst mp; p = snd mp in
      if TID fill \<le> hl_lastTID p then (maxTID, p)
      else let symbol = convertHyperliquidSymbol (Coin fill) in
           if symbol = [] then (maxTID, p\<lparr>hl_lastTID := TID fill\<rparr>)
           else let price = hyperliquidFill_price env fill;
                    p1 = (if price > 0
                          then p\<lparr>hl_lastPrices := (hl_lastPrices p)(symbol \<mapsto> price)\<rparr>
                          else p)
                in (if TID fill > maxTID then TID fill else maxTID, p1))"

definition hl_ingest ::
  "env \<Rightarrow> hyperliquidFill list \<Rightarrow> hyperliquidProvider \<Rightarrow> hyperliquidProvider" where
  "hl_ingest env fills p =
     (let mp = fold (hl_ingest_fill env) (sort_Slice hl_fill_less fills) (hl_lastTID p, p);
          maxTID = fst mp; p1 = snd mp
      in if maxTID > hl_lastTID p1 then p1\<lparr>hl_lastTID := maxTID\<rparr> else p1)"

text \<open>The first completed cycle: copy the sizes into the snapshot.\<close>

definition hl_init_snapshot ::
  "(string \<times> hyperliquidPositionMeta) list \<Rightarrow> hyperliquidProvider \<Rightarrow> hyperliquidProvider" where
  "hl_init_snapshot positions p =
     fold (\<lambda>e q. q\<lparr>hl_lastPositions := (hl_lastPositions q)(fst e \<mapsto> hl_Size (snd e))\<rparr>)
       positions p"

text \<open>The price of \<open>currSym\<close>: the cached fill price, else the market-data fallback, which
  is cached when it is positive. A result \<open>\<le> 0\<close> means that there is no price.\<close>

definition hl_price ::
  "env \<Rightarrow> string \<Rightarrow> hyperliquidProvider run \<Rightarrow> real \<times> hyperliquidProvider run" where
  "hl_price env currSym r =
     (let price = lookup0 (hl_lastPrices (prov r)) currSym in
      if price \<le> 0
      then (let r1 = r\<lparr>ticks := Suc (ticks r)\<rparr> in
            case market_Get env (ticks r) currSym of
              None \<Rightarrow> (price, r1)
            | Some currentPrice \<Rightarrow>
                if currentPrice > 0
                then (currentPrice,
                      r1\<lparr>prov := (prov r)\<lparr>hl_lastPrices :=
                                   (hl_lastPrices (prov r))(currSym \<mapsto> currentPrice)\<rparr>\<rparr>)
                else (price, r1))
      else (price, r))"

definition hl_set_position ::
  "string \<Rightarrow> real \<Rightarrow> hyperliquidProvider run \<Rightarrow> hyperliquidProvider run" where
  "hl_set_position symb sz r =
     r\<lparr>prov := (prov r)\<lparr>hl_lastPositions := (hl_lastPositions (prov r))(symb \<mapsto> sz)\<rparr>\<rparr>"

definition hl_delete_position ::
  "string \<Rightarrow> hyperliquidProvider run \<Rightarrow> hyperliquidProvider run" where
  "hl_delete_position symb r =
     r\<lparr>prov := (prov r)\<lparr>hl_lastPositions := (hl_lastPositions (prov r))(symb := None)\<rparr>\<rparr>"

text \<open>One round of the loop over the fetched positions (\<open>e\<close> is the entry \<open>sym, meta\<close>).\<close>

definition hl_diff_step ::
  "env \<Rightarrow> real \<Rightarrow> string \<times> hyperliquidPositionMeta \<Rightarrow>
   hyperliquidProvider run \<Rightarrow> hyperliquidProvider run" where
  "hl_diff_step env accountValue e r =
     (let symb = fst e; meta = snd e;
          prev = lookup0 (hl_lastPositions (prov r)) symb;
          delta = hl_Size meta - prev
      in if delta = 0 then r
      else
        let currSym = convertHyperliquidSymbol symb;
            pr = hl_price env currSym r;
            price = fst pr; r1 = snd pr
        in if price \<le> 0 then r1
        else if prev > 0 \<and> hl_Size meta < 0 then
          let r2 = send env (\<lambda>now.
                \<lparr>Symbol = currSym, Action = ActionCloseLong,
                 NotionalUSD = \<bar>prev\<bar> * price, Price = price,
                 LeaderEquity = accountValue, LeaderLeverage = hl_Leverage meta,
                 MarginMode = hl_MarginMode meta, Timestamp = now,
                 DeltaSize = - prev, LeaderPosBefore = prev, LeaderPosAfter = 0\<rparr>) r1;
              r3 = send env (\<lambda>now.
                \<lparr>Symbol = currSym, Action = ActionOpenShort,
                 NotionalUSD = \<bar>hl_Size meta\<bar> * price, Price = price,
                 LeaderEquity = accountValue, LeaderLeverage = hl_Leverage meta,
                 MarginMode = hl_MarginMode meta, Timestamp = now,
                 DeltaSize = hl_Size meta, LeaderPosBefore = 0,
                 LeaderPosAfter = hl_Size meta\<rparr>) r2
          in hl_set_position symb (hl_Size meta) r3
        else if prev < 0 \<and> hl_Size meta > 0 then
          let r2 = send env (\<lambda>now.
                \<lparr>Symbol = currSym, Action = ActionCloseShort,
                 NotionalUSD = \<bar>prev\<bar> * price, Price = price,
                 LeaderEquity = accountValue, LeaderLeverage = hl_Leverage meta,
                 MarginMode = hl_MarginMode meta, Timestamp = now,
                 DeltaSize = - prev, LeaderPosBefore = prev, LeaderPosAfter = 0\<rparr>) r1;
              r3 = send env (\<lambda>now.
                \<lparr>Symbol = currSym, Action = ActionOpenLong,
                 NotionalUSD = \<bar>hl_Size meta\<bar> * price, Price = price,
                 LeaderEquity = accountValue, LeaderLeverage = hl_Leverage meta,
                 MarginMode = hl_MarginMode meta, Timestamp = now,
                 DeltaSize = hl_Size meta, LeaderPosBefore = 0,
                 LeaderPosAfter = hl_Size meta\<rparr>) r2
          in hl_set_position symb (hl_Size meta) r3
        else
          case deriveActionFromDelta prev (hl_Size meta) of
            None \<Rightarrow> hl_set_position symb (hl_Size meta) r1
          | Some action \<Rightarrow>
              let r2 = send env (\<lambda>now.
                    \<lparr>Symbol = currSym, Action = action,
                     NotionalUSD = \<bar>delta\<bar> * price, Price = price,
                     LeaderEquity = accountValue, LeaderLeverage = hl_Leverage meta,
                     MarginMode = hl_MarginMode meta, Timestamp = now,
                     DeltaSize = delta, LeaderPosBefore = prev,
                     LeaderPosAfter = hl_Size meta\<rparr>) r1
              in hl_set_position symb (hl_Size meta) r2)"

text \<open>
  One round of the loop over the snapshot, at the key \<open>symb\<close>. A \<open>range\<close> yields only keys
  that are in the map, so a key that is not there is passed over.
\<close>

definition hl_sweep_step ::
  "env \<Rightarrow> real \<Rightarrow> (string \<times> hyperliquidPositionMeta) list \<Rightarrow> string \<Rightarrow>
   hyperliquidProvider run \<Rightarrow> hyperliquidProvider run" where
  "hl_sweep_step env accountValue positions symb r =
     (case hl_lastPositions (prov r) symb of
        None \<Rightarrow> r
      | Some prev \<Rightarrow>
          if map_of positions symb \<noteq> None then r
          else if prev = 0 then hl_delete_position symb r
          else
            let currSym = convertHyperliquidSymbol symb;
                pr = hl_price env currSym r;
                price = fst pr; r1 = snd pr
            in if price \<le> 0 then hl_delete_position symb r1
            else
              let action = (if prev < 0 then ActionCloseShort else ActionCloseLong);
                  r2 = send env (\<lambda>now.
                        \<lparr>Symbol = currSym, Action = action,
                         NotionalUSD = \<bar>prev\<bar> * price, Price = price,
                         LeaderEquity = accountValue, LeaderLeverage = 0,
                         MarginMode = [], Timestamp = now,
                         DeltaSize = - prev, LeaderPosBefore = prev,
                         LeaderPosAfter = 0\<rparr>) r1
              in hl_delete_position symb r2)"

text \<open>
  \<open>fetchAndEmit\<close>. \<open>fetchFills\<close> and \<open>fetchState\<close> are what the two venue calls return;
  \<open>order\<close> is the order in which the last loop ranges over the snapshot's keys. The
  result is the returned error (\<open>None\<close> for \<open>nil\<close>) and the run as the cycle leaves it.
\<close>

definition hl_fetchAndEmit ::
  "env \<Rightarrow> error + hyperliquidFill list \<Rightarrow> error + hyperliquidState \<Rightarrow> string list \<Rightarrow>
   hyperliquidProvider run \<Rightarrow> error option \<times> hyperliquidProvider run" where
  "hl_fetchAndEmit env fetchFills fetchState order r =
     (case fetchFills of
        Inl err \<Rightarrow> (Some err, r)
      | Inr fills \<Rightarrow>
     (case fetchState of
        Inl err \<Rightarrow> (Some err, r)
      | Inr state \<Rightarrow>
          if AccountValue state \<le> 0 then (Some ''invalid Hyperliquid account value'', r)
          else
            let r1 = r\<lparr>prov := hl_ingest env fills (prov r)\<rparr>
            in if \<not> hl_initialized (prov r1)
               then (None, r1\<lparr>prov := (hl_init_snapshot (Positions state) (prov r1))
                                         \<lparr>hl_initialized := True\<rparr>\<rparr>)
               else (None,
                     fold (hl_sweep_step env (AccountValue state) (Positions state)) order
                       (fold (hl_diff_step env (AccountValue state)) (Positions state) r1))))"

section \<open>The OKX observer (\<open>okxProvider\<close>, the position-diffing version)\<close>

record okxTradeRecord =
  InstID :: string
  Side :: string
  PosSide :: string
  AvgPx :: string
  Size :: string
  Value :: string
  FillTime :: int
  OrdID :: string
  Lever :: string

record okxPositionMeta =
  okx_Size :: real
  okx_Leverage :: int
  okx_MarginMode :: string

definition formatOKXSymbol :: "string \<Rightarrow> string" where
  "formatOKXSymbol instID0 =
     (let instID1 = strings_TrimSpace instID0 in
      if instID1 = [] then []
      else strings_RemoveAll ''-'' (strings_RemoveAll ''-SWAP'' (strings_ToUpper instID1)))"

definition okx_trade_less :: "okxTradeRecord \<Rightarrow> okxTradeRecord \<Rightarrow> bool" where
  "okx_trade_less f g =
     (if FillTime f = FillTime g then OrdID f < OrdID g else FillTime f < FillTime g)"

definition okx_ingest_trade ::
  "env \<Rightarrow> okxTradeRecord \<Rightarrow> int \<times> okxProvider \<Rightarrow> int \<times> okxProvider" where
  "okx_ingest_trade env trade mp =
     (let maxFill = fst mp; p = snd mp in
      if FillTime trade \<le> okx_lastFillTime p then (maxFill, p)
      else let symbol = formatOKXSymbol (InstID trade) in
           if symbol = [] then (maxFill, p)
           else let avgPx = ParseFloat env (AvgPx trade);
                    p1 = (if avgPx > 0
                          then p\<lparr>okx_lastPrices := (okx_lastPrices p)(symbol \<mapsto> avgPx)\<rparr>
                          else p)
                in (if FillTime trade > maxFill then FillTime trade else maxFill, p1))"

definition okx_ingest :: "env \<Rightarrow> okxTradeRecord list \<Rightarrow> okxProvider \<Rightarrow> okxProvider" where
  "okx_ingest env trades p =
     (let mp = fold (okx_ingest_trade env) (sort_Slice okx_trade_less trades)
                 (okx_lastFillTime p, p);
          maxFill = fst mp; p1 = snd mp
      in if maxFill > okx_lastFillTime p1 then p1\<lparr>okx_lastFillTime := maxFill\<rparr> else p1)"

definition okx_init_snapshot ::
  "(string \<times> okxPositionMeta) list \<Rightarrow> okxProvider \<Rightarrow> okxProvider" where
  "okx_init_snapshot positions p =
     fold (\<lambda>e q. q\<lparr>okx_lastPositions := (okx_lastPositions q)(fst e \<mapsto> okx_Size (snd e))\<rparr>)
       positions p"

definition okx_price :: "env \<Rightarrow> string \<Rightarrow> okxProvider run \<Rightarrow> real \<times> okxProvider run" where
  "okx_price env symb r =
     (let price = lookup0 (okx_lastPrices (prov r)) symb in
      if price \<le> 0
      then (let r1 = r\<lparr>ticks := Suc (ticks r)\<rparr> in
            case market_Get env (ticks r) symb of
              None \<Rightarrow> (price, r1)
            | Some currentPrice \<Rightarrow>
                if currentPrice > 0
                then (currentPrice,
                      r1\<lparr>prov := (prov r)\<lparr>okx_lastPrices :=
                                   (okx_lastPrices (prov r))(symb \<mapsto> currentPrice)\<rparr>\<rparr>)
                else (price, r1))
      else (price, r))"

definition okx_set_position :: "string \<Rightarrow> real \<Rightarrow> okxProvider run \<Rightarrow> okxProvider run" where
  "okx_set_position symb sz r =
     r\<lparr>prov := (prov r)\<lparr>okx_lastPositions := (okx_lastPositions (prov r))(symb \<mapsto> sz)\<rparr>\<rparr>"

definition okx_delete_position :: "string \<Rightarrow> okxProvider run \<Rightarrow> okxProvider run" where
  "okx_delete_position symb r =
     r\<lparr>prov := (prov r)\<lparr>okx_lastPositions := (okx_lastPositions (prov r))(symb := None)\<rparr>\<rparr>"

definition okx_diff_step ::
  "env \<Rightarrow> real \<Rightarrow> string \<times> okxPositionMeta \<Rightarrow> okxProvider run \<Rightarrow> okxProvider run" where
  "okx_diff_step env accountValue e r =
     (let symb = fst e; meta = snd e;
          prev = lookup0 (okx_lastPositions (prov r)) symb;
          delta = okx_Size meta - prev
      in if delta = 0 then r
      else
        let pr = okx_price env symb r;
            price = fst pr; r1 = snd pr
        in if price \<le> 0 then r1
        else if prev > 0 \<and> okx_Size meta < 0 then
          let r2 = send env (\<lambda>now.
                \<lparr>Symbol = symb, Action = ActionCloseLong,
                 NotionalUSD = \<bar>prev\<bar> * price, Price = price,
                 LeaderEquity = accountValue, LeaderLeverage = okx_Leverage meta,
                 MarginMode = okx_MarginMode meta, Timestamp = now,
                 DeltaSize = - prev, LeaderPosBefore = prev, LeaderPosAfter = 0\<rparr>) r1;
              r3 = send env (\<lambda>now.
                \<lparr>Symbol = symb, Action = ActionOpenShort,
                 NotionalUSD = \<bar>okx_Size meta\<bar> * price, Price = price,
                 LeaderEquity = accountValue, LeaderLeverage = okx_Leverage meta,
                 MarginMode = okx_MarginMode meta, Timestamp = now,
                 DeltaSize = okx_Size meta, LeaderPosBefore = 0,
                 LeaderPosAfter = okx_Size meta\<rparr>) r2
          in okx_set_position symb (okx_Size meta) r3
        else if prev < 0 \<and> okx_Size meta > 0 then
          let r2 = send env (\<lambda>now.
                \<lparr>Symbol = symb, Action = ActionCloseShort,
                 NotionalUSD = \<bar>prev\<bar> * price, Price = price,
                 LeaderEquity = accountValue, LeaderLeverage = okx_Leverage meta,
                 MarginMode = okx_MarginMode meta, Timestamp = now,
                 DeltaSize = - prev, LeaderPosBefore = prev, LeaderPosAfter = 0\<rparr>) r1;
              r3 = send env (\<lambda>now.
                \<lparr>Symbol = symb, Action = ActionOpenLong,
                 NotionalUSD = \<bar>okx_Size meta\<bar> * price, Price = price,
                 LeaderEquity = accountValue, LeaderLeverage = okx_Leverage meta,
                 MarginMode = okx_MarginMode meta, Timestamp = now,
                 DeltaSize = okx_Size meta, LeaderPosBefore = 0,
                 LeaderPosAfter = okx_Size meta\<rparr>) r2
          in okx_set_position symb (okx_Size meta) r3
        else
          case deriveActionFromDelta prev (okx_Size meta) of
            None \<Rightarrow> okx_set_position symb (okx_Size meta) r1
          | Some action \<Rightarrow>
              let r2 = send env (\<lambda>now.
                    \<lparr>Symbol = symb, Action = action,
                     NotionalUSD = \<bar>delta\<bar> * price, Price = price,
                     LeaderEquity = accountValue, LeaderLeverage = okx_Leverage meta,
                     MarginMode = okx_MarginMode meta, Timestamp = now,
                     DeltaSize = delta, LeaderPosBefore = prev,
                     LeaderPosAfter = okx_Size meta\<rparr>) r1
              in okx_set_position symb (okx_Size meta) r2)"

text \<open>The signal of the last loop leaves \<open>Price\<close> out: it is the zero value.\<close>

definition okx_sweep_step ::
  "env \<Rightarrow> real \<Rightarrow> (string \<times> okxPositionMeta) list \<Rightarrow> string \<Rightarrow>
   okxProvider run \<Rightarrow> okxProvider run" where
  "okx_sweep_step env accountValue positions symb r =
     (case okx_lastPositions (prov r) symb of
        None \<Rightarrow> r
      | Some prev \<Rightarrow>
          if map_of positions symb \<noteq> None then r
          else if prev = 0 then okx_delete_position symb r
          else
            let pr = okx_price env symb r;
                price = fst pr; r1 = snd pr
            in if price \<le> 0 then okx_delete_position symb r1
            else
              let action = (if prev < 0 then ActionCloseShort else ActionCloseLong);
                  r2 = send env (\<lambda>now.
                        \<lparr>Symbol = symb, Action = action,
                         NotionalUSD = \<bar>prev\<bar> * price, Price = 0,
                         LeaderEquity = accountValue, LeaderLeverage = 0,
                         MarginMode = [], Timestamp = now,
                         DeltaSize = - prev, LeaderPosBefore = prev,
                         LeaderPosAfter = 0\<rparr>) r1
              in okx_delete_position symb r2)"

text \<open>
  \<open>fetchAndEmit\<close>. \<open>fetchTrades\<close>, \<open>fetchEquity\<close> and \<open>fetchPositions\<close> are what the three
  venue calls return, \<open>order\<close> the order in which the last loop ranges over the snapshot.
\<close>

definition okx_fetchAndEmit ::
  "env \<Rightarrow> error + okxTradeRecord list \<Rightarrow> error + real \<Rightarrow>
   error + (string \<times> okxPositionMeta) list \<Rightarrow> string list \<Rightarrow>
   okxProvider run \<Rightarrow> error option \<times> okxProvider run" where
  "okx_fetchAndEmit env fetchTrades fetchEquity fetchPositions order r =
     (case fetchTrades of
        Inl err \<Rightarrow> (Some err, r)
      | Inr trades \<Rightarrow>
     (case fetchEquity of
        Inl err \<Rightarrow> (Some err, r)
      | Inr accountValue \<Rightarrow>
          if accountValue \<le> 0 then (Some ''okx equity invalid'', r)
          else
     (case fetchPositions of
        Inl err \<Rightarrow> (Some err, r)
      | Inr positions \<Rightarrow>
          let r1 = r\<lparr>prov := okx_ingest env trades (prov r)\<rparr>
          in if \<not> okx_initialized (prov r1)
             then (None, r1\<lparr>prov := (okx_init_snapshot positions (prov r1))
                                       \<lparr>okx_initialized := True\<rparr>\<rparr>)
             else (None,
                   fold (okx_sweep_step env accountValue positions) order
                     (fold (okx_diff_step env accountValue) positions r1)))))"

section \<open>The vocabulary of the specification\<close>



text \<open>A string is whitespace-only when it is made of white-space runes and nothing else.\<close>

inductive whitespace_only :: "string \<Rightarrow> bool" where
  ws_empty: "whitespace_only []"
| ws_rune: "e \<in> set unicode_space_utf8 \<Longrightarrow> whitespace_only s \<Longrightarrow> whitespace_only (e @ s)"

code_pred whitespace_only .

section \<open>Properties of the string functions\<close>

lemma trim_leading_Nil: "trim_leading encs [] = []"
proof -
  have "leading_space encs [] = None"
    by (simp add: leading_space_def find_None_iff)
  then show ?thesis
    by (subst trim_leading.simps) simp
qed

lemma space_prefix_free_all:
  "list_all (\<lambda>e. list_all (\<lambda>e'. prefix e' e \<longrightarrow> e' = e) unicode_space_utf8)
     unicode_space_utf8"
  by code_simp

lemma space_prefix_free:
  "e \<in> set unicode_space_utf8 \<Longrightarrow> e' \<in> set unicode_space_utf8 \<Longrightarrow> prefix e' e \<Longrightarrow> e' = e"
  using space_prefix_free_all by (simp add: list_all_iff)

lemma space_nonempty: "e \<in> set unicode_space_utf8 \<Longrightarrow> e \<noteq> []"
  by (auto simp: unicode_space_utf8_def)

lemma leading_space_rune:
  assumes "e \<in> set unicode_space_utf8"
  shows "leading_space unicode_space_utf8 (e @ s) = Some e"
proof -
  have "find (\<lambda>x. x \<noteq> [] \<and> prefix x (e @ s)) unicode_space_utf8 \<noteq> None"
    using assms space_nonempty by (auto simp: find_None_iff)
  then obtain e' where
    f: "find (\<lambda>x. x \<noteq> [] \<and> prefix x (e @ s)) unicode_space_utf8 = Some e'"
    by blast
  then have e': "e' \<in> set unicode_space_utf8" "prefix e' (e @ s)"
    by (auto simp: find_Some_iff)
  have "prefix e (e @ s)" by simp
  with e'(2) have "prefix e e' \<or> prefix e' e"
    using prefix_same_cases by blast
  with assms e'(1) have "e' = e"
    using space_prefix_free by blast
  with f show ?thesis by (simp add: leading_space_def)
qed

lemma TrimLeft_whitespace_only: "whitespace_only s \<Longrightarrow> strings_TrimLeft s = []"
proof (induction rule: whitespace_only.induct)
  case ws_empty
  show ?case by (simp add: strings_TrimLeft_def trim_leading_Nil)
next
  case (ws_rune e s)
  have "trim_leading unicode_space_utf8 (e @ s) = trim_leading unicode_space_utf8 s"
    by (subst trim_leading.simps) (simp add: leading_space_rune [OF ws_rune.hyps(1)])
  with ws_rune.IH show ?case by (simp add: strings_TrimLeft_def)
qed

lemma TrimSpace_whitespace_only: "whitespace_only s \<Longrightarrow> strings_TrimSpace s = []"
  by (simp add: strings_TrimSpace_def TrimLeft_whitespace_only strings_TrimRight_def
      trim_leading_Nil)

section \<open>The copy configuration\<close>

text \<open>
  C8. Normalisation, field by field: \<open>follow_ratio\<close> becomes 100 when it is \<open>\<le> 0\<close>;
  \<open>min_amount\<close> and \<open>max_amount\<close> become 0 when negative; when the three \<open>follow\<close> flags
  are all false they all become true; every field stays as it was otherwise, and the two
  \<open>sync\<close> flags always do.
\<close>

theorem normalizeCopyTradingConfig_fields:
  "FollowRatio (normalizeCopyTradingConfig cfg) =
     (if FollowRatio cfg \<le> 0 then 100 else FollowRatio cfg) \<and>
   MinAmount (normalizeCopyTradingConfig cfg) =
     (if MinAmount cfg < 0 then 0 else MinAmount cfg) \<and>
   MaxAmount (normalizeCopyTradingConfig cfg) =
     (if MaxAmount cfg < 0 then 0 else MaxAmount cfg) \<and>
   FollowOpen (normalizeCopyTradingConfig cfg) =
     (if \<not> FollowOpen cfg \<and> \<not> FollowAdd cfg \<and> \<not> FollowReduce cfg then True
      else FollowOpen cfg) \<and>
   FollowAdd (normalizeCopyTradingConfig cfg) =
     (if \<not> FollowOpen cfg \<and> \<not> FollowAdd cfg \<and> \<not> FollowReduce cfg then True
      else FollowAdd cfg) \<and>
   FollowReduce (normalizeCopyTradingConfig cfg) =
     (if \<not> FollowOpen cfg \<and> \<not> FollowAdd cfg \<and> \<not> FollowReduce cfg then True
      else FollowReduce cfg) \<and>
   SyncLeverage (normalizeCopyTradingConfig cfg) = SyncLeverage cfg \<and>
   SyncMarginMode (normalizeCopyTradingConfig cfg) = SyncMarginMode cfg"
  by (simp add: normalizeCopyTradingConfig_def DefaultCopyTradingConfig_def Let_def)

theorem normalizeCopyTradingConfig_fields_witness:
  "normalizeCopyTradingConfig
     \<lparr>FollowOpen = False, FollowAdd = False, FollowReduce = False, FollowRatio = - 5,
      MinAmount = - 1, MaxAmount = 7, SyncLeverage = False, SyncMarginMode = True\<rparr>
   = \<lparr>FollowOpen = True, FollowAdd = True, FollowReduce = True, FollowRatio = 100,
      MinAmount = 0, MaxAmount = 7, SyncLeverage = False, SyncMarginMode = True\<rparr>"
  using normalizeCopyTradingConfig_fields
    [of "\<lparr>FollowOpen = False, FollowAdd = False, FollowReduce = False, FollowRatio = - 5,
          MinAmount = - 1, MaxAmount = 7, SyncLeverage = False, SyncMarginMode = True\<rparr>"]
  by (intro CopyTradingConfig.equality) simp_all

text \<open>
  C10. An input that is empty, whitespace-only or not well-formed JSON parses to the
  default configuration: the five flags true, \<open>follow_ratio\<close> 100, both amounts 0. No
  error is returned; \<open>ParseCopyTradingConfig\<close> has none to return.
\<close>

theorem ParseCopyTradingConfig_default:
  assumes "raw = [] \<or> whitespace_only raw \<or> \<not> json_Valid J raw"
  shows "ParseCopyTradingConfig J raw =
     \<lparr>FollowOpen = True, FollowAdd = True, FollowReduce = True, FollowRatio = 100,
      MinAmount = 0, MaxAmount = 0, SyncLeverage = True, SyncMarginMode = True\<rparr>"
proof -
  have "strings_TrimSpace raw = [] \<or> \<not> json_Valid J raw"
    using assms TrimSpace_whitespace_only whitespace_only.ws_empty by blast
  then show ?thesis
    by (auto simp: ParseCopyTradingConfig_def json_Unmarshal_def DefaultCopyTradingConfig_def
        Let_def)
qed

theorem ParseCopyTradingConfig_default_witness:
  "whitespace_only [CHR 0x20, CHR 0x09] \<and>
   ParseCopyTradingConfig
     \<lparr>json_Valid = (\<lambda>s. s = ''{}''), json_decode = (\<lambda>s c. (None, c))\<rparr> [CHR 0x20, CHR 0x09] =
     \<lparr>FollowOpen = True, FollowAdd = True, FollowReduce = True, FollowRatio = 100,
      MinAmount = 0, MaxAmount = 0, SyncLeverage = True, SyncMarginMode = True\<rparr> \<and>
   \<not> json_Valid \<lparr>json_Valid = (\<lambda>s. s = ''{}''), json_decode = (\<lambda>s c. (None, c))\<rparr> ''{bad'' \<and>
   ParseCopyTradingConfig
     \<lparr>json_Valid = (\<lambda>s. s = ''{}''), json_decode = (\<lambda>s c. (None, c))\<rparr> ''{bad'' =
     \<lparr>FollowOpen = True, FollowAdd = True, FollowReduce = True, FollowRatio = 100,
      MinAmount = 0, MaxAmount = 0, SyncLeverage = True, SyncMarginMode = True\<rparr>"
proof -
  have "whitespace_only ([CHR 0x20] @ [CHR 0x09] @ [])"
    by (intro whitespace_only.intros) (simp_all add: unicode_space_utf8_def)
  then have w: "whitespace_only [CHR 0x20, CHR 0x09]"
    by simp
  have v: "\<not> json_Valid \<lparr>json_Valid = (\<lambda>s. s = ''{}''), json_decode = (\<lambda>s c. (None, c))\<rparr>
             ''{bad''"
    by simp
  show ?thesis
    using w v
      ParseCopyTradingConfig_default
        [of "[CHR 0x20, CHR 0x09]"
            "\<lparr>json_Valid = (\<lambda>s. s = ''{}''), json_decode = (\<lambda>s c. (None, c))\<rparr>"]
      ParseCopyTradingConfig_default
        [of "''{bad''"
            "\<lparr>json_Valid = (\<lambda>s. s = ''{}''), json_decode = (\<lambda>s c. (None, c))\<rparr>"]
    by blast
qed

section \<open>The provider factory\<close>

text \<open>
  C9. \<open>NewProvider\<close> returns the error \<open>unsupported signal source type\<close> exactly when the
  type is none of \<open>hyperliquid_wallet\<close>, \<open>hyperliquid\<close>, \<open>okx_wallet\<close>, \<open>okx\<close>. For a
  supported type it returns a new provider of that venue whose poll interval is the
  configured one, or 3 seconds when that is not positive, and whose HTTP client is the
  given one, or one with a timeout of 10 seconds when none is given.
\<close>

theorem NewProvider_result:
  "(NewProvider cfg = Inl ''unsupported signal source type'') =
     (Type cfg \<notin> {''hyperliquid_wallet'', ''hyperliquid'', ''okx_wallet'', ''okx''}) \<and>
   (Type cfg \<in> {''hyperliquid_wallet'', ''hyperliquid''} \<longrightarrow>
      NewProvider cfg = Inr (Hyperliquid
        \<lparr>hl_user = strings_TrimSpace (Identifier cfg),
         hl_pollInterval = (if PollInterval cfg \<le> 0 then 3 * time_Second else PollInterval cfg),
         hl_client = (case HTTPClient cfg of
                        None \<Rightarrow> Some \<lparr>Timeout = 10 * time_Second\<rparr>
                      | Some c \<Rightarrow> Some c),
         hl_lastTID = 0, hl_initialized = False,
         hl_lastPositions = Map.empty, hl_lastPrices = Map.empty\<rparr>)) \<and>
   (Type cfg \<in> {''okx_wallet'', ''okx''} \<longrightarrow>
      NewProvider cfg = Inr (OKX
        \<lparr>okx_uniqueName = strings_TrimSpace (Identifier cfg),
         okx_pollInterval = (if PollInterval cfg \<le> 0 then 3 * time_Second else PollInterval cfg),
         okx_client = (case HTTPClient cfg of
                         None \<Rightarrow> Some \<lparr>Timeout = 10 * time_Second\<rparr>
                       | Some c \<Rightarrow> Some c),
         okx_lastFillTime = 0, okx_initialized = False,
         okx_lastPositions = Map.empty, okx_lastPrices = Map.empty\<rparr>))"
proof (intro conjI impI)
  show "(NewProvider cfg = Inl ''unsupported signal source type'') =
     (Type cfg \<notin> {''hyperliquid_wallet'', ''hyperliquid'', ''okx_wallet'', ''okx''})"
    by (simp add: NewProvider_def Let_def)
next
  assume "Type cfg \<in> {''hyperliquid_wallet'', ''hyperliquid''}"
  then show "NewProvider cfg = Inr (Hyperliquid
        \<lparr>hl_user = strings_TrimSpace (Identifier cfg),
         hl_pollInterval = (if PollInterval cfg \<le> 0 then 3 * time_Second else PollInterval cfg),
         hl_client = (case HTTPClient cfg of
                        None \<Rightarrow> Some \<lparr>Timeout = 10 * time_Second\<rparr>
                      | Some c \<Rightarrow> Some c),
         hl_lastTID = 0, hl_initialized = False,
         hl_lastPositions = Map.empty, hl_lastPrices = Map.empty\<rparr>)"
    by (cases "HTTPClient cfg"; elim insertE emptyE;
        simp add: NewProvider_def newHyperliquidProvider_def Let_def)
next
  assume "Type cfg \<in> {''okx_wallet'', ''okx''}"
  then show "NewProvider cfg = Inr (OKX
        \<lparr>okx_uniqueName = strings_TrimSpace (Identifier cfg),
         okx_pollInterval = (if PollInterval cfg \<le> 0 then 3 * time_Second else PollInterval cfg),
         okx_client = (case HTTPClient cfg of
                         None \<Rightarrow> Some \<lparr>Timeout = 10 * time_Second\<rparr>
                       | Some c \<Rightarrow> Some c),
         okx_lastFillTime = 0, okx_initialized = False,
         okx_lastPositions = Map.empty, okx_lastPrices = Map.empty\<rparr>)"
    by (cases "HTTPClient cfg"; elim insertE emptyE;
        simp add: NewProvider_def newOKXProvider_def Let_def)
qed

theorem NewProvider_result_witness:
  "NewProvider \<lparr>Type = ''okx'', Identifier = ''leader'', PollInterval = 0, HTTPClient = None\<rparr> =
     Inr (OKX \<lparr>okx_uniqueName = ''leader'', okx_pollInterval = 3000000000,
       okx_client = Some \<lparr>Timeout = 10000000000\<rparr>,
       okx_lastFillTime = 0, okx_initialized = False,
       okx_lastPositions = Map.empty, okx_lastPrices = Map.empty\<rparr>) \<and>
   NewProvider \<lparr>Type = ''binance'', Identifier = ''leader'', PollInterval = 0,
     HTTPClient = None\<rparr> = Inl ''unsupported signal source type''"
proof -
  have t: "strings_TrimSpace ''leader'' = ''leader''"
    by code_simp
  show ?thesis
    using NewProvider_result
      [of "\<lparr>Type = ''okx'', Identifier = ''leader'', PollInterval = 0, HTTPClient = None\<rparr>"]
      NewProvider_result
      [of "\<lparr>Type = ''binance'', Identifier = ''leader'', PollInterval = 0,
            HTTPClient = None\<rparr>"]
    by (simp add: t time_Second_def)
qed

section \<open>Runs: sending, loops\<close>

lemma send_simps:
  "sent (send env mk r) = sent r @ [mk (time_Now env (ticks r))]"
  "prov (send env mk r) = prov r"
  "ticks (send env mk r) = Suc (ticks r)"
  by (simp_all add: send_def)



lemma emitted_append: "sent r' = sent r @ new \<Longrightarrow> emitted r r' = new"
  by (simp add: emitted_def)

lemma emitted_same: "sent r' = sent r \<Longrightarrow> emitted r r' = []"
  by (simp add: emitted_def)

lemma fold_fixed: "(\<And>x. x \<in> set xs \<Longrightarrow> f x r = r) \<Longrightarrow> fold f xs r = r"
  by (induction xs) simp_all

lemma fold_inv_sent:
  assumes "\<And>x r. I r \<Longrightarrow> I (f x r) \<and> (\<exists>new. sent (f x r) = sent r @ new \<and> (\<forall>s \<in> set new. Q s))"
    and "I r"
  shows "I (fold f xs r) \<and> (\<exists>new. sent (fold f xs r) = sent r @ new \<and> (\<forall>s \<in> set new. Q s))"
  using assms(2)
proof (induction xs arbitrary: r)
  case Nil
  then show ?case by simp
next
  case (Cons x xs)
  from assms(1) [OF Cons.prems, of x] obtain n1 where
    n1: "I (f x r)" "sent (f x r) = sent r @ n1" "\<forall>s \<in> set n1. Q s"
    by blast
  from Cons.IH [OF n1(1)] obtain n2 where
    n2: "I (fold f xs (f x r))" "sent (fold f xs (f x r)) = sent (f x r) @ n2" "\<forall>s \<in> set n2. Q s"
    by blast
  have "sent (fold f (x # xs) r) = sent r @ (n1 @ n2)"
    using n1(2) n2(2) by simp
  moreover have "\<forall>s \<in> set (n1 @ n2). Q s"
    using n1(3) n2(3) by auto
  ultimately show ?case using n2(1) by (metis fold_simps(2))
qed

lemma fold_inv_sent_set:
  assumes "\<And>x r. x \<in> set xs \<Longrightarrow> I r \<Longrightarrow>
      I (f x r) \<and> (\<exists>new. sent (f x r) = sent r @ new \<and> (\<forall>s \<in> set new. Q s))"
    and "I r"
  shows "I (fold f xs r) \<and> (\<exists>new. sent (fold f xs r) = sent r @ new \<and> (\<forall>s \<in> set new. Q s))"
  using assms
proof (induction xs arbitrary: r)
  case Nil
  then show ?case by simp
next
  case (Cons x xs)
  from Cons.prems(1) [of x r] Cons.prems(2) obtain n1 where
    n1: "I (f x r)" "sent (f x r) = sent r @ n1" "\<forall>s \<in> set n1. Q s"
    by auto
  have "I (fold f xs (f x r)) \<and>
      (\<exists>new. sent (fold f xs (f x r)) = sent (f x r) @ new \<and> (\<forall>s \<in> set new. Q s))"
    using Cons.prems(1) n1(1) by (intro Cons.IH) auto
  then obtain n2 where
    n2: "I (fold f xs (f x r))" "sent (fold f xs (f x r)) = sent (f x r) @ n2" "\<forall>s \<in> set n2. Q s"
    by blast
  have "sent (fold f (x # xs) r) = sent r @ (n1 @ n2)"
    using n1(2) n2(2) by simp
  moreover have "\<forall>s \<in> set (n1 @ n2). Q s"
    using n1(3) n2(3) by auto
  ultimately show ?case using n2(1) by (metis fold_simps(2))
qed

section \<open>The Hyperliquid observer, step by step\<close>

lemma hl_set_position_simps:
  "sent (hl_set_position k v r) = sent r"
  "ticks (hl_set_position k v r) = ticks r"
  "hl_lastPositions (prov (hl_set_position k v r)) = (hl_lastPositions (prov r))(k \<mapsto> v)"
  "hl_lastPrices (prov (hl_set_position k v r)) = hl_lastPrices (prov r)"
  "hl_initialized (prov (hl_set_position k v r)) = hl_initialized (prov r)"
  by (simp_all add: hl_set_position_def)

lemma hl_delete_position_simps:
  "sent (hl_delete_position k r) = sent r"
  "ticks (hl_delete_position k r) = ticks r"
  "hl_lastPositions (prov (hl_delete_position k r)) = (hl_lastPositions (prov r))(k := None)"
  "hl_lastPrices (prov (hl_delete_position k r)) = hl_lastPrices (prov r)"
  "hl_initialized (prov (hl_delete_position k r)) = hl_initialized (prov r)"
  by (simp_all add: hl_delete_position_def)

lemma hl_price_simps:
  "sent (snd (hl_price env c r)) = sent r"
  "hl_lastPositions (prov (snd (hl_price env c r))) = hl_lastPositions (prov r)"
  "hl_initialized (prov (snd (hl_price env c r))) = hl_initialized (prov r)"
  by (simp_all add: hl_price_def Let_def split: option.split)






lemma hl_ingest_fill_keeps:
  "hl_lastPositions (snd (hl_ingest_fill env f mp)) = hl_lastPositions (snd mp)"
  "hl_initialized (snd (hl_ingest_fill env f mp)) = hl_initialized (snd mp)"
  by (simp_all add: hl_ingest_fill_def Let_def)

lemma hl_ingest_fold_keeps:
  "hl_lastPositions (snd (fold (hl_ingest_fill env) fs mp)) = hl_lastPositions (snd mp) \<and>
   hl_initialized (snd (fold (hl_ingest_fill env) fs mp)) = hl_initialized (snd mp)"
  by (induction fs arbitrary: mp) (simp_all add: hl_ingest_fill_keeps)

lemma hl_ingest_keeps:
  "hl_lastPositions (hl_ingest env fills p) = hl_lastPositions p"
  "hl_initialized (hl_ingest env fills p) = hl_initialized p"
  using hl_ingest_fold_keeps [of env "sort_Slice hl_fill_less fills" "(hl_lastTID p, p)"]
  by (simp_all add: hl_ingest_def Let_def)

lemma hl_init_snapshot_shape: "\<exists>m. hl_init_snapshot ps p = p\<lparr>hl_lastPositions := m\<rparr>"
  unfolding hl_init_snapshot_def
proof (induction ps arbitrary: p)
  case Nil
  have "p = p\<lparr>hl_lastPositions := hl_lastPositions p\<rparr>" by simp
  then show ?case by (metis fold_simps(1))
next
  case (Cons e ps)
  let ?p' = "p\<lparr>hl_lastPositions := (hl_lastPositions p)(fst e \<mapsto> hl_Size (snd e))\<rparr>"
  let ?F = "\<lambda>e q. q\<lparr>hl_lastPositions := (hl_lastPositions q)(fst e \<mapsto> hl_Size (snd e))\<rparr>"
  from Cons [of ?p'] obtain m where "fold ?F ps ?p' = ?p'\<lparr>hl_lastPositions := m\<rparr>"
    by blast
  then have "fold ?F (e # ps) p = p\<lparr>hl_lastPositions := m\<rparr>"
    by simp
  then show ?case by blast
qed

lemma hl_init_snapshot_others:
  "hl_init_snapshot ps p = p\<lparr>hl_lastPositions := hl_lastPositions (hl_init_snapshot ps p)\<rparr>"
proof -
  obtain m where m: "hl_init_snapshot ps p = p\<lparr>hl_lastPositions := m\<rparr>"
    using hl_init_snapshot_shape by blast
  then show ?thesis by simp
qed

lemma hl_init_snapshot_lookup:
  "distinct (map fst ps) \<Longrightarrow>
   hl_lastPositions (hl_init_snapshot ps p) k =
     (case map_of ps k of None \<Rightarrow> hl_lastPositions p k | Some m \<Rightarrow> Some (hl_Size m))"
  unfolding hl_init_snapshot_def
proof (induction ps arbitrary: p)
  case Nil
  show ?case by simp
next
  case (Cons e ps)
  have "fst e \<notin> fst ` set ps" using Cons.prems by simp
  then have "map_of ps (fst e) = None" by (simp add: map_of_eq_None_iff)
  with Cons show ?case by (cases e) (auto split: option.split)
qed

lemma hl_diff_step_same:
  "lookup0 (hl_lastPositions (prov r)) (fst e) = hl_Size (snd e) \<Longrightarrow> hl_diff_step env av e r = r"
  by (simp add: hl_diff_step_def Let_def)

lemma hl_sweep_step_present:
  "hl_lastPositions (prov r) k = None \<or> map_of ps k \<noteq> None \<Longrightarrow> hl_sweep_step env av ps k r = r"
  by (auto simp: hl_sweep_step_def split: option.split)

lemma hl_first_poll:
  assumes "\<not> hl_initialized (prov r)" "0 < AccountValue state"
  shows "hl_fetchAndEmit env (Inr fills) (Inr state) order r =
    (None, r\<lparr>prov := (hl_ingest env fills (prov r))
        \<lparr>hl_lastPositions := hl_lastPositions
            (hl_init_snapshot (Positions state) (hl_ingest env fills (prov r))),
         hl_initialized := True\<rparr>\<rparr>)"
  using assms hl_init_snapshot_others [of "Positions state" "hl_ingest env fills (prov r)"]
  by (simp add: hl_fetchAndEmit_def Let_def hl_ingest_keeps)

lemma hl_repeated_poll:
  assumes "hl_initialized (prov r)" 
    and "distinct (map fst (Positions state))"
    and "hl_lastPositions (prov r) = map_option hl_Size \<circ> map_of (Positions state)"
  shows "hl_fetchAndEmit env (Inr fills) (Inr state) order r =
    (if AccountValue state \<le> 0 then (Some ''invalid Hyperliquid account value'', r)
     else (None, r\<lparr>prov := hl_ingest env fills (prov r)\<rparr>))"
proof -
  let ?r1 = "r\<lparr>prov := hl_ingest env fills (prov r)\<rparr>"
  have lp: "hl_lastPositions (hl_ingest env fills (prov r)) =
      map_option hl_Size \<circ> map_of (Positions state)"
    using assms(3) by (simp add: hl_ingest_keeps)
  have "hl_diff_step env av e ?r1 = ?r1" if "e \<in> set (Positions state)" for e av
  proof -
    have "map_of (Positions state) (fst e) = Some (snd e)"
      using map_of_eq_Some_iff [OF assms(2), of "fst e" "snd e"] that by simp
    then show ?thesis
      by (intro hl_diff_step_same) (simp add: lp lookup0_def)
  qed
  then have d: "fold (hl_diff_step env av) (Positions state) ?r1 = ?r1" for av
    by (intro fold_fixed)
  have "hl_sweep_step env av (Positions state) k ?r1 = ?r1" for k av
    by (intro hl_sweep_step_present) (auto simp: lp)
  then have s: "fold (hl_sweep_step env av (Positions state)) order ?r1 = ?r1" for av
    by (intro fold_fixed)
  show ?thesis
    using assms(1) by (simp add: hl_fetchAndEmit_def Let_def hl_ingest_keeps d s)
qed

lemma hl_equity_abort:
  "AccountValue state \<le> 0 \<Longrightarrow>
   hl_fetchAndEmit env (Inr fills) (Inr state) order r =
     (Some ''invalid Hyperliquid account value'', r)"
  by (simp add: hl_fetchAndEmit_def)

lemma hl_diff_step_other_key:
  "k \<noteq> fst e \<Longrightarrow> hl_lastPositions (prov (hl_diff_step env av e r)) k = hl_lastPositions (prov r) k"
  by (simp add: hl_diff_step_def Let_def send_simps hl_set_position_simps hl_price_simps
      split: option.split)

lemma hl_diff_loop_other_keys:
  "k \<notin> fst ` set xs \<Longrightarrow>
   hl_lastPositions (prov (fold (hl_diff_step env av) xs r)) k = hl_lastPositions (prov r) k"
  by (induction xs arbitrary: r) (simp_all add: hl_diff_step_other_key)

lemma hl_sweep_step_other_key:
  "k \<noteq> k' \<Longrightarrow>
   hl_lastPositions (prov (hl_sweep_step env av ps k' r)) k = hl_lastPositions (prov r) k"
  by (simp add: hl_sweep_step_def Let_def send_simps hl_delete_position_simps hl_price_simps
      split: option.split)

lemma hl_sweep_loop_other_keys:
  "k \<notin> set ks \<Longrightarrow>
   hl_lastPositions (prov (fold (hl_sweep_step env av ps) ks r)) k = hl_lastPositions (prov r) k"
  by (induction ks arbitrary: r) (simp_all add: hl_sweep_step_other_key)

lemma hl_sweep_step_absent:
  "map_of ps k = None \<Longrightarrow> hl_lastPositions (prov (hl_sweep_step env av ps k r)) k = None"
  by (simp add: hl_sweep_step_def Let_def send_simps hl_delete_position_simps hl_price_simps
      split: option.split)

lemma hl_sweep_step_stays_absent:
  "hl_lastPositions (prov r) k = None \<Longrightarrow>
   hl_lastPositions (prov (hl_sweep_step env av ps k' r)) k = None"
  by (simp add: hl_sweep_step_def Let_def send_simps hl_delete_position_simps hl_price_simps
      split: option.split)

lemma hl_sweep_loop_stays_absent:
  "hl_lastPositions (prov r) k = None \<Longrightarrow>
   hl_lastPositions (prov (fold (hl_sweep_step env av ps) ks r)) k = None"
  by (induction ks arbitrary: r) (simp_all add: hl_sweep_step_stays_absent)

lemma hl_sweep_loop_absent:
  "map_of ps k = None \<Longrightarrow> k \<in> set ks \<Longrightarrow>
   hl_lastPositions (prov (fold (hl_sweep_step env av ps) ks r)) k = None"
proof (induction ks arbitrary: r)
  case Nil
  then show ?case by simp
next
  case (Cons a ks)
  show ?case
  proof (cases "a = k")
    case True
    then show ?thesis
      using Cons.prems(1) by (simp add: hl_sweep_loop_stays_absent hl_sweep_step_absent)
  next
    case False
    then show ?thesis using Cons by simp
  qed
qed

lemma hl_diff_step_flip:
  assumes "prev = lookup0 (hl_lastPositions (prov r)) symb"
    and "(0 < prev \<and> hl_Size meta < 0) \<or> (prev < 0 \<and> 0 < hl_Size meta)"
    and "hl_price env (convertHyperliquidSymbol symb) r = (price, r1)"
    and "0 < price"
  shows "hl_diff_step env av (symb, meta) r =
     r1\<lparr>sent := sent r1 @
         [\<lparr>Symbol = convertHyperliquidSymbol symb,
           Action = (if 0 < prev then ActionCloseLong else ActionCloseShort),
           NotionalUSD = \<bar>prev\<bar> * price, Price = price, LeaderEquity = av,
           LeaderLeverage = hl_Leverage meta, MarginMode = hl_MarginMode meta,
           Timestamp = time_Now env (ticks r1),
           DeltaSize = - prev, LeaderPosBefore = prev, LeaderPosAfter = 0\<rparr>,
          \<lparr>Symbol = convertHyperliquidSymbol symb,
           Action = (if 0 < prev then ActionOpenShort else ActionOpenLong),
           NotionalUSD = \<bar>hl_Size meta\<bar> * price, Price = price, LeaderEquity = av,
           LeaderLeverage = hl_Leverage meta, MarginMode = hl_MarginMode meta,
           Timestamp = time_Now env (Suc (ticks r1)),
           DeltaSize = hl_Size meta, LeaderPosBefore = 0, LeaderPosAfter = hl_Size meta\<rparr>],
        ticks := Suc (Suc (ticks r1)),
        prov := (prov r1)\<lparr>hl_lastPositions :=
                  (hl_lastPositions (prov r1))(symb \<mapsto> hl_Size meta)\<rparr>\<rparr>"
proof -
  have s: "sent r1 = sent r" "hl_lastPositions (prov r1) = hl_lastPositions (prov r)"
    using hl_price_simps(1,2) [of env "convertHyperliquidSymbol symb" r] assms(3) by simp_all
  show ?thesis
    using assms s
    by (auto simp: hl_diff_step_def Let_def send_def hl_set_position_def)
qed

lemma hl_diff_step_change:
  assumes "prev = lookup0 (hl_lastPositions (prov r)) symb"
    and "hl_Size meta \<noteq> prev"
    and "\<not> (0 < prev \<and> hl_Size meta < 0)" "\<not> (prev < 0 \<and> 0 < hl_Size meta)"
    and "hl_price env (convertHyperliquidSymbol symb) r = (price, r1)"
    and "0 < price"
  shows "hl_diff_step env av (symb, meta) r =
     r1\<lparr>sent := sent r1 @
         [\<lparr>Symbol = convertHyperliquidSymbol symb,
           Action = (if prev < hl_Size meta
                     then (if 0 < hl_Size meta then ActionAddLong else ActionReduceShort)
                     else (if hl_Size meta < 0 then ActionAddShort else ActionReduceLong)),
           NotionalUSD = \<bar>hl_Size meta - prev\<bar> * price, Price = price, LeaderEquity = av,
           LeaderLeverage = hl_Leverage meta, MarginMode = hl_MarginMode meta,
           Timestamp = time_Now env (ticks r1),
           DeltaSize = hl_Size meta - prev, LeaderPosBefore = prev,
           LeaderPosAfter = hl_Size meta\<rparr>],
        ticks := Suc (ticks r1),
        prov := (prov r1)\<lparr>hl_lastPositions :=
                  (hl_lastPositions (prov r1))(symb \<mapsto> hl_Size meta)\<rparr>\<rparr>"
proof -
  have s: "sent r1 = sent r" "hl_lastPositions (prov r1) = hl_lastPositions (prov r)"
    using hl_price_simps(1,2) [of env "convertHyperliquidSymbol symb" r] assms(5) by simp_all
  show ?thesis
    using assms s
    by (auto simp: hl_diff_step_def Let_def send_def hl_set_position_def deriveActionFromDelta_def)
qed

lemma hl_sweep_step_gone:
  assumes "hl_lastPositions (prov r) symb = Some prev" "prev \<noteq> 0"
    and "map_of positions symb = None"
    and "hl_price env (convertHyperliquidSymbol symb) r = (price, r1)"
  shows "hl_sweep_step env av positions symb r =
     (if 0 < price
      then r1\<lparr>sent := sent r1 @
             [\<lparr>Symbol = convertHyperliquidSymbol symb,
               Action = (if 0 < prev then ActionCloseLong else ActionCloseShort),
               NotionalUSD = \<bar>prev\<bar> * price, Price = price, LeaderEquity = av,
               LeaderLeverage = 0, MarginMode = [],
               Timestamp = time_Now env (ticks r1),
               DeltaSize = - prev, LeaderPosBefore = prev, LeaderPosAfter = 0\<rparr>],
             ticks := Suc (ticks r1),
             prov := (prov r1)\<lparr>hl_lastPositions := (hl_lastPositions (prov r1))(symb := None)\<rparr>\<rparr>
      else r1\<lparr>prov := (prov r1)\<lparr>hl_lastPositions :=
                  (hl_lastPositions (prov r1))(symb := None)\<rparr>\<rparr>)"
proof -
  have s: "sent r1 = sent r" "hl_lastPositions (prov r1) = hl_lastPositions (prov r)"
    using hl_price_simps(1,2) [of env "convertHyperliquidSymbol symb" r] assms(4) by simp_all
  show ?thesis
    using assms s
    by (auto simp: hl_sweep_step_def Let_def send_def hl_delete_position_def)
qed

lemma hl_price_no_price:
  assumes "\<not> 0 < lookup0 (hl_lastPrices (prov r)) c"
    and "\<forall>cp. market_Get env (ticks r) c = Some cp \<longrightarrow> cp \<le> 0"
  shows "hl_price env c r = (lookup0 (hl_lastPrices (prov r)) c, r\<lparr>ticks := Suc (ticks r)\<rparr>)"
  using assms by (auto simp: hl_price_def Let_def split: option.split)

lemma hl_price_other_cache:
  "c' \<noteq> c \<Longrightarrow>
   lookup0 (hl_lastPrices (prov (snd (hl_price env c' r)))) c = lookup0 (hl_lastPrices (prov r)) c"
  by (simp add: hl_price_def Let_def lookup0_def split: option.split)

lemma hl_diff_step_no_price:
  assumes "hl_Size meta \<noteq> lookup0 (hl_lastPositions (prov r)) symb"
    and "\<not> 0 < lookup0 (hl_lastPrices (prov r)) (convertHyperliquidSymbol symb)"
    and "\<forall>cp. market_Get env (ticks r) (convertHyperliquidSymbol symb) = Some cp \<longrightarrow> cp \<le> 0"
  shows "hl_diff_step env av (symb, meta) r = r\<lparr>ticks := Suc (ticks r)\<rparr>"
  using assms(1,2) hl_price_no_price [OF assms(2,3)]
  by (simp add: hl_diff_step_def Let_def)

lemma hl_diff_step_frame:
  assumes "\<forall>k cp. market_Get env k c = Some cp \<longrightarrow> cp \<le> 0"
    and "\<not> 0 < lookup0 (hl_lastPrices (prov r)) c"
    and "convertHyperliquidSymbol symb = c"
  shows "(\<not> 0 < lookup0 (hl_lastPrices (prov (hl_diff_step env av e r))) c \<and>
          hl_lastPositions (prov (hl_diff_step env av e r)) symb = hl_lastPositions (prov r) symb) \<and>
         (\<exists>new. sent (hl_diff_step env av e r) = sent r @ new \<and> (\<forall>s \<in> set new. Symbol s \<noteq> c))"
proof (cases "convertHyperliquidSymbol (fst e) = c")
  case True
  have "hl_price env c r = (lookup0 (hl_lastPrices (prov r)) c, r\<lparr>ticks := Suc (ticks r)\<rparr>)"
    using assms(1,2) by (intro hl_price_no_price) auto
  then show ?thesis
    using True assms(2) by (simp add: hl_diff_step_def Let_def)
next
  case False
  then have ne: "fst e \<noteq> symb" using assms(3) by auto
  have cache: "lookup0 (hl_lastPrices (prov (snd (hl_price env (convertHyperliquidSymbol (fst e)) r)))) c
      = lookup0 (hl_lastPrices (prov r)) c"
    using False by (intro hl_price_other_cache)
  show ?thesis
    using False ne assms(2) cache
    by (auto simp: hl_diff_step_def Let_def send_simps hl_set_position_simps hl_price_simps
        split: option.split)
qed

lemma hl_sweep_step_frame:
  assumes "\<forall>k cp. market_Get env k c = Some cp \<longrightarrow> cp \<le> 0"
    and "\<not> 0 < lookup0 (hl_lastPrices (prov r)) c"
    and "convertHyperliquidSymbol symb = c"
    and "map_of ps symb \<noteq> None"
  shows "(\<not> 0 < lookup0 (hl_lastPrices (prov (hl_sweep_step env av ps k r))) c \<and>
          hl_lastPositions (prov (hl_sweep_step env av ps k r)) symb = hl_lastPositions (prov r) symb) \<and>
         (\<exists>new. sent (hl_sweep_step env av ps k r) = sent r @ new \<and> (\<forall>s \<in> set new. Symbol s \<noteq> c))"
proof (cases "k = symb")
  case True
  then show ?thesis
    using assms(2,4) by (simp add: hl_sweep_step_def split: option.split)
next
  case ne: False
  show ?thesis
  proof (cases "convertHyperliquidSymbol k = c")
    case True
    have "hl_price env c r = (lookup0 (hl_lastPrices (prov r)) c, r\<lparr>ticks := Suc (ticks r)\<rparr>)"
      using assms(1,2) by (intro hl_price_no_price) auto
    then show ?thesis
      using True ne assms(2)
      by (simp add: hl_sweep_step_def Let_def hl_delete_position_def split: option.split)
  next
    case False
    have cache: "lookup0 (hl_lastPrices (prov (snd (hl_price env (convertHyperliquidSymbol k) r)))) c
        = lookup0 (hl_lastPrices (prov r)) c"
      using False by (intro hl_price_other_cache)
    show ?thesis
      using False ne assms(2) cache
      by (auto simp: hl_sweep_step_def Let_def send_simps hl_delete_position_simps hl_price_simps
          split: option.split)
  qed
qed

lemma hl_cycle_frame:
  assumes "hl_initialized (prov r)" "0 < AccountValue state"
    and "map_of (Positions state) symb \<noteq> None"
    and "\<not> 0 < lookup0 (hl_lastPrices (hl_ingest env fills (prov r))) (convertHyperliquidSymbol symb)"
    and "\<forall>k cp. market_Get env k (convertHyperliquidSymbol symb) = Some cp \<longrightarrow> cp \<le> 0"
  shows "(\<forall>s \<in> set (emitted r (snd (hl_fetchAndEmit env (Inr fills) (Inr state) order r))).
            Symbol s \<noteq> convertHyperliquidSymbol symb) \<and>
         hl_lastPositions (prov (snd (hl_fetchAndEmit env (Inr fills) (Inr state) order r))) symb =
           hl_lastPositions (prov r) symb"
proof -
  let ?c = "convertHyperliquidSymbol symb"
  let ?av = "AccountValue state"
  let ?ps = "Positions state"
  let ?I = "\<lambda>q. \<not> 0 < lookup0 (hl_lastPrices (prov q)) ?c \<and>
                 hl_lastPositions (prov q) symb = hl_lastPositions (prov r) symb"
  let ?Q = "\<lambda>s. Symbol s \<noteq> ?c"
  let ?r1 = "r\<lparr>prov := hl_ingest env fills (prov r)\<rparr>"
  let ?r2 = "fold (hl_diff_step env ?av) ?ps ?r1"
  let ?r3 = "fold (hl_sweep_step env ?av ?ps) order ?r2"
  have i1: "?I ?r1"
    using assms(4) by (simp add: hl_ingest_keeps)
  have d: "?I (hl_diff_step env ?av e q) \<and>
      (\<exists>new. sent (hl_diff_step env ?av e q) = sent q @ new \<and> (\<forall>s \<in> set new. ?Q s))"
    if "?I q" for e q
    using hl_diff_step_frame [OF assms(5), of q symb ?av e] that by auto
  have s: "?I (hl_sweep_step env ?av ?ps k q) \<and>
      (\<exists>new. sent (hl_sweep_step env ?av ?ps k q) = sent q @ new \<and> (\<forall>s \<in> set new. ?Q s))"
    if "?I q" for k q
    using hl_sweep_step_frame [OF assms(5), of q symb ?ps ?av k] that assms(3) by auto
  from fold_inv_sent [of ?I "hl_diff_step env ?av" ?Q ?r1 ?ps, OF d i1]
  obtain n1 where n1: "?I ?r2" "sent ?r2 = sent ?r1 @ n1" "\<forall>s \<in> set n1. ?Q s"
    by blast
  from fold_inv_sent [of ?I "hl_sweep_step env ?av ?ps" ?Q ?r2 order, OF s n1(1)]
  obtain n2 where n2: "?I ?r3" "sent ?r3 = sent ?r2 @ n2" "\<forall>s \<in> set n2. ?Q s"
    by blast
  have r': "snd (hl_fetchAndEmit env (Inr fills) (Inr state) order r) = ?r3"
    using assms(1,2) by (simp add: hl_fetchAndEmit_def Let_def hl_ingest_keeps)
  have "sent ?r3 = sent r @ (n1 @ n2)"
    using n1(2) n2(2) by simp
  then have "emitted r ?r3 = n1 @ n2"
    by (rule emitted_append)
  then show ?thesis
    using n1(3) n2(1,3) r' by auto
qed

lemma hl_first_poll_snapshot:
  assumes "\<not> hl_initialized (prov r)" "hl_lastPositions (prov r) = Map.empty"
    and "0 < AccountValue state" "distinct (map fst (Positions state))"
  shows "hl_fetchAndEmit env (Inr fills) (Inr state) order r =
    (None, r\<lparr>prov := (hl_ingest env fills (prov r))
        \<lparr>hl_lastPositions := map_option hl_Size \<circ> map_of (Positions state),
         hl_initialized := True\<rparr>\<rparr>)"
proof -
  have "hl_lastPositions (hl_init_snapshot (Positions state) (hl_ingest env fills (prov r))) k =
      (map_option hl_Size \<circ> map_of (Positions state)) k" for k
    using hl_init_snapshot_lookup [OF assms(4), of "hl_ingest env fills (prov r)" k] assms(2)
    by (simp add: hl_ingest_keeps split: option.split)
  then have "hl_lastPositions (hl_init_snapshot (Positions state) (hl_ingest env fills (prov r))) =
      map_option hl_Size \<circ> map_of (Positions state)"
    by (rule ext)
  then show ?thesis
    using hl_first_poll [OF assms(1,3), of env fills order] by simp
qed

lemma hl_two_polls:
  assumes "\<not> hl_initialized (prov r)" "hl_lastPositions (prov r) = Map.empty"
    and "0 < AccountValue state" "distinct (map fst (Positions state))"
    and "distinct (map fst ps')" "set ps' = set (Positions state)"
    and c1: "c1 = hl_fetchAndEmit env (Inr fills) (Inr state) order r"
    and c2: "c2 = hl_fetchAndEmit env2 (Inr fills2) (Inr \<lparr>AccountValue = av2, Positions = ps'\<rparr>)
                    order2 (snd c1)"
  shows "fst c1 = None \<and> emitted r (snd c1) = [] \<and>
     prov (snd c1) = (hl_ingest env fills (prov r))
        \<lparr>hl_lastPositions := map_option hl_Size \<circ> map_of (Positions state),
         hl_initialized := True\<rparr> \<and>
     emitted (snd c1) (snd c2) = [] \<and>
     hl_lastPositions (prov (snd c2)) = hl_lastPositions (prov (snd c1))"
proof -
  let ?r1 = "r\<lparr>prov := (hl_ingest env fills (prov r))
        \<lparr>hl_lastPositions := map_option hl_Size \<circ> map_of (Positions state),
         hl_initialized := True\<rparr>\<rparr>"
  have 1: "c1 = (None, ?r1)"
    using hl_first_poll_snapshot [OF assms(1-4)] c1 by simp
  have same: "map_of ps' = map_of (Positions state)"
    using assms(4,5,6) by (simp add: map_of_inject_set)
  have 2: "c2 = (if av2 \<le> 0 then (Some ''invalid Hyperliquid account value'', ?r1)
                 else (None, ?r1\<lparr>prov := hl_ingest env2 fills2 (prov ?r1)\<rparr>))"
    unfolding c2 1 snd_conv
    using hl_repeated_poll [of ?r1 "\<lparr>AccountValue = av2, Positions = ps'\<rparr>" env2 fills2 order2]
      assms(5) same
    by simp
  show ?thesis
    unfolding 1 2 by (simp add: emitted_def hl_ingest_keeps)
qed

text \<open>A provider that has not completed a cycle has an empty snapshot: it is born so, and
  a cycle that does not complete changes nothing.\<close>

lemma hl_new_provider_empty:
  "newHyperliquidProvider user pollInterval client = Hyperliquid p \<Longrightarrow>
   \<not> hl_initialized p \<and> hl_lastPositions p = Map.empty"
  by (auto simp: newHyperliquidProvider_def)

lemma hl_uninitialized_stays_empty:
  assumes "\<not> hl_initialized (prov r)" "hl_lastPositions (prov r) = Map.empty"
  shows "hl_initialized (prov (snd (hl_fetchAndEmit env ff fs order r))) \<or>
         snd (hl_fetchAndEmit env ff fs order r) = r"
  using assms
  by (auto simp: hl_fetchAndEmit_def Let_def hl_ingest_keeps split: sum.split)

text \<open>
  What a round of a loop reads is what the previous poll left. When the first loop
  reaches an entry, the snapshot still has the cycle's initial value for its key: the
  fills do not touch the snapshot, and the earlier rounds were about other keys. The
  same holds when the last loop reaches a key that is not among the fetched positions.
\<close>

lemma hl_diff_loop_reaches:
  assumes "symb \<notin> fst ` set xs"
  shows "hl_lastPositions
           (prov (fold (hl_diff_step env av) xs (r\<lparr>prov := hl_ingest env fills (prov r)\<rparr>))) symb
         = hl_lastPositions (prov r) symb"
  using hl_diff_loop_other_keys [OF assms, of env av "r\<lparr>prov := hl_ingest env fills (prov r)\<rparr>"]
  by (simp add: hl_ingest_keeps)

lemma hl_sweep_loop_reaches:
  assumes "map_of ps symb = None" "symb \<notin> set ks"
  shows "hl_lastPositions
           (prov (fold (hl_sweep_step env av ps) ks
              (fold (hl_diff_step env av) ps (r\<lparr>prov := hl_ingest env fills (prov r)\<rparr>)))) symb
         = hl_lastPositions (prov r) symb"
proof -
  have "symb \<notin> fst ` set ps"
    using assms(1) by (simp add: map_of_eq_None_iff)
  then show ?thesis
    using hl_sweep_loop_other_keys [OF assms(2)] hl_diff_loop_reaches by simp
qed

lemma hl_cycle_sweeps:
  assumes "hl_initialized (prov r)" "0 < AccountValue state"
    and "map_of (Positions state) symb = None" "symb \<in> set order"
  shows "hl_lastPositions (prov (snd (hl_fetchAndEmit env (Inr fills) (Inr state) order r))) symb
         = None"
  using assms
  by (simp add: hl_fetchAndEmit_def Let_def hl_ingest_keeps hl_sweep_loop_absent)

text \<open>
  The signals of one symbol in a whole cycle. A round of the first loop sends signals
  with the symbol of its entry only, a round of the last loop with the symbol of its
  key only, and only for a key that is in the snapshot and not among the fetched
  positions. So, when no other key of the fetched positions or of the snapshot is
  converted to the same symbol, the cycle's signals with this symbol are exactly those
  of the one round that handles it.
\<close>

lemma hl_diff_step_symbols:
  "\<exists>new. sent (hl_diff_step env av e r) = sent r @ new \<and>
     (\<forall>s \<in> set new. Symbol s = convertHyperliquidSymbol (fst e))"
  by (auto simp: hl_diff_step_def Let_def send_simps hl_set_position_simps hl_price_simps
      split: option.split)

lemma hl_diff_step_dom:
  "dom (hl_lastPositions (prov (hl_diff_step env av e r))) \<subseteq>
     insert (fst e) (dom (hl_lastPositions (prov r)))"
  by (auto simp: hl_diff_step_def Let_def send_simps hl_set_position_simps hl_price_simps
      split: option.splits if_splits)

lemma hl_sweep_step_symbols:
  "\<exists>new. sent (hl_sweep_step env av ps k r) = sent r @ new \<and>
     (\<forall>s \<in> set new. Symbol s = convertHyperliquidSymbol k \<and>
        k \<in> dom (hl_lastPositions (prov r)) \<and> map_of ps k = None)"
  by (auto simp: hl_sweep_step_def Let_def send_simps hl_delete_position_simps hl_price_simps
      split: option.split)

lemma hl_sweep_step_dom:
  "dom (hl_lastPositions (prov (hl_sweep_step env av ps k r))) \<subseteq> dom (hl_lastPositions (prov r))"
  by (auto simp: hl_sweep_step_def Let_def send_simps hl_delete_position_simps hl_price_simps
      split: option.splits if_splits)

lemma hl_cycle_symbol_diff:
  assumes init: "hl_initialized (prov r)" "0 < AccountValue state"
    and P: "Positions state = xs @ (symb, meta) # ys" "distinct (map fst (Positions state))"
    and inj: "\<forall>k \<in> fst ` set (Positions state) \<union> dom (hl_lastPositions (prov r)).
        k \<noteq> symb \<longrightarrow> convertHyperliquidSymbol k \<noteq> convertHyperliquidSymbol symb"
    and rb: "rb = fold (hl_diff_step env (AccountValue state)) xs
                    (r\<lparr>prov := hl_ingest env fills (prov r)\<rparr>)"
  shows "filter (\<lambda>s. Symbol s = convertHyperliquidSymbol symb)
           (emitted r (snd (hl_fetchAndEmit env (Inr fills) (Inr state) order r)))
         = emitted rb (hl_diff_step env (AccountValue state) (symb, meta) rb)"
proof -
  let ?c = "convertHyperliquidSymbol symb"
  let ?av = "AccountValue state"
  let ?ps = "Positions state"
  let ?D = "fst ` set ?ps \<union> dom (hl_lastPositions (prov r))"
  let ?I = "\<lambda>q. dom (hl_lastPositions (prov q)) \<subseteq> ?D"
  let ?Q = "\<lambda>s. Symbol s \<noteq> ?c"
  let ?r1 = "r\<lparr>prov := hl_ingest env fills (prov r)\<rparr>"
  let ?rb' = "hl_diff_step env ?av (symb, meta) rb"
  let ?rc = "fold (hl_diff_step env ?av) ys ?rb'"
  let ?rd = "fold (hl_sweep_step env ?av ?ps) order ?rc"
  have keys: "symb \<notin> fst ` set xs" "symb \<notin> fst ` set ys"
    using P by auto
  have sub: "fst ` set xs \<subseteq> fst ` set ?ps" "fst ` set ys \<subseteq> fst ` set ?ps"
      "symb \<in> fst ` set ?ps"
    using P(1) by auto
  have d: "?I (hl_diff_step env ?av e q) \<and>
      (\<exists>new. sent (hl_diff_step env ?av e q) = sent q @ new \<and> (\<forall>s \<in> set new. ?Q s))"
    if "e \<in> set zs" "symb \<notin> fst ` set zs" "fst ` set zs \<subseteq> fst ` set ?ps" "?I q" for e q zs
  proof -
    have k: "fst e \<in> ?D" "fst e \<noteq> symb" using that by auto
    then have "convertHyperliquidSymbol (fst e) \<noteq> ?c" using inj by blast
    moreover have "?I (hl_diff_step env ?av e q)"
      using hl_diff_step_dom [of env ?av e q] that(4) k(1) by blast
    ultimately show ?thesis
      using hl_diff_step_symbols [of env ?av e q] by auto
  qed
  have s: "?I (hl_sweep_step env ?av ?ps k q) \<and>
      (\<exists>new. sent (hl_sweep_step env ?av ?ps k q) = sent q @ new \<and> (\<forall>s \<in> set new. ?Q s))"
    if "?I q" for k q
  proof -
    obtain new where new: "sent (hl_sweep_step env ?av ?ps k q) = sent q @ new"
      "\<forall>s \<in> set new. Symbol s = convertHyperliquidSymbol k \<and>
          k \<in> dom (hl_lastPositions (prov q)) \<and> map_of ?ps k = None"
      using hl_sweep_step_symbols [of env ?av ?ps k q] by blast
    have "\<forall>s \<in> set new. ?Q s"
    proof
      fix x assume "x \<in> set new"
      with new(2) have x: "Symbol x = convertHyperliquidSymbol k"
          "k \<in> dom (hl_lastPositions (prov q))" "map_of ?ps k = None"
        by auto
      from x(3) sub(3) have "k \<noteq> symb" by (auto simp: map_of_eq_None_iff)
      moreover from x(2) that have "k \<in> ?D" by blast
      ultimately show "?Q x" using inj x(1) by auto
    qed
    moreover have "?I (hl_sweep_step env ?av ?ps k q)"
      using hl_sweep_step_dom [of env ?av ?ps k q] that by blast
    ultimately show ?thesis using new(1) by blast
  qed
  have i1: "?I ?r1" by (auto simp: hl_ingest_keeps)
  from fold_inv_sent_set [of xs ?I "hl_diff_step env ?av" ?Q ?r1]
    d [of _ xs] keys(1) sub(1) i1
  obtain n1 where n1: "?I rb" "sent rb = sent ?r1 @ n1" "\<forall>s \<in> set n1. ?Q s"
    unfolding rb by blast
  obtain mine where mine: "sent ?rb' = sent rb @ mine" "\<forall>s \<in> set mine. Symbol s = ?c"
    using hl_diff_step_symbols [of env ?av "(symb, meta)" rb] by auto
  have ib': "?I ?rb'"
    using hl_diff_step_dom [of env ?av "(symb, meta)" rb] n1(1) sub(3) by auto
  from fold_inv_sent_set [of ys ?I "hl_diff_step env ?av" ?Q ?rb']
    d [of _ ys] keys(2) sub(2) ib'
  obtain n2 where n2: "?I ?rc" "sent ?rc = sent ?rb' @ n2" "\<forall>s \<in> set n2. ?Q s"
    by blast
  from fold_inv_sent_set [of order ?I "hl_sweep_step env ?av ?ps" ?Q ?rc] s n2(1)
  obtain n3 where n3: "?I ?rd" "sent ?rd = sent ?rc @ n3" "\<forall>s \<in> set n3. ?Q s"
    by blast
  have r': "snd (hl_fetchAndEmit env (Inr fills) (Inr state) order r) = ?rd"
    using init by (simp add: hl_fetchAndEmit_def Let_def hl_ingest_keeps P(1) rb)
  have "sent ?rd = sent r @ (n1 @ mine @ n2 @ n3)"
    using n1(2) mine(1) n2(2) n3(2) by simp
  then have "emitted r ?rd = n1 @ mine @ n2 @ n3"
    by (rule emitted_append)
  moreover have "emitted rb ?rb' = mine"
    using mine(1) by (rule emitted_append)
  moreover have "filter (\<lambda>s. Symbol s = ?c) (n1 @ mine @ n2 @ n3) = mine"
    using n1(3) mine(2) n2(3) n3(3) by (simp add: filter_empty_conv filter_id_conv)
  ultimately show ?thesis
    using r' by simp
qed

lemma hl_cycle_symbol_sweep:
  assumes init: "hl_initialized (prov r)" "0 < AccountValue state"
    and absent: "map_of (Positions state) symb = None"
    and order: "order = ks1 @ symb # ks2" "symb \<notin> set ks1"
    and inj: "\<forall>k \<in> fst ` set (Positions state) \<union> dom (hl_lastPositions (prov r)).
        k \<noteq> symb \<longrightarrow> convertHyperliquidSymbol k \<noteq> convertHyperliquidSymbol symb"
    and rb: "rb = fold (hl_sweep_step env (AccountValue state) (Positions state)) ks1
                    (fold (hl_diff_step env (AccountValue state)) (Positions state)
                       (r\<lparr>prov := hl_ingest env fills (prov r)\<rparr>))"
  shows "filter (\<lambda>s. Symbol s = convertHyperliquidSymbol symb)
           (emitted r (snd (hl_fetchAndEmit env (Inr fills) (Inr state) order r)))
         = emitted rb (hl_sweep_step env (AccountValue state) (Positions state) symb rb)"
proof -
  let ?c = "convertHyperliquidSymbol symb"
  let ?av = "AccountValue state"
  let ?ps = "Positions state"
  let ?D = "fst ` set ?ps \<union> dom (hl_lastPositions (prov r))"
  let ?I = "\<lambda>q. dom (hl_lastPositions (prov q)) \<subseteq> ?D"
  let ?J = "\<lambda>q. dom (hl_lastPositions (prov q)) \<subseteq> ?D \<and> hl_lastPositions (prov q) symb = None"
  let ?Q = "\<lambda>s. Symbol s \<noteq> ?c"
  let ?r1 = "r\<lparr>prov := hl_ingest env fills (prov r)\<rparr>"
  let ?ra = "fold (hl_diff_step env ?av) ?ps ?r1"
  let ?rb' = "hl_sweep_step env ?av ?ps symb rb"
  let ?rd = "fold (hl_sweep_step env ?av ?ps) ks2 ?rb'"
  have nokey: "symb \<notin> fst ` set ?ps"
    using absent by (simp add: map_of_eq_None_iff)
  have d: "?I (hl_diff_step env ?av e q) \<and>
      (\<exists>new. sent (hl_diff_step env ?av e q) = sent q @ new \<and> (\<forall>s \<in> set new. ?Q s))"
    if "e \<in> set ?ps" "?I q" for e q
  proof -
    have k: "fst e \<in> ?D" "fst e \<noteq> symb" using that(1) nokey by auto
    then have "convertHyperliquidSymbol (fst e) \<noteq> ?c" using inj by blast
    moreover have "?I (hl_diff_step env ?av e q)"
      using hl_diff_step_dom [of env ?av e q] that(2) k(1) by blast
    ultimately show ?thesis
      using hl_diff_step_symbols [of env ?av e q] by auto
  qed
  have s1: "?I (hl_sweep_step env ?av ?ps k q) \<and>
      (\<exists>new. sent (hl_sweep_step env ?av ?ps k q) = sent q @ new \<and> (\<forall>s \<in> set new. ?Q s))"
    if "k \<in> set ks1" "?I q" for k q
  proof -
    obtain new where new: "sent (hl_sweep_step env ?av ?ps k q) = sent q @ new"
      "\<forall>s \<in> set new. Symbol s = convertHyperliquidSymbol k \<and>
          k \<in> dom (hl_lastPositions (prov q)) \<and> map_of ?ps k = None"
      using hl_sweep_step_symbols [of env ?av ?ps k q] by blast
    have "k \<noteq> symb" using that(1) order(2) by auto
    then have "\<forall>s \<in> set new. ?Q s"
      using new(2) that(2) inj by (metis subsetD)
    moreover have "?I (hl_sweep_step env ?av ?ps k q)"
      using hl_sweep_step_dom [of env ?av ?ps k q] that(2) by blast
    ultimately show ?thesis using new(1) by blast
  qed
  have s2: "?J (hl_sweep_step env ?av ?ps k q) \<and>
      (\<exists>new. sent (hl_sweep_step env ?av ?ps k q) = sent q @ new \<and> (\<forall>s \<in> set new. ?Q s))"
    if "?J q" for k q
  proof -
    obtain new where new: "sent (hl_sweep_step env ?av ?ps k q) = sent q @ new"
      "\<forall>s \<in> set new. Symbol s = convertHyperliquidSymbol k \<and>
          k \<in> dom (hl_lastPositions (prov q)) \<and> map_of ?ps k = None"
      using hl_sweep_step_symbols [of env ?av ?ps k q] by blast
    have "\<forall>s \<in> set new. ?Q s"
    proof
      fix x assume "x \<in> set new"
      with new(2) have x: "Symbol x = convertHyperliquidSymbol k"
          "k \<in> dom (hl_lastPositions (prov q))"
        by auto
      from x(2) that have "k \<noteq> symb" "k \<in> ?D" by auto
      then show "?Q x" using inj x(1) by auto
    qed
    moreover have "?J (hl_sweep_step env ?av ?ps k q)"
      using hl_sweep_step_dom [of env ?av ?ps k q] that
        hl_sweep_step_stays_absent [of q symb env ?av ?ps k]
      by blast
    ultimately show ?thesis using new(1) by blast
  qed
  have i1: "?I ?r1" by (auto simp: hl_ingest_keeps)
  from fold_inv_sent_set [of ?ps ?I "hl_diff_step env ?av" ?Q ?r1] d i1
  obtain n1 where n1: "?I ?ra" "sent ?ra = sent ?r1 @ n1" "\<forall>s \<in> set n1. ?Q s"
    by blast
  from fold_inv_sent_set [of ks1 ?I "hl_sweep_step env ?av ?ps" ?Q ?ra] s1 n1(1)
  obtain n2 where n2: "?I rb" "sent rb = sent ?ra @ n2" "\<forall>s \<in> set n2. ?Q s"
    unfolding rb by blast
  obtain mine where mine: "sent ?rb' = sent rb @ mine" "\<forall>s \<in> set mine. Symbol s = ?c"
    using hl_sweep_step_symbols [of env ?av ?ps symb rb] by auto
  have jb': "?J ?rb'"
    using hl_sweep_step_dom [of env ?av ?ps symb rb] n2(1)
      hl_sweep_step_absent [OF absent, of env ?av rb]
    by blast
  have "?J ?rd \<and> (\<exists>new. sent ?rd = sent ?rb' @ new \<and> (\<forall>s \<in> set new. ?Q s))"
  proof (rule fold_inv_sent_set [where I = ?J and Q = ?Q])
    show "?J ?rb'" by (rule jb')
  next
    fix k :: string and q :: "hyperliquidProvider run"
    assume "?J q"
    then show "?J (hl_sweep_step env ?av ?ps k q) \<and>
      (\<exists>new. sent (hl_sweep_step env ?av ?ps k q) = sent q @ new \<and> (\<forall>s \<in> set new. ?Q s))"
      by (rule s2)
  qed
  then obtain n3 where n3: "?J ?rd" "sent ?rd = sent ?rb' @ n3" "\<forall>s \<in> set n3. ?Q s"
    by blast
  have r': "snd (hl_fetchAndEmit env (Inr fills) (Inr state) order r) = ?rd"
    using init by (simp add: hl_fetchAndEmit_def Let_def hl_ingest_keeps order(1) rb)
  have "sent ?rd = sent r @ (n1 @ n2 @ mine @ n3)"
    using n1(2) n2(2) mine(1) n3(2) by simp
  then have "emitted r ?rd = n1 @ n2 @ mine @ n3"
    by (rule emitted_append)
  moreover have "emitted rb ?rb' = mine"
    using mine(1) by (rule emitted_append)
  moreover have "filter (\<lambda>s. Symbol s = ?c) (n1 @ n2 @ mine @ n3) = mine"
    using n1(3) n2(3) mine(2) n3(3) by (simp add: filter_empty_conv filter_id_conv)
  ultimately show ?thesis
    using r' by simp
qed

lemma hl_cycle_flip:
  assumes init: "hl_initialized (prov r)" "0 < AccountValue state"
    and P: "Positions state = xs @ (symb, meta) # ys" "distinct (map fst (Positions state))"
    and inj: "\<forall>k \<in> fst ` set (Positions state) \<union> dom (hl_lastPositions (prov r)).
        k \<noteq> symb \<longrightarrow> convertHyperliquidSymbol k \<noteq> convertHyperliquidSymbol symb"
    and prev: "prev = lookup0 (hl_lastPositions (prov r)) symb"
    and flip: "(0 < prev \<and> hl_Size meta < 0) \<or> (prev < 0 \<and> 0 < hl_Size meta)"
    and price: "hl_price env (convertHyperliquidSymbol symb)
          (fold (hl_diff_step env (AccountValue state)) xs
             (r\<lparr>prov := hl_ingest env fills (prov r)\<rparr>)) = (price, r1)" "0 < price"
  shows "filter (\<lambda>s. Symbol s = convertHyperliquidSymbol symb)
           (emitted r (snd (hl_fetchAndEmit env (Inr fills) (Inr state) order r)))
       = [\<lparr>Symbol = convertHyperliquidSymbol symb,
           Action = (if 0 < prev then ActionCloseLong else ActionCloseShort),
           NotionalUSD = \<bar>prev\<bar> * price, Price = price, LeaderEquity = AccountValue state,
           LeaderLeverage = hl_Leverage meta, MarginMode = hl_MarginMode meta,
           Timestamp = time_Now env (ticks r1),
           DeltaSize = - prev, LeaderPosBefore = prev, LeaderPosAfter = 0\<rparr>,
          \<lparr>Symbol = convertHyperliquidSymbol symb,
           Action = (if 0 < prev then ActionOpenShort else ActionOpenLong),
           NotionalUSD = \<bar>hl_Size meta\<bar> * price, Price = price,
           LeaderEquity = AccountValue state,
           LeaderLeverage = hl_Leverage meta, MarginMode = hl_MarginMode meta,
           Timestamp = time_Now env (Suc (ticks r1)),
           DeltaSize = hl_Size meta, LeaderPosBefore = 0, LeaderPosAfter = hl_Size meta\<rparr>]"
proof -
  let ?rb = "fold (hl_diff_step env (AccountValue state)) xs
               (r\<lparr>prov := hl_ingest env fills (prov r)\<rparr>)"
  have "symb \<notin> fst ` set xs" using P by auto
  then have p: "prev = lookup0 (hl_lastPositions (prov ?rb)) symb"
    using hl_diff_loop_reaches [where symb = symb and xs = xs and env = env and av = "AccountValue state"
        and r = r and fills = fills] prev
    by (simp add: lookup0_def)
  have s: "sent r1 = sent ?rb"
    using hl_price_simps(1) [of env "convertHyperliquidSymbol symb" ?rb] price(1) by simp
  show ?thesis
    unfolding hl_cycle_symbol_diff [OF init P inj refl]
      hl_diff_step_flip [OF p flip price]
    by (simp add: emitted_def s)
qed

lemma hl_cycle_change:
  assumes init: "hl_initialized (prov r)" "0 < AccountValue state"
    and P: "Positions state = xs @ (symb, meta) # ys" "distinct (map fst (Positions state))"
    and inj: "\<forall>k \<in> fst ` set (Positions state) \<union> dom (hl_lastPositions (prov r)).
        k \<noteq> symb \<longrightarrow> convertHyperliquidSymbol k \<noteq> convertHyperliquidSymbol symb"
    and prev: "prev = lookup0 (hl_lastPositions (prov r)) symb"
    and change: "hl_Size meta \<noteq> prev"
      "\<not> (0 < prev \<and> hl_Size meta < 0)" "\<not> (prev < 0 \<and> 0 < hl_Size meta)"
    and price: "hl_price env (convertHyperliquidSymbol symb)
          (fold (hl_diff_step env (AccountValue state)) xs
             (r\<lparr>prov := hl_ingest env fills (prov r)\<rparr>)) = (price, r1)" "0 < price"
  shows "filter (\<lambda>s. Symbol s = convertHyperliquidSymbol symb)
           (emitted r (snd (hl_fetchAndEmit env (Inr fills) (Inr state) order r)))
       = [\<lparr>Symbol = convertHyperliquidSymbol symb,
           Action = (if prev < hl_Size meta
                     then (if 0 < hl_Size meta then ActionAddLong else ActionReduceShort)
                     else (if hl_Size meta < 0 then ActionAddShort else ActionReduceLong)),
           NotionalUSD = \<bar>hl_Size meta - prev\<bar> * price, Price = price,
           LeaderEquity = AccountValue state,
           LeaderLeverage = hl_Leverage meta, MarginMode = hl_MarginMode meta,
           Timestamp = time_Now env (ticks r1),
           DeltaSize = hl_Size meta - prev, LeaderPosBefore = prev,
           LeaderPosAfter = hl_Size meta\<rparr>]"
proof -
  let ?rb = "fold (hl_diff_step env (AccountValue state)) xs
               (r\<lparr>prov := hl_ingest env fills (prov r)\<rparr>)"
  have "symb \<notin> fst ` set xs" using P by auto
  then have p: "prev = lookup0 (hl_lastPositions (prov ?rb)) symb"
    using hl_diff_loop_reaches [where symb = symb and xs = xs and env = env and av = "AccountValue state"
        and r = r and fills = fills] prev
    by (simp add: lookup0_def)
  have s: "sent r1 = sent ?rb"
    using hl_price_simps(1) [of env "convertHyperliquidSymbol symb" ?rb] price(1) by simp
  show ?thesis
    unfolding hl_cycle_symbol_diff [OF init P inj refl]
      hl_diff_step_change [OF p change price]
    by (simp add: emitted_def s)
qed

lemma hl_cycle_gone:
  assumes init: "hl_initialized (prov r)" "0 < AccountValue state"
    and absent: "map_of (Positions state) symb = None"
    and order: "order = ks1 @ symb # ks2" "symb \<notin> set ks1"
    and inj: "\<forall>k \<in> fst ` set (Positions state) \<union> dom (hl_lastPositions (prov r)).
        k \<noteq> symb \<longrightarrow> convertHyperliquidSymbol k \<noteq> convertHyperliquidSymbol symb"
    and prev: "hl_lastPositions (prov r) symb = Some prev" "prev \<noteq> 0"
    and price: "hl_price env (convertHyperliquidSymbol symb)
          (fold (hl_sweep_step env (AccountValue state) (Positions state)) ks1
            (fold (hl_diff_step env (AccountValue state)) (Positions state)
               (r\<lparr>prov := hl_ingest env fills (prov r)\<rparr>))) = (price, r1)"
  shows "filter (\<lambda>s. Symbol s = convertHyperliquidSymbol symb)
           (emitted r (snd (hl_fetchAndEmit env (Inr fills) (Inr state) order r)))
       = (if 0 < price
          then [\<lparr>Symbol = convertHyperliquidSymbol symb,
                 Action = (if 0 < prev then ActionCloseLong else ActionCloseShort),
                 NotionalUSD = \<bar>prev\<bar> * price, Price = price,
                 LeaderEquity = AccountValue state,
                 LeaderLeverage = 0, MarginMode = [],
                 Timestamp = time_Now env (ticks r1),
                 DeltaSize = - prev, LeaderPosBefore = prev, LeaderPosAfter = 0\<rparr>]
          else [])"
proof -
  let ?rb = "fold (hl_sweep_step env (AccountValue state) (Positions state)) ks1
            (fold (hl_diff_step env (AccountValue state)) (Positions state)
               (r\<lparr>prov := hl_ingest env fills (prov r)\<rparr>))"
  have p: "hl_lastPositions (prov ?rb) symb = Some prev"
    using hl_sweep_loop_reaches [OF absent order(2), where env = env and av = "AccountValue state"
        and r = r and fills = fills] prev(1)
    by simp
  have s: "sent r1 = sent ?rb"
    using hl_price_simps(1) [of env "convertHyperliquidSymbol symb" ?rb] price by simp
  show ?thesis
    unfolding hl_cycle_symbol_sweep [OF init absent order inj refl]
      hl_sweep_step_gone [OF p prev(2) absent price]
    by (simp add: emitted_def s)
qed

section \<open>The OKX observer, step by step\<close>

lemma okx_set_position_simps:
  "sent (okx_set_position k v r) = sent r"
  "ticks (okx_set_position k v r) = ticks r"
  "okx_lastPositions (prov (okx_set_position k v r)) = (okx_lastPositions (prov r))(k \<mapsto> v)"
  "okx_lastPrices (prov (okx_set_position k v r)) = okx_lastPrices (prov r)"
  "okx_initialized (prov (okx_set_position k v r)) = okx_initialized (prov r)"
  by (simp_all add: okx_set_position_def)

lemma okx_delete_position_simps:
  "sent (okx_delete_position k r) = sent r"
  "ticks (okx_delete_position k r) = ticks r"
  "okx_lastPositions (prov (okx_delete_position k r)) = (okx_lastPositions (prov r))(k := None)"
  "okx_lastPrices (prov (okx_delete_position k r)) = okx_lastPrices (prov r)"
  "okx_initialized (prov (okx_delete_position k r)) = okx_initialized (prov r)"
  by (simp_all add: okx_delete_position_def)

lemma okx_price_simps:
  "sent (snd (okx_price env c r)) = sent r"
  "okx_lastPositions (prov (snd (okx_price env c r))) = okx_lastPositions (prov r)"
  "okx_initialized (prov (snd (okx_price env c r))) = okx_initialized (prov r)"
  by (simp_all add: okx_price_def Let_def split: option.split)






lemma okx_ingest_trade_keeps:
  "okx_lastPositions (snd (okx_ingest_trade env f mp)) = okx_lastPositions (snd mp)"
  "okx_initialized (snd (okx_ingest_trade env f mp)) = okx_initialized (snd mp)"
  by (simp_all add: okx_ingest_trade_def Let_def)

lemma okx_ingest_fold_keeps:
  "okx_lastPositions (snd (fold (okx_ingest_trade env) fs mp)) = okx_lastPositions (snd mp) \<and>
   okx_initialized (snd (fold (okx_ingest_trade env) fs mp)) = okx_initialized (snd mp)"
  by (induction fs arbitrary: mp) (simp_all add: okx_ingest_trade_keeps)

lemma okx_ingest_keeps:
  "okx_lastPositions (okx_ingest env trades p) = okx_lastPositions p"
  "okx_initialized (okx_ingest env trades p) = okx_initialized p"
  using okx_ingest_fold_keeps [of env "sort_Slice okx_trade_less trades" "(okx_lastFillTime p, p)"]
  by (simp_all add: okx_ingest_def Let_def)

lemma okx_init_snapshot_shape: "\<exists>m. okx_init_snapshot ps p = p\<lparr>okx_lastPositions := m\<rparr>"
  unfolding okx_init_snapshot_def
proof (induction ps arbitrary: p)
  case Nil
  have "p = p\<lparr>okx_lastPositions := okx_lastPositions p\<rparr>" by simp
  then show ?case by (metis fold_simps(1))
next
  case (Cons e ps)
  let ?p' = "p\<lparr>okx_lastPositions := (okx_lastPositions p)(fst e \<mapsto> okx_Size (snd e))\<rparr>"
  let ?F = "\<lambda>e q. q\<lparr>okx_lastPositions := (okx_lastPositions q)(fst e \<mapsto> okx_Size (snd e))\<rparr>"
  from Cons [of ?p'] obtain m where "fold ?F ps ?p' = ?p'\<lparr>okx_lastPositions := m\<rparr>"
    by blast
  then have "fold ?F (e # ps) p = p\<lparr>okx_lastPositions := m\<rparr>"
    by simp
  then show ?case by blast
qed

lemma okx_init_snapshot_others:
  "okx_init_snapshot ps p = p\<lparr>okx_lastPositions := okx_lastPositions (okx_init_snapshot ps p)\<rparr>"
proof -
  obtain m where m: "okx_init_snapshot ps p = p\<lparr>okx_lastPositions := m\<rparr>"
    using okx_init_snapshot_shape by blast
  then show ?thesis by simp
qed

lemma okx_init_snapshot_lookup:
  "distinct (map fst ps) \<Longrightarrow>
   okx_lastPositions (okx_init_snapshot ps p) k =
     (case map_of ps k of None \<Rightarrow> okx_lastPositions p k | Some m \<Rightarrow> Some (okx_Size m))"
  unfolding okx_init_snapshot_def
proof (induction ps arbitrary: p)
  case Nil
  show ?case by simp
next
  case (Cons e ps)
  have "fst e \<notin> fst ` set ps" using Cons.prems by simp
  then have "map_of ps (fst e) = None" by (simp add: map_of_eq_None_iff)
  with Cons show ?case by (cases e) (auto split: option.split)
qed

lemma okx_diff_step_same:
  "lookup0 (okx_lastPositions (prov r)) (fst e) = okx_Size (snd e) \<Longrightarrow> okx_diff_step env av e r = r"
  by (simp add: okx_diff_step_def Let_def)

lemma okx_sweep_step_present:
  "okx_lastPositions (prov r) k = None \<or> map_of ps k \<noteq> None \<Longrightarrow> okx_sweep_step env av ps k r = r"
  by (auto simp: okx_sweep_step_def split: option.split)

lemma okx_first_poll:
  assumes "\<not> okx_initialized (prov r)" "0 < accountValue"
  shows "okx_fetchAndEmit env (Inr trades) (Inr accountValue) (Inr positions) order r =
    (None, r\<lparr>prov := (okx_ingest env trades (prov r))
        \<lparr>okx_lastPositions := okx_lastPositions
            (okx_init_snapshot (positions) (okx_ingest env trades (prov r))),
         okx_initialized := True\<rparr>\<rparr>)"
  using assms okx_init_snapshot_others [of "positions" "okx_ingest env trades (prov r)"]
  by (simp add: okx_fetchAndEmit_def Let_def okx_ingest_keeps)

lemma okx_repeated_poll:
  assumes "okx_initialized (prov r)" 
    and "distinct (map fst positions)"
    and "okx_lastPositions (prov r) = map_option okx_Size \<circ> map_of positions"
  shows "okx_fetchAndEmit env (Inr trades) (Inr accountValue) (Inr positions) order r =
    (if accountValue \<le> 0 then (Some ''okx equity invalid'', r)
     else (None, r\<lparr>prov := okx_ingest env trades (prov r)\<rparr>))"
proof -
  let ?r1 = "r\<lparr>prov := okx_ingest env trades (prov r)\<rparr>"
  have lp: "okx_lastPositions (okx_ingest env trades (prov r)) =
      map_option okx_Size \<circ> map_of positions"
    using assms(3) by (simp add: okx_ingest_keeps)
  have "okx_diff_step env av e ?r1 = ?r1" if "e \<in> set positions" for e av
  proof -
    have "map_of positions (fst e) = Some (snd e)"
      using map_of_eq_Some_iff [OF assms(2), of "fst e" "snd e"] that by simp
    then show ?thesis
      by (intro okx_diff_step_same) (simp add: lp lookup0_def)
  qed
  then have d: "fold (okx_diff_step env av) (positions) ?r1 = ?r1" for av
    by (intro fold_fixed)
  have "okx_sweep_step env av (positions) k ?r1 = ?r1" for k av
    by (intro okx_sweep_step_present) (auto simp: lp)
  then have s: "fold (okx_sweep_step env av (positions)) order ?r1 = ?r1" for av
    by (intro fold_fixed)
  show ?thesis
    using assms(1) by (simp add: okx_fetchAndEmit_def Let_def okx_ingest_keeps d s)
qed

lemma okx_equity_abort:
  "accountValue \<le> 0 \<Longrightarrow>
   okx_fetchAndEmit env (Inr trades) (Inr accountValue) fp order r =
     (Some ''okx equity invalid'', r)"
  by (simp add: okx_fetchAndEmit_def)

lemma okx_diff_step_other_key:
  "k \<noteq> fst e \<Longrightarrow> okx_lastPositions (prov (okx_diff_step env av e r)) k = okx_lastPositions (prov r) k"
  by (simp add: okx_diff_step_def Let_def send_simps okx_set_position_simps okx_price_simps
      split: option.split)

lemma okx_diff_loop_other_keys:
  "k \<notin> fst ` set xs \<Longrightarrow>
   okx_lastPositions (prov (fold (okx_diff_step env av) xs r)) k = okx_lastPositions (prov r) k"
  by (induction xs arbitrary: r) (simp_all add: okx_diff_step_other_key)

lemma okx_sweep_step_other_key:
  "k \<noteq> k' \<Longrightarrow>
   okx_lastPositions (prov (okx_sweep_step env av ps k' r)) k = okx_lastPositions (prov r) k"
  by (simp add: okx_sweep_step_def Let_def send_simps okx_delete_position_simps okx_price_simps
      split: option.split)

lemma okx_sweep_loop_other_keys:
  "k \<notin> set ks \<Longrightarrow>
   okx_lastPositions (prov (fold (okx_sweep_step env av ps) ks r)) k = okx_lastPositions (prov r) k"
  by (induction ks arbitrary: r) (simp_all add: okx_sweep_step_other_key)

lemma okx_sweep_step_absent:
  "map_of ps k = None \<Longrightarrow> okx_lastPositions (prov (okx_sweep_step env av ps k r)) k = None"
  by (simp add: okx_sweep_step_def Let_def send_simps okx_delete_position_simps okx_price_simps
      split: option.split)

lemma okx_sweep_step_stays_absent:
  "okx_lastPositions (prov r) k = None \<Longrightarrow>
   okx_lastPositions (prov (okx_sweep_step env av ps k' r)) k = None"
  by (simp add: okx_sweep_step_def Let_def send_simps okx_delete_position_simps okx_price_simps
      split: option.split)

lemma okx_sweep_loop_stays_absent:
  "okx_lastPositions (prov r) k = None \<Longrightarrow>
   okx_lastPositions (prov (fold (okx_sweep_step env av ps) ks r)) k = None"
  by (induction ks arbitrary: r) (simp_all add: okx_sweep_step_stays_absent)

lemma okx_sweep_loop_absent:
  "map_of ps k = None \<Longrightarrow> k \<in> set ks \<Longrightarrow>
   okx_lastPositions (prov (fold (okx_sweep_step env av ps) ks r)) k = None"
proof (induction ks arbitrary: r)
  case Nil
  then show ?case by simp
next
  case (Cons a ks)
  show ?case
  proof (cases "a = k")
    case True
    then show ?thesis
      using Cons.prems(1) by (simp add: okx_sweep_loop_stays_absent okx_sweep_step_absent)
  next
    case False
    then show ?thesis using Cons by simp
  qed
qed

lemma okx_diff_step_flip:
  assumes "prev = lookup0 (okx_lastPositions (prov r)) symb"
    and "(0 < prev \<and> okx_Size meta < 0) \<or> (prev < 0 \<and> 0 < okx_Size meta)"
    and "okx_price env symb r = (price, r1)"
    and "0 < price"
  shows "okx_diff_step env av (symb, meta) r =
     r1\<lparr>sent := sent r1 @
         [\<lparr>Symbol = symb,
           Action = (if 0 < prev then ActionCloseLong else ActionCloseShort),
           NotionalUSD = \<bar>prev\<bar> * price, Price = price, LeaderEquity = av,
           LeaderLeverage = okx_Leverage meta, MarginMode = okx_MarginMode meta,
           Timestamp = time_Now env (ticks r1),
           DeltaSize = - prev, LeaderPosBefore = prev, LeaderPosAfter = 0\<rparr>,
          \<lparr>Symbol = symb,
           Action = (if 0 < prev then ActionOpenShort else ActionOpenLong),
           NotionalUSD = \<bar>okx_Size meta\<bar> * price, Price = price, LeaderEquity = av,
           LeaderLeverage = okx_Leverage meta, MarginMode = okx_MarginMode meta,
           Timestamp = time_Now env (Suc (ticks r1)),
           DeltaSize = okx_Size meta, LeaderPosBefore = 0, LeaderPosAfter = okx_Size meta\<rparr>],
        ticks := Suc (Suc (ticks r1)),
        prov := (prov r1)\<lparr>okx_lastPositions :=
                  (okx_lastPositions (prov r1))(symb \<mapsto> okx_Size meta)\<rparr>\<rparr>"
proof -
  have s: "sent r1 = sent r" "okx_lastPositions (prov r1) = okx_lastPositions (prov r)"
    using okx_price_simps(1,2) [of env "symb" r] assms(3) by simp_all
  show ?thesis
    using assms s
    by (auto simp: okx_diff_step_def Let_def send_def okx_set_position_def)
qed

lemma okx_diff_step_change:
  assumes "prev = lookup0 (okx_lastPositions (prov r)) symb"
    and "okx_Size meta \<noteq> prev"
    and "\<not> (0 < prev \<and> okx_Size meta < 0)" "\<not> (prev < 0 \<and> 0 < okx_Size meta)"
    and "okx_price env symb r = (price, r1)"
    and "0 < price"
  shows "okx_diff_step env av (symb, meta) r =
     r1\<lparr>sent := sent r1 @
         [\<lparr>Symbol = symb,
           Action = (if prev < okx_Size meta
                     then (if 0 < okx_Size meta then ActionAddLong else ActionReduceShort)
                     else (if okx_Size meta < 0 then ActionAddShort else ActionReduceLong)),
           NotionalUSD = \<bar>okx_Size meta - prev\<bar> * price, Price = price, LeaderEquity = av,
           LeaderLeverage = okx_Leverage meta, MarginMode = okx_MarginMode meta,
           Timestamp = time_Now env (ticks r1),
           DeltaSize = okx_Size meta - prev, LeaderPosBefore = prev,
           LeaderPosAfter = okx_Size meta\<rparr>],
        ticks := Suc (ticks r1),
        prov := (prov r1)\<lparr>okx_lastPositions :=
                  (okx_lastPositions (prov r1))(symb \<mapsto> okx_Size meta)\<rparr>\<rparr>"
proof -
  have s: "sent r1 = sent r" "okx_lastPositions (prov r1) = okx_lastPositions (prov r)"
    using okx_price_simps(1,2) [of env "symb" r] assms(5) by simp_all
  show ?thesis
    using assms s
    by (auto simp: okx_diff_step_def Let_def send_def okx_set_position_def deriveActionFromDelta_def)
qed

lemma okx_sweep_step_gone:
  assumes "okx_lastPositions (prov r) symb = Some prev" "prev \<noteq> 0"
    and "map_of positions symb = None"
    and "okx_price env symb r = (price, r1)"
  shows "okx_sweep_step env av positions symb r =
     (if 0 < price
      then r1\<lparr>sent := sent r1 @
             [\<lparr>Symbol = symb,
               Action = (if 0 < prev then ActionCloseLong else ActionCloseShort),
               NotionalUSD = \<bar>prev\<bar> * price, Price = 0, LeaderEquity = av,
               LeaderLeverage = 0, MarginMode = [],
               Timestamp = time_Now env (ticks r1),
               DeltaSize = - prev, LeaderPosBefore = prev, LeaderPosAfter = 0\<rparr>],
             ticks := Suc (ticks r1),
             prov := (prov r1)\<lparr>okx_lastPositions := (okx_lastPositions (prov r1))(symb := None)\<rparr>\<rparr>
      else r1\<lparr>prov := (prov r1)\<lparr>okx_lastPositions :=
                  (okx_lastPositions (prov r1))(symb := None)\<rparr>\<rparr>)"
proof -
  have s: "sent r1 = sent r" "okx_lastPositions (prov r1) = okx_lastPositions (prov r)"
    using okx_price_simps(1,2) [of env "symb" r] assms(4) by simp_all
  show ?thesis
    using assms s
    by (auto simp: okx_sweep_step_def Let_def send_def okx_delete_position_def)
qed

lemma okx_price_no_price:
  assumes "\<not> 0 < lookup0 (okx_lastPrices (prov r)) c"
    and "\<forall>cp. market_Get env (ticks r) c = Some cp \<longrightarrow> cp \<le> 0"
  shows "okx_price env c r = (lookup0 (okx_lastPrices (prov r)) c, r\<lparr>ticks := Suc (ticks r)\<rparr>)"
  using assms by (auto simp: okx_price_def Let_def split: option.split)

lemma okx_price_other_cache:
  "c' \<noteq> c \<Longrightarrow>
   lookup0 (okx_lastPrices (prov (snd (okx_price env c' r)))) c = lookup0 (okx_lastPrices (prov r)) c"
  by (simp add: okx_price_def Let_def lookup0_def split: option.split)

lemma okx_diff_step_no_price:
  assumes "okx_Size meta \<noteq> lookup0 (okx_lastPositions (prov r)) symb"
    and "\<not> 0 < lookup0 (okx_lastPrices (prov r)) symb"
    and "\<forall>cp. market_Get env (ticks r) symb = Some cp \<longrightarrow> cp \<le> 0"
  shows "okx_diff_step env av (symb, meta) r = r\<lparr>ticks := Suc (ticks r)\<rparr>"
  using assms(1,2) okx_price_no_price [OF assms(2,3)]
  by (simp add: okx_diff_step_def Let_def)

lemma okx_diff_step_frame:
  assumes "\<forall>k cp. market_Get env k c = Some cp \<longrightarrow> cp \<le> 0"
    and "\<not> 0 < lookup0 (okx_lastPrices (prov r)) c"
    and "symb = c"
  shows "(\<not> 0 < lookup0 (okx_lastPrices (prov (okx_diff_step env av e r))) c \<and>
          okx_lastPositions (prov (okx_diff_step env av e r)) symb = okx_lastPositions (prov r) symb) \<and>
         (\<exists>new. sent (okx_diff_step env av e r) = sent r @ new \<and> (\<forall>s \<in> set new. Symbol s \<noteq> c))"
proof (cases "fst e = c")
  case True
  have "okx_price env c r = (lookup0 (okx_lastPrices (prov r)) c, r\<lparr>ticks := Suc (ticks r)\<rparr>)"
    using assms(1,2) by (intro okx_price_no_price) auto
  then show ?thesis
    using True assms(2) by (simp add: okx_diff_step_def Let_def)
next
  case False
  then have ne: "fst e \<noteq> symb" using assms(3) by auto
  have cache: "lookup0 (okx_lastPrices (prov (snd (okx_price env (fst e) r)))) c
      = lookup0 (okx_lastPrices (prov r)) c"
    using False by (intro okx_price_other_cache)
  show ?thesis
    using False ne assms(2) cache
    by (auto simp: okx_diff_step_def Let_def send_simps okx_set_position_simps okx_price_simps
        split: option.split)
qed

lemma okx_sweep_step_frame:
  assumes "\<forall>k cp. market_Get env k c = Some cp \<longrightarrow> cp \<le> 0"
    and "\<not> 0 < lookup0 (okx_lastPrices (prov r)) c"
    and "symb = c"
    and "map_of ps symb \<noteq> None"
  shows "(\<not> 0 < lookup0 (okx_lastPrices (prov (okx_sweep_step env av ps k r))) c \<and>
          okx_lastPositions (prov (okx_sweep_step env av ps k r)) symb = okx_lastPositions (prov r) symb) \<and>
         (\<exists>new. sent (okx_sweep_step env av ps k r) = sent r @ new \<and> (\<forall>s \<in> set new. Symbol s \<noteq> c))"
proof (cases "k = symb")
  case True
  then show ?thesis
    using assms(2,4) by (simp add: okx_sweep_step_def split: option.split)
next
  case ne: False
  show ?thesis
  proof (cases "k = c")
    case True
    have "okx_price env c r = (lookup0 (okx_lastPrices (prov r)) c, r\<lparr>ticks := Suc (ticks r)\<rparr>)"
      using assms(1,2) by (intro okx_price_no_price) auto
    then show ?thesis
      using True ne assms(2)
      by (simp add: okx_sweep_step_def Let_def okx_delete_position_def split: option.split)
  next
    case False
    have cache: "lookup0 (okx_lastPrices (prov (snd (okx_price env k r)))) c
        = lookup0 (okx_lastPrices (prov r)) c"
      using False by (intro okx_price_other_cache)
    show ?thesis
      using False ne assms(2) cache
      by (auto simp: okx_sweep_step_def Let_def send_simps okx_delete_position_simps okx_price_simps
          split: option.split)
  qed
qed

lemma okx_cycle_frame:
  assumes "okx_initialized (prov r)" "0 < accountValue"
    and "map_of positions symb \<noteq> None"
    and "\<not> 0 < lookup0 (okx_lastPrices (okx_ingest env trades (prov r))) symb"
    and "\<forall>k cp. market_Get env k symb = Some cp \<longrightarrow> cp \<le> 0"
  shows "(\<forall>s \<in> set (emitted r (snd (okx_fetchAndEmit env (Inr trades) (Inr accountValue) (Inr positions) order r))).
            Symbol s \<noteq> symb) \<and>
         okx_lastPositions (prov (snd (okx_fetchAndEmit env (Inr trades) (Inr accountValue) (Inr positions) order r))) symb =
           okx_lastPositions (prov r) symb"
proof -
  let ?c = "symb"
  let ?av = "accountValue"
  let ?ps = "positions"
  let ?I = "\<lambda>q. \<not> 0 < lookup0 (okx_lastPrices (prov q)) ?c \<and>
                 okx_lastPositions (prov q) symb = okx_lastPositions (prov r) symb"
  let ?Q = "\<lambda>s. Symbol s \<noteq> ?c"
  let ?r1 = "r\<lparr>prov := okx_ingest env trades (prov r)\<rparr>"
  let ?r2 = "fold (okx_diff_step env ?av) ?ps ?r1"
  let ?r3 = "fold (okx_sweep_step env ?av ?ps) order ?r2"
  have i1: "?I ?r1"
    using assms(4) by (simp add: okx_ingest_keeps)
  have d: "?I (okx_diff_step env ?av e q) \<and>
      (\<exists>new. sent (okx_diff_step env ?av e q) = sent q @ new \<and> (\<forall>s \<in> set new. ?Q s))"
    if "?I q" for e q
    using okx_diff_step_frame [OF assms(5), of q symb ?av e] that by auto
  have s: "?I (okx_sweep_step env ?av ?ps k q) \<and>
      (\<exists>new. sent (okx_sweep_step env ?av ?ps k q) = sent q @ new \<and> (\<forall>s \<in> set new. ?Q s))"
    if "?I q" for k q
    using okx_sweep_step_frame [OF assms(5), of q symb ?ps ?av k] that assms(3) by auto
  from fold_inv_sent [of ?I "okx_diff_step env ?av" ?Q ?r1 ?ps, OF d i1]
  obtain n1 where n1: "?I ?r2" "sent ?r2 = sent ?r1 @ n1" "\<forall>s \<in> set n1. ?Q s"
    by blast
  from fold_inv_sent [of ?I "okx_sweep_step env ?av ?ps" ?Q ?r2 order, OF s n1(1)]
  obtain n2 where n2: "?I ?r3" "sent ?r3 = sent ?r2 @ n2" "\<forall>s \<in> set n2. ?Q s"
    by blast
  have r': "snd (okx_fetchAndEmit env (Inr trades) (Inr accountValue) (Inr positions) order r) = ?r3"
    using assms(1,2) by (simp add: okx_fetchAndEmit_def Let_def okx_ingest_keeps)
  have "sent ?r3 = sent r @ (n1 @ n2)"
    using n1(2) n2(2) by simp
  then have "emitted r ?r3 = n1 @ n2"
    by (rule emitted_append)
  then show ?thesis
    using n1(3) n2(1,3) r' by auto
qed

lemma okx_first_poll_snapshot:
  assumes "\<not> okx_initialized (prov r)" "okx_lastPositions (prov r) = Map.empty"
    and "0 < accountValue" "distinct (map fst positions)"
  shows "okx_fetchAndEmit env (Inr trades) (Inr accountValue) (Inr positions) order r =
    (None, r\<lparr>prov := (okx_ingest env trades (prov r))
        \<lparr>okx_lastPositions := map_option okx_Size \<circ> map_of positions,
         okx_initialized := True\<rparr>\<rparr>)"
proof -
  have "okx_lastPositions (okx_init_snapshot positions (okx_ingest env trades (prov r))) k =
      (map_option okx_Size \<circ> map_of positions) k" for k
    using okx_init_snapshot_lookup [OF assms(4), of "okx_ingest env trades (prov r)" k] assms(2)
    by (simp add: okx_ingest_keeps split: option.split)
  then have "okx_lastPositions (okx_init_snapshot positions (okx_ingest env trades (prov r))) =
      map_option okx_Size \<circ> map_of positions"
    by (rule ext)
  then show ?thesis
    using okx_first_poll [OF assms(1,3), of env trades positions order] by simp
qed

lemma okx_two_polls:
  assumes "\<not> okx_initialized (prov r)" "okx_lastPositions (prov r) = Map.empty"
    and "0 < accountValue" "distinct (map fst positions)"
    and "distinct (map fst ps')" "set ps' = set positions"
    and c1: "c1 = okx_fetchAndEmit env (Inr trades) (Inr accountValue) (Inr positions) order r"
    and c2: "c2 = okx_fetchAndEmit env2 (Inr trades2) (Inr av2) (Inr ps') order2 (snd c1)"
  shows "fst c1 = None \<and> emitted r (snd c1) = [] \<and>
     prov (snd c1) = (okx_ingest env trades (prov r))
        \<lparr>okx_lastPositions := map_option okx_Size \<circ> map_of positions,
         okx_initialized := True\<rparr> \<and>
     emitted (snd c1) (snd c2) = [] \<and>
     okx_lastPositions (prov (snd c2)) = okx_lastPositions (prov (snd c1))"
proof -
  let ?r1 = "r\<lparr>prov := (okx_ingest env trades (prov r))
        \<lparr>okx_lastPositions := map_option okx_Size \<circ> map_of positions,
         okx_initialized := True\<rparr>\<rparr>"
  have 1: "c1 = (None, ?r1)"
    using okx_first_poll_snapshot [OF assms(1-4)] c1 by simp
  have same: "map_of ps' = map_of positions"
    using assms(4,5,6) by (simp add: map_of_inject_set)
  have 2: "c2 = (if av2 \<le> 0 then (Some ''okx equity invalid'', ?r1)
                 else (None, ?r1\<lparr>prov := okx_ingest env2 trades2 (prov ?r1)\<rparr>))"
    unfolding c2 1 snd_conv
    using okx_repeated_poll [of ?r1 ps' env2 trades2 av2 order2]
      assms(5) same
    by simp
  show ?thesis
    unfolding 1 2 by (simp add: emitted_def okx_ingest_keeps)
qed

text \<open>A provider that has not completed a cycle has an empty snapshot: it is born so, and
  a cycle that does not complete changes nothing.\<close>

lemma okx_new_provider_empty:
  "newOKXProvider uniqueName pollInterval client = OKX p \<Longrightarrow>
   \<not> okx_initialized p \<and> okx_lastPositions p = Map.empty"
  by (auto simp: newOKXProvider_def)

lemma okx_uninitialized_stays_empty:
  assumes "\<not> okx_initialized (prov r)" "okx_lastPositions (prov r) = Map.empty"
  shows "okx_initialized (prov (snd (okx_fetchAndEmit env ft fe fp order r))) \<or>
         snd (okx_fetchAndEmit env ft fe fp order r) = r"
  using assms
  by (auto simp: okx_fetchAndEmit_def Let_def okx_ingest_keeps split: sum.split)

text \<open>
  What a round of a loop reads is what the previous poll left, as for Hyperliquid.
\<close>

lemma okx_diff_loop_reaches:
  assumes "symb \<notin> fst ` set xs"
  shows "okx_lastPositions
           (prov (fold (okx_diff_step env av) xs (r\<lparr>prov := okx_ingest env trades (prov r)\<rparr>))) symb
         = okx_lastPositions (prov r) symb"
  using okx_diff_loop_other_keys [OF assms, of env av "r\<lparr>prov := okx_ingest env trades (prov r)\<rparr>"]
  by (simp add: okx_ingest_keeps)

lemma okx_sweep_loop_reaches:
  assumes "map_of ps symb = None" "symb \<notin> set ks"
  shows "okx_lastPositions
           (prov (fold (okx_sweep_step env av ps) ks
              (fold (okx_diff_step env av) ps (r\<lparr>prov := okx_ingest env trades (prov r)\<rparr>)))) symb
         = okx_lastPositions (prov r) symb"
proof -
  have "symb \<notin> fst ` set ps"
    using assms(1) by (simp add: map_of_eq_None_iff)
  then show ?thesis
    using okx_sweep_loop_other_keys [OF assms(2)] okx_diff_loop_reaches by simp
qed

lemma okx_cycle_sweeps:
  assumes "okx_initialized (prov r)" "0 < accountValue"
    and "map_of positions symb = None" "symb \<in> set order"
  shows "okx_lastPositions
           (prov (snd (okx_fetchAndEmit env (Inr trades) (Inr accountValue) (Inr positions)
              order r))) symb
         = None"
  using assms
  by (simp add: okx_fetchAndEmit_def Let_def okx_ingest_keeps okx_sweep_loop_absent)

text \<open>
  The signals of one symbol in a whole cycle. A round of the first loop sends signals
  with the symbol of its entry only, a round of the last loop with the symbol of its
  key only, and only for a key that is in the snapshot and not among the fetched
  positions. The symbol is the key itself, so the cycle's signals with this symbol are exactly
  those of the one round that handles it.
\<close>

lemma okx_diff_step_symbols:
  "\<exists>new. sent (okx_diff_step env av e r) = sent r @ new \<and>
     (\<forall>s \<in> set new. Symbol s = fst e)"
  by (auto simp: okx_diff_step_def Let_def send_simps okx_set_position_simps okx_price_simps
      split: option.split)

lemma okx_diff_step_dom:
  "dom (okx_lastPositions (prov (okx_diff_step env av e r))) \<subseteq>
     insert (fst e) (dom (okx_lastPositions (prov r)))"
  by (auto simp: okx_diff_step_def Let_def send_simps okx_set_position_simps okx_price_simps
      split: option.splits if_splits)

lemma okx_sweep_step_symbols:
  "\<exists>new. sent (okx_sweep_step env av ps k r) = sent r @ new \<and>
     (\<forall>s \<in> set new. Symbol s = k \<and>
        k \<in> dom (okx_lastPositions (prov r)) \<and> map_of ps k = None)"
  by (auto simp: okx_sweep_step_def Let_def send_simps okx_delete_position_simps okx_price_simps
      split: option.split)

lemma okx_sweep_step_dom:
  "dom (okx_lastPositions (prov (okx_sweep_step env av ps k r))) \<subseteq> dom (okx_lastPositions (prov r))"
  by (auto simp: okx_sweep_step_def Let_def send_simps okx_delete_position_simps okx_price_simps
      split: option.splits if_splits)

lemma okx_cycle_symbol_diff:
  assumes init: "okx_initialized (prov r)" "0 < accountValue"
    and P: "positions = xs @ (symb, meta) # ys" "distinct (map fst positions)"
    and rb: "rb = fold (okx_diff_step env (accountValue)) xs
                    (r\<lparr>prov := okx_ingest env trades (prov r)\<rparr>)"
  shows "filter (\<lambda>s. Symbol s = symb)
           (emitted r (snd (okx_fetchAndEmit env (Inr trades) (Inr accountValue) (Inr positions) order r)))
         = emitted rb (okx_diff_step env (accountValue) (symb, meta) rb)"
proof -
  have inj: "\<forall>k \<in> fst ` set positions \<union> dom (okx_lastPositions (prov r)).
      k \<noteq> symb \<longrightarrow> k \<noteq> symb"
    by blast
  let ?c = "symb"
  let ?av = "accountValue"
  let ?ps = "positions"
  let ?D = "fst ` set ?ps \<union> dom (okx_lastPositions (prov r))"
  let ?I = "\<lambda>q. dom (okx_lastPositions (prov q)) \<subseteq> ?D"
  let ?Q = "\<lambda>s. Symbol s \<noteq> ?c"
  let ?r1 = "r\<lparr>prov := okx_ingest env trades (prov r)\<rparr>"
  let ?rb' = "okx_diff_step env ?av (symb, meta) rb"
  let ?rc = "fold (okx_diff_step env ?av) ys ?rb'"
  let ?rd = "fold (okx_sweep_step env ?av ?ps) order ?rc"
  have keys: "symb \<notin> fst ` set xs" "symb \<notin> fst ` set ys"
    using P by auto
  have sub: "fst ` set xs \<subseteq> fst ` set ?ps" "fst ` set ys \<subseteq> fst ` set ?ps"
      "symb \<in> fst ` set ?ps"
    using P(1) by auto
  have d: "?I (okx_diff_step env ?av e q) \<and>
      (\<exists>new. sent (okx_diff_step env ?av e q) = sent q @ new \<and> (\<forall>s \<in> set new. ?Q s))"
    if "e \<in> set zs" "symb \<notin> fst ` set zs" "fst ` set zs \<subseteq> fst ` set ?ps" "?I q" for e q zs
  proof -
    have k: "fst e \<in> ?D" "fst e \<noteq> symb" using that by auto
    then have "fst e \<noteq> ?c" using inj by blast
    moreover have "?I (okx_diff_step env ?av e q)"
      using okx_diff_step_dom [of env ?av e q] that(4) k(1) by blast
    ultimately show ?thesis
      using okx_diff_step_symbols [of env ?av e q] by auto
  qed
  have s: "?I (okx_sweep_step env ?av ?ps k q) \<and>
      (\<exists>new. sent (okx_sweep_step env ?av ?ps k q) = sent q @ new \<and> (\<forall>s \<in> set new. ?Q s))"
    if "?I q" for k q
  proof -
    obtain new where new: "sent (okx_sweep_step env ?av ?ps k q) = sent q @ new"
      "\<forall>s \<in> set new. Symbol s = k \<and>
          k \<in> dom (okx_lastPositions (prov q)) \<and> map_of ?ps k = None"
      using okx_sweep_step_symbols [of env ?av ?ps k q] by blast
    have "\<forall>s \<in> set new. ?Q s"
    proof
      fix x assume "x \<in> set new"
      with new(2) have x: "Symbol x = k"
          "k \<in> dom (okx_lastPositions (prov q))" "map_of ?ps k = None"
        by auto
      from x(3) sub(3) have "k \<noteq> symb" by (auto simp: map_of_eq_None_iff)
      moreover from x(2) that have "k \<in> ?D" by blast
      ultimately show "?Q x" using inj x(1) by auto
    qed
    moreover have "?I (okx_sweep_step env ?av ?ps k q)"
      using okx_sweep_step_dom [of env ?av ?ps k q] that by blast
    ultimately show ?thesis using new(1) by blast
  qed
  have i1: "?I ?r1" by (auto simp: okx_ingest_keeps)
  from fold_inv_sent_set [of xs ?I "okx_diff_step env ?av" ?Q ?r1]
    d [of _ xs] keys(1) sub(1) i1
  obtain n1 where n1: "?I rb" "sent rb = sent ?r1 @ n1" "\<forall>s \<in> set n1. ?Q s"
    unfolding rb by blast
  obtain mine where mine: "sent ?rb' = sent rb @ mine" "\<forall>s \<in> set mine. Symbol s = ?c"
    using okx_diff_step_symbols [of env ?av "(symb, meta)" rb] by auto
  have ib': "?I ?rb'"
    using okx_diff_step_dom [of env ?av "(symb, meta)" rb] n1(1) sub(3) by auto
  from fold_inv_sent_set [of ys ?I "okx_diff_step env ?av" ?Q ?rb']
    d [of _ ys] keys(2) sub(2) ib'
  obtain n2 where n2: "?I ?rc" "sent ?rc = sent ?rb' @ n2" "\<forall>s \<in> set n2. ?Q s"
    by blast
  from fold_inv_sent_set [of order ?I "okx_sweep_step env ?av ?ps" ?Q ?rc] s n2(1)
  obtain n3 where n3: "?I ?rd" "sent ?rd = sent ?rc @ n3" "\<forall>s \<in> set n3. ?Q s"
    by blast
  have r': "snd (okx_fetchAndEmit env (Inr trades) (Inr accountValue) (Inr positions) order r) = ?rd"
    using init by (simp add: okx_fetchAndEmit_def Let_def okx_ingest_keeps P(1) rb)
  have "sent ?rd = sent r @ (n1 @ mine @ n2 @ n3)"
    using n1(2) mine(1) n2(2) n3(2) by simp
  then have "emitted r ?rd = n1 @ mine @ n2 @ n3"
    by (rule emitted_append)
  moreover have "emitted rb ?rb' = mine"
    using mine(1) by (rule emitted_append)
  moreover have "filter (\<lambda>s. Symbol s = ?c) (n1 @ mine @ n2 @ n3) = mine"
    using n1(3) mine(2) n2(3) n3(3) by (simp add: filter_empty_conv filter_id_conv)
  ultimately show ?thesis
    using r' by simp
qed

lemma okx_cycle_symbol_sweep:
  assumes init: "okx_initialized (prov r)" "0 < accountValue"
    and absent: "map_of positions symb = None"
    and order: "order = ks1 @ symb # ks2" "symb \<notin> set ks1"
    and rb: "rb = fold (okx_sweep_step env (accountValue) positions) ks1
                    (fold (okx_diff_step env (accountValue)) positions
                       (r\<lparr>prov := okx_ingest env trades (prov r)\<rparr>))"
  shows "filter (\<lambda>s. Symbol s = symb)
           (emitted r (snd (okx_fetchAndEmit env (Inr trades) (Inr accountValue) (Inr positions) order r)))
         = emitted rb (okx_sweep_step env (accountValue) positions symb rb)"
proof -
  have inj: "\<forall>k \<in> fst ` set positions \<union> dom (okx_lastPositions (prov r)).
      k \<noteq> symb \<longrightarrow> k \<noteq> symb"
    by blast
  let ?c = "symb"
  let ?av = "accountValue"
  let ?ps = "positions"
  let ?D = "fst ` set ?ps \<union> dom (okx_lastPositions (prov r))"
  let ?I = "\<lambda>q. dom (okx_lastPositions (prov q)) \<subseteq> ?D"
  let ?J = "\<lambda>q. dom (okx_lastPositions (prov q)) \<subseteq> ?D \<and> okx_lastPositions (prov q) symb = None"
  let ?Q = "\<lambda>s. Symbol s \<noteq> ?c"
  let ?r1 = "r\<lparr>prov := okx_ingest env trades (prov r)\<rparr>"
  let ?ra = "fold (okx_diff_step env ?av) ?ps ?r1"
  let ?rb' = "okx_sweep_step env ?av ?ps symb rb"
  let ?rd = "fold (okx_sweep_step env ?av ?ps) ks2 ?rb'"
  have nokey: "symb \<notin> fst ` set ?ps"
    using absent by (simp add: map_of_eq_None_iff)
  have d: "?I (okx_diff_step env ?av e q) \<and>
      (\<exists>new. sent (okx_diff_step env ?av e q) = sent q @ new \<and> (\<forall>s \<in> set new. ?Q s))"
    if "e \<in> set ?ps" "?I q" for e q
  proof -
    have k: "fst e \<in> ?D" "fst e \<noteq> symb" using that(1) nokey by auto
    then have "fst e \<noteq> ?c" using inj by blast
    moreover have "?I (okx_diff_step env ?av e q)"
      using okx_diff_step_dom [of env ?av e q] that(2) k(1) by blast
    ultimately show ?thesis
      using okx_diff_step_symbols [of env ?av e q] by auto
  qed
  have s1: "?I (okx_sweep_step env ?av ?ps k q) \<and>
      (\<exists>new. sent (okx_sweep_step env ?av ?ps k q) = sent q @ new \<and> (\<forall>s \<in> set new. ?Q s))"
    if "k \<in> set ks1" "?I q" for k q
  proof -
    obtain new where new: "sent (okx_sweep_step env ?av ?ps k q) = sent q @ new"
      "\<forall>s \<in> set new. Symbol s = k \<and>
          k \<in> dom (okx_lastPositions (prov q)) \<and> map_of ?ps k = None"
      using okx_sweep_step_symbols [of env ?av ?ps k q] by blast
    have "k \<noteq> symb" using that(1) order(2) by auto
    then have "\<forall>s \<in> set new. ?Q s"
      using new(2) that(2) inj by metis
    moreover have "?I (okx_sweep_step env ?av ?ps k q)"
      using okx_sweep_step_dom [of env ?av ?ps k q] that(2) by blast
    ultimately show ?thesis using new(1) by blast
  qed
  have s2: "?J (okx_sweep_step env ?av ?ps k q) \<and>
      (\<exists>new. sent (okx_sweep_step env ?av ?ps k q) = sent q @ new \<and> (\<forall>s \<in> set new. ?Q s))"
    if "?J q" for k q
  proof -
    obtain new where new: "sent (okx_sweep_step env ?av ?ps k q) = sent q @ new"
      "\<forall>s \<in> set new. Symbol s = k \<and>
          k \<in> dom (okx_lastPositions (prov q)) \<and> map_of ?ps k = None"
      using okx_sweep_step_symbols [of env ?av ?ps k q] by blast
    have "\<forall>s \<in> set new. ?Q s"
    proof
      fix x assume "x \<in> set new"
      with new(2) have x: "Symbol x = k"
          "k \<in> dom (okx_lastPositions (prov q))"
        by auto
      from x(2) that have "k \<noteq> symb" "k \<in> ?D" by auto
      then show "?Q x" using inj x(1) by auto
    qed
    moreover have "?J (okx_sweep_step env ?av ?ps k q)"
      using okx_sweep_step_dom [of env ?av ?ps k q] that
        okx_sweep_step_stays_absent [of q symb env ?av ?ps k]
      by blast
    ultimately show ?thesis using new(1) by blast
  qed
  have i1: "?I ?r1" by (auto simp: okx_ingest_keeps)
  from fold_inv_sent_set [of ?ps ?I "okx_diff_step env ?av" ?Q ?r1] d i1
  obtain n1 where n1: "?I ?ra" "sent ?ra = sent ?r1 @ n1" "\<forall>s \<in> set n1. ?Q s"
    by blast
  from fold_inv_sent_set [of ks1 ?I "okx_sweep_step env ?av ?ps" ?Q ?ra] s1 n1(1)
  obtain n2 where n2: "?I rb" "sent rb = sent ?ra @ n2" "\<forall>s \<in> set n2. ?Q s"
    unfolding rb by blast
  obtain mine where mine: "sent ?rb' = sent rb @ mine" "\<forall>s \<in> set mine. Symbol s = ?c"
    using okx_sweep_step_symbols [of env ?av ?ps symb rb] by auto
  have jb': "?J ?rb'"
    using okx_sweep_step_dom [of env ?av ?ps symb rb] n2(1)
      okx_sweep_step_absent [OF absent, of env ?av rb]
    by blast
  have "?J ?rd \<and> (\<exists>new. sent ?rd = sent ?rb' @ new \<and> (\<forall>s \<in> set new. ?Q s))"
  proof (rule fold_inv_sent_set [where I = ?J and Q = ?Q])
    show "?J ?rb'" by (rule jb')
  next
    fix k :: string and q :: "okxProvider run"
    assume "?J q"
    then show "?J (okx_sweep_step env ?av ?ps k q) \<and>
      (\<exists>new. sent (okx_sweep_step env ?av ?ps k q) = sent q @ new \<and> (\<forall>s \<in> set new. ?Q s))"
      by (rule s2)
  qed
  then obtain n3 where n3: "?J ?rd" "sent ?rd = sent ?rb' @ n3" "\<forall>s \<in> set n3. ?Q s"
    by blast
  have r': "snd (okx_fetchAndEmit env (Inr trades) (Inr accountValue) (Inr positions) order r) = ?rd"
    using init by (simp add: okx_fetchAndEmit_def Let_def okx_ingest_keeps order(1) rb)
  have "sent ?rd = sent r @ (n1 @ n2 @ mine @ n3)"
    using n1(2) n2(2) mine(1) n3(2) by simp
  then have "emitted r ?rd = n1 @ n2 @ mine @ n3"
    by (rule emitted_append)
  moreover have "emitted rb ?rb' = mine"
    using mine(1) by (rule emitted_append)
  moreover have "filter (\<lambda>s. Symbol s = ?c) (n1 @ n2 @ mine @ n3) = mine"
    using n1(3) n2(3) mine(2) n3(3) by (simp add: filter_empty_conv filter_id_conv)
  ultimately show ?thesis
    using r' by simp
qed

lemma okx_cycle_flip:
  assumes init: "okx_initialized (prov r)" "0 < accountValue"
    and P: "positions = xs @ (symb, meta) # ys" "distinct (map fst positions)"
    and prev: "prev = lookup0 (okx_lastPositions (prov r)) symb"
    and flip: "(0 < prev \<and> okx_Size meta < 0) \<or> (prev < 0 \<and> 0 < okx_Size meta)"
    and price: "okx_price env symb
          (fold (okx_diff_step env (accountValue)) xs
             (r\<lparr>prov := okx_ingest env trades (prov r)\<rparr>)) = (price, r1)" "0 < price"
  shows "filter (\<lambda>s. Symbol s = symb)
           (emitted r (snd (okx_fetchAndEmit env (Inr trades) (Inr accountValue) (Inr positions) order r)))
       = [\<lparr>Symbol = symb,
           Action = (if 0 < prev then ActionCloseLong else ActionCloseShort),
           NotionalUSD = \<bar>prev\<bar> * price, Price = price, LeaderEquity = accountValue,
           LeaderLeverage = okx_Leverage meta, MarginMode = okx_MarginMode meta,
           Timestamp = time_Now env (ticks r1),
           DeltaSize = - prev, LeaderPosBefore = prev, LeaderPosAfter = 0\<rparr>,
          \<lparr>Symbol = symb,
           Action = (if 0 < prev then ActionOpenShort else ActionOpenLong),
           NotionalUSD = \<bar>okx_Size meta\<bar> * price, Price = price,
           LeaderEquity = accountValue,
           LeaderLeverage = okx_Leverage meta, MarginMode = okx_MarginMode meta,
           Timestamp = time_Now env (Suc (ticks r1)),
           DeltaSize = okx_Size meta, LeaderPosBefore = 0, LeaderPosAfter = okx_Size meta\<rparr>]"
proof -
  let ?rb = "fold (okx_diff_step env (accountValue)) xs
               (r\<lparr>prov := okx_ingest env trades (prov r)\<rparr>)"
  have "symb \<notin> fst ` set xs" using P by auto
  then have p: "prev = lookup0 (okx_lastPositions (prov ?rb)) symb"
    using okx_diff_loop_reaches [where symb = symb and xs = xs and env = env and av = accountValue
        and r = r and trades = trades] prev
    by (simp add: lookup0_def)
  have s: "sent r1 = sent ?rb"
    using okx_price_simps(1) [of env "symb" ?rb] price(1) by simp
  show ?thesis
    unfolding okx_cycle_symbol_diff [OF init P refl]
      okx_diff_step_flip [OF p flip price]
    by (simp add: emitted_def s)
qed

lemma okx_cycle_change:
  assumes init: "okx_initialized (prov r)" "0 < accountValue"
    and P: "positions = xs @ (symb, meta) # ys" "distinct (map fst positions)"
    and prev: "prev = lookup0 (okx_lastPositions (prov r)) symb"
    and change: "okx_Size meta \<noteq> prev"
      "\<not> (0 < prev \<and> okx_Size meta < 0)" "\<not> (prev < 0 \<and> 0 < okx_Size meta)"
    and price: "okx_price env symb
          (fold (okx_diff_step env (accountValue)) xs
             (r\<lparr>prov := okx_ingest env trades (prov r)\<rparr>)) = (price, r1)" "0 < price"
  shows "filter (\<lambda>s. Symbol s = symb)
           (emitted r (snd (okx_fetchAndEmit env (Inr trades) (Inr accountValue) (Inr positions) order r)))
       = [\<lparr>Symbol = symb,
           Action = (if prev < okx_Size meta
                     then (if 0 < okx_Size meta then ActionAddLong else ActionReduceShort)
                     else (if okx_Size meta < 0 then ActionAddShort else ActionReduceLong)),
           NotionalUSD = \<bar>okx_Size meta - prev\<bar> * price, Price = price,
           LeaderEquity = accountValue,
           LeaderLeverage = okx_Leverage meta, MarginMode = okx_MarginMode meta,
           Timestamp = time_Now env (ticks r1),
           DeltaSize = okx_Size meta - prev, LeaderPosBefore = prev,
           LeaderPosAfter = okx_Size meta\<rparr>]"
proof -
  let ?rb = "fold (okx_diff_step env (accountValue)) xs
               (r\<lparr>prov := okx_ingest env trades (prov r)\<rparr>)"
  have "symb \<notin> fst ` set xs" using P by auto
  then have p: "prev = lookup0 (okx_lastPositions (prov ?rb)) symb"
    using okx_diff_loop_reaches [where symb = symb and xs = xs and env = env and av = accountValue
        and r = r and trades = trades] prev
    by (simp add: lookup0_def)
  have s: "sent r1 = sent ?rb"
    using okx_price_simps(1) [of env "symb" ?rb] price(1) by simp
  show ?thesis
    unfolding okx_cycle_symbol_diff [OF init P refl]
      okx_diff_step_change [OF p change price]
    by (simp add: emitted_def s)
qed

lemma okx_cycle_gone:
  assumes init: "okx_initialized (prov r)" "0 < accountValue"
    and absent: "map_of positions symb = None"
    and order: "order = ks1 @ symb # ks2" "symb \<notin> set ks1"
    and prev: "okx_lastPositions (prov r) symb = Some prev" "prev \<noteq> 0"
    and price: "okx_price env symb
          (fold (okx_sweep_step env (accountValue) positions) ks1
            (fold (okx_diff_step env (accountValue)) positions
               (r\<lparr>prov := okx_ingest env trades (prov r)\<rparr>))) = (price, r1)"
  shows "filter (\<lambda>s. Symbol s = symb)
           (emitted r (snd (okx_fetchAndEmit env (Inr trades) (Inr accountValue) (Inr positions) order r)))
       = (if 0 < price
          then [\<lparr>Symbol = symb,
                 Action = (if 0 < prev then ActionCloseLong else ActionCloseShort),
                 NotionalUSD = \<bar>prev\<bar> * price, Price = 0,
                 LeaderEquity = accountValue,
                 LeaderLeverage = 0, MarginMode = [],
                 Timestamp = time_Now env (ticks r1),
                 DeltaSize = - prev, LeaderPosBefore = prev, LeaderPosAfter = 0\<rparr>]
          else [])"
proof -
  let ?rb = "fold (okx_sweep_step env (accountValue) positions) ks1
            (fold (okx_diff_step env (accountValue)) positions
               (r\<lparr>prov := okx_ingest env trades (prov r)\<rparr>))"
  have p: "okx_lastPositions (prov ?rb) symb = Some prev"
    using okx_sweep_loop_reaches [OF absent order(2), where env = env and av = accountValue
        and r = r and trades = trades] prev(1)
    by simp
  have s: "sent r1 = sent ?rb"
    using okx_price_simps(1) [of env "symb" ?rb] price by simp
  show ?thesis
    unfolding okx_cycle_symbol_sweep [OF init absent order refl]
      okx_sweep_step_gone [OF p prev(2) absent price]
    by (simp add: emitted_def s)
qed

section \<open>The claims about the observers\<close>

text \<open>
  In the concrete runs below the Hyperliquid coins \<open>BTC\<close> and \<open>ETH\<close> are the symbols
  \<open>BTCUSDT\<close> and \<open>ETHUSDT\<close>.
\<close>

lemma convertHyperliquidSymbol_BTC: "convertHyperliquidSymbol ''BTC'' = ''BTCUSDT''"
  by code_simp

lemma convertHyperliquidSymbol_ETH: "convertHyperliquidSymbol ''ETH'' = ''ETHUSDT''"
  by code_simp

subsection \<open>C1: every signal of a cycle is consistent\<close>



subsection \<open>C2: a direction flip\<close>

text \<open>
  C2 says that every flip sends a close and an open that carry the same timestamp. Two
  things in the code stand against it. A flip is behind the price gate like every other
  change: without a price nothing is sent. And each signal is built with its own call of
  \<open>time.Now()\<close>, so the open carries a later reading of the clock than the close.
  Both are shown on the specification's flip of \<open>BTC\<close> from \<open>+0.8\<close> to \<open>-0.2\<close>: first
  with no price anywhere (nothing is sent), then at price 60000 with a clock that
  advances between two readings (the timestamps are 1000 and 1001).
\<close>

theorem flip_counterexample:
  "emitted
     \<lparr>prov = \<lparr>hl_user = ''0xabc'', hl_pollInterval = 3000000000, hl_client = None,
              hl_lastTID = 7, hl_initialized = True, hl_lastPositions = [''BTC'' \<mapsto> 0.8],
              hl_lastPrices = Map.empty\<rparr>, sent = [], ticks = 0\<rparr>
     (snd (hl_fetchAndEmit
       \<lparr>ParseFloat = (\<lambda>s. 0), market_Get = (\<lambda>k s. None), time_Now = (\<lambda>k. 1000 + int k)\<rparr>
       (Inr [])
       (Inr \<lparr>AccountValue = 100000,
             Positions = [(''BTC'', \<lparr>hl_MarginMode = ''cross'', hl_Leverage = 10,
                                    hl_Size = - 0.2\<rparr>)]\<rparr>)
       [''BTC'']
       \<lparr>prov = \<lparr>hl_user = ''0xabc'', hl_pollInterval = 3000000000, hl_client = None,
                hl_lastTID = 7, hl_initialized = True, hl_lastPositions = [''BTC'' \<mapsto> 0.8],
                hl_lastPrices = Map.empty\<rparr>, sent = [], ticks = 0\<rparr>))
   = [] \<and>
   map Timestamp (emitted
     \<lparr>prov = \<lparr>hl_user = ''0xabc'', hl_pollInterval = 3000000000, hl_client = None,
              hl_lastTID = 7, hl_initialized = True, hl_lastPositions = [''BTC'' \<mapsto> 0.8],
              hl_lastPrices = [''BTCUSDT'' \<mapsto> 60000]\<rparr>, sent = [], ticks = 0\<rparr>
     (snd (hl_fetchAndEmit
       \<lparr>ParseFloat = (\<lambda>s. 0), market_Get = (\<lambda>k s. None), time_Now = (\<lambda>k. 1000 + int k)\<rparr>
       (Inr [])
       (Inr \<lparr>AccountValue = 100000,
             Positions = [(''BTC'', \<lparr>hl_MarginMode = ''cross'', hl_Leverage = 10,
                                    hl_Size = - 0.2\<rparr>)]\<rparr>)
       [''BTC'']
       \<lparr>prov = \<lparr>hl_user = ''0xabc'', hl_pollInterval = 3000000000, hl_client = None,
                hl_lastTID = 7, hl_initialized = True, hl_lastPositions = [''BTC'' \<mapsto> 0.8],
                hl_lastPrices = [''BTCUSDT'' \<mapsto> 60000]\<rparr>, sent = [], ticks = 0\<rparr>)))
   = [1000, 1001]"
  by (simp add: emitted_def hl_fetchAndEmit_def hl_ingest_def sort_Slice_def Let_def
      hl_diff_step_def hl_sweep_step_def hl_price_def lookup0_def send_def
      hl_set_position_def convertHyperliquidSymbol_BTC)

text \<open>
  C2 as amended. A symbol is among the fetched positions and its position flips
  (\<open>prev > 0\<close> and \<open>new < 0\<close>, or \<open>prev < 0\<close> and \<open>new > 0\<close>, \<open>prev\<close> being the snapshot's
  size and \<open>new\<close> the fetched one), and a price resolves (\<open>price > 0\<close>). Then the observer
  sends exactly two signals for the symbol, in this order: a close of the old direction
  with notional \<open>|prev| * price\<close>, \<open>delta_size = -prev\<close>, \<open>pos_before = prev\<close>,
  \<open>pos_after = 0\<close>, then an open of the opposite direction with notional
  \<open>|new| * price\<close>, \<open>delta_size = new\<close>, \<open>pos_before = 0\<close>, \<open>pos_after = new\<close>. The close
  carries the clock's reading at its sending and the open the next reading. This is
  stated twice for each observer:
  \<^item> for the round of the loop that handles the entry, from any run \<open>r\<close>: the round
    appends these two signals and stores \<open>new\<close> in the snapshot;
  \<^item> for a whole cycle from an initialized provider, \<open>prev\<close> being the snapshot's size
    when the cycle starts and the price being resolved when the loop reaches the entry:
    the cycle's signals with this symbol are these two. For Hyperliquid no other coin of
    the fetched positions or of the snapshot may have the same symbol.
\<close>

theorem flip_sends_close_then_open:
  "(prev = lookup0 (hl_lastPositions (prov r)) symb \<and>
    new = hl_Size meta \<and>
    (0 < prev \<and> new < 0 \<or> prev < 0 \<and> 0 < new) \<and>
    hl_price env (convertHyperliquidSymbol symb) r = (price, r1) \<and>
    0 < price \<longrightarrow>
    hl_diff_step env av (symb, meta) r =
      r1\<lparr>sent := sent r1 @
          [\<lparr>Symbol = convertHyperliquidSymbol symb,
             Action = (if 0 < prev then ActionCloseLong else ActionCloseShort),
             NotionalUSD = \<bar>prev\<bar> * price, Price = price, LeaderEquity = av,
             LeaderLeverage = hl_Leverage meta, MarginMode = hl_MarginMode meta,
             Timestamp = time_Now env (ticks r1),
             DeltaSize = - prev, LeaderPosBefore = prev, LeaderPosAfter = 0\<rparr>,
           \<lparr>Symbol = convertHyperliquidSymbol symb,
             Action = (if 0 < prev then ActionOpenShort else ActionOpenLong),
             NotionalUSD = \<bar>new\<bar> * price, Price = price, LeaderEquity = av,
             LeaderLeverage = hl_Leverage meta, MarginMode = hl_MarginMode meta,
             Timestamp = time_Now env (Suc (ticks r1)),
             DeltaSize = new, LeaderPosBefore = 0, LeaderPosAfter = new\<rparr>],
         ticks := Suc (Suc (ticks r1)),
         prov := (prov r1)\<lparr>hl_lastPositions :=
                   (hl_lastPositions (prov r1))(symb \<mapsto> new)\<rparr>\<rparr>) \<and>
   (hl_initialized (prov r) \<and>
    0 < AccountValue state \<and>
    Positions state = xs @ (symb, meta) # ys \<and>
    distinct (map fst (Positions state)) \<and>
    (\<forall>k \<in> fst ` set (Positions state) \<union> dom (hl_lastPositions (prov r)).
        k \<noteq> symb \<longrightarrow>
        convertHyperliquidSymbol k \<noteq> convertHyperliquidSymbol symb) \<and>
    prev = lookup0 (hl_lastPositions (prov r)) symb \<and>
    new = hl_Size meta \<and>
    (0 < prev \<and> new < 0 \<or> prev < 0 \<and> 0 < new) \<and>
    hl_price env (convertHyperliquidSymbol symb)
      (fold (hl_diff_step env (AccountValue state)) xs
         (r\<lparr>prov := hl_ingest env fills (prov r)\<rparr>)) = (price, r1) \<and>
    0 < price \<longrightarrow>
    filter (\<lambda>s. Symbol s = convertHyperliquidSymbol symb)
      (emitted r (snd (hl_fetchAndEmit env (Inr fills) (Inr state) order r))) =
      [\<lparr>Symbol = convertHyperliquidSymbol symb,
         Action = (if 0 < prev then ActionCloseLong else ActionCloseShort),
         NotionalUSD = \<bar>prev\<bar> * price, Price = price, LeaderEquity = AccountValue state,
         LeaderLeverage = hl_Leverage meta, MarginMode = hl_MarginMode meta,
         Timestamp = time_Now env (ticks r1),
         DeltaSize = - prev, LeaderPosBefore = prev, LeaderPosAfter = 0\<rparr>,
       \<lparr>Symbol = convertHyperliquidSymbol symb,
         Action = (if 0 < prev then ActionOpenShort else ActionOpenLong),
         NotionalUSD = \<bar>new\<bar> * price, Price = price, LeaderEquity = AccountValue state,
         LeaderLeverage = hl_Leverage meta, MarginMode = hl_MarginMode meta,
         Timestamp = time_Now env (Suc (ticks r1)),
         DeltaSize = new, LeaderPosBefore = 0, LeaderPosAfter = new\<rparr>]) \<and>
   (prev' = lookup0 (okx_lastPositions (prov q)) symb' \<and>
    new' = okx_Size meta' \<and>
    (0 < prev' \<and> new' < 0 \<or> prev' < 0 \<and> 0 < new') \<and>
    okx_price env' symb' q = (price', q1) \<and>
    0 < price' \<longrightarrow>
    okx_diff_step env' av' (symb', meta') q =
      q1\<lparr>sent := sent q1 @
          [\<lparr>Symbol = symb',
             Action = (if 0 < prev' then ActionCloseLong else ActionCloseShort),
             NotionalUSD = \<bar>prev'\<bar> * price', Price = price', LeaderEquity = av',
             LeaderLeverage = okx_Leverage meta', MarginMode = okx_MarginMode meta',
             Timestamp = time_Now env' (ticks q1),
             DeltaSize = - prev', LeaderPosBefore = prev', LeaderPosAfter = 0\<rparr>,
           \<lparr>Symbol = symb',
             Action = (if 0 < prev' then ActionOpenShort else ActionOpenLong),
             NotionalUSD = \<bar>new'\<bar> * price', Price = price', LeaderEquity = av',
             LeaderLeverage = okx_Leverage meta', MarginMode = okx_MarginMode meta',
             Timestamp = time_Now env' (Suc (ticks q1)),
             DeltaSize = new', LeaderPosBefore = 0, LeaderPosAfter = new'\<rparr>],
         ticks := Suc (Suc (ticks q1)),
         prov := (prov q1)\<lparr>okx_lastPositions :=
                   (okx_lastPositions (prov q1))(symb' \<mapsto> new')\<rparr>\<rparr>) \<and>
   (okx_initialized (prov q) \<and>
    0 < accountValue \<and>
    positions = xs' @ (symb', meta') # ys' \<and>
    distinct (map fst positions) \<and>
    prev' = lookup0 (okx_lastPositions (prov q)) symb' \<and>
    new' = okx_Size meta' \<and>
    (0 < prev' \<and> new' < 0 \<or> prev' < 0 \<and> 0 < new') \<and>
    okx_price env' symb'
      (fold (okx_diff_step env' accountValue) xs'
         (q\<lparr>prov := okx_ingest env' trades (prov q)\<rparr>)) = (price', q1) \<and>
    0 < price' \<longrightarrow>
    filter (\<lambda>s. Symbol s = symb')
      (emitted q (snd (okx_fetchAndEmit env' (Inr trades) (Inr accountValue) (Inr positions) order' q))) =
      [\<lparr>Symbol = symb',
         Action = (if 0 < prev' then ActionCloseLong else ActionCloseShort),
         NotionalUSD = \<bar>prev'\<bar> * price', Price = price', LeaderEquity = accountValue,
         LeaderLeverage = okx_Leverage meta', MarginMode = okx_MarginMode meta',
         Timestamp = time_Now env' (ticks q1),
         DeltaSize = - prev', LeaderPosBefore = prev', LeaderPosAfter = 0\<rparr>,
       \<lparr>Symbol = symb',
         Action = (if 0 < prev' then ActionOpenShort else ActionOpenLong),
         NotionalUSD = \<bar>new'\<bar> * price', Price = price', LeaderEquity = accountValue,
         LeaderLeverage = okx_Leverage meta', MarginMode = okx_MarginMode meta',
         Timestamp = time_Now env' (Suc (ticks q1)),
         DeltaSize = new', LeaderPosBefore = 0, LeaderPosAfter = new'\<rparr>])"
proof (intro conjI impI)
  assume "prev = lookup0 (hl_lastPositions (prov r)) symb \<and>
          new = hl_Size meta \<and>
          (0 < prev \<and> new < 0 \<or> prev < 0 \<and> 0 < new) \<and>
          hl_price env (convertHyperliquidSymbol symb) r = (price, r1) \<and>
          0 < price"
  then have
    p: "prev = lookup0 (hl_lastPositions (prov r)) symb"
    and n: "new = hl_Size meta"
    and c: "(0 < prev \<and> new < 0) \<or> (prev < 0 \<and> 0 < new)"
    and pr: "hl_price env (convertHyperliquidSymbol symb) r = (price, r1)" "0 < price"
    by blast+
  show "hl_diff_step env av (symb, meta) r =
          r1\<lparr>sent := sent r1 @
              [\<lparr>Symbol = convertHyperliquidSymbol symb,
                 Action = (if 0 < prev then ActionCloseLong else ActionCloseShort),
                 NotionalUSD = \<bar>prev\<bar> * price, Price = price, LeaderEquity = av,
                 LeaderLeverage = hl_Leverage meta, MarginMode = hl_MarginMode meta,
                 Timestamp = time_Now env (ticks r1),
                 DeltaSize = - prev, LeaderPosBefore = prev, LeaderPosAfter = 0\<rparr>,
               \<lparr>Symbol = convertHyperliquidSymbol symb,
                 Action = (if 0 < prev then ActionOpenShort else ActionOpenLong),
                 NotionalUSD = \<bar>new\<bar> * price, Price = price, LeaderEquity = av,
                 LeaderLeverage = hl_Leverage meta, MarginMode = hl_MarginMode meta,
                 Timestamp = time_Now env (Suc (ticks r1)),
                 DeltaSize = new, LeaderPosBefore = 0, LeaderPosAfter = new\<rparr>],
             ticks := Suc (Suc (ticks r1)),
             prov := (prov r1)\<lparr>hl_lastPositions :=
                       (hl_lastPositions (prov r1))(symb \<mapsto> new)\<rparr>\<rparr>"
    using c unfolding n by (rule hl_diff_step_flip [OF p _ pr])
next
  assume "hl_initialized (prov r) \<and>
          0 < AccountValue state \<and>
          Positions state = xs @ (symb, meta) # ys \<and>
          distinct (map fst (Positions state)) \<and>
          (\<forall>k \<in> fst ` set (Positions state) \<union> dom (hl_lastPositions (prov r)).
              k \<noteq> symb \<longrightarrow>
              convertHyperliquidSymbol k \<noteq> convertHyperliquidSymbol symb) \<and>
          prev = lookup0 (hl_lastPositions (prov r)) symb \<and>
          new = hl_Size meta \<and>
          (0 < prev \<and> new < 0 \<or> prev < 0 \<and> 0 < new) \<and>
          hl_price env (convertHyperliquidSymbol symb)
            (fold (hl_diff_step env (AccountValue state)) xs
               (r\<lparr>prov := hl_ingest env fills (prov r)\<rparr>)) = (price, r1) \<and>
          0 < price"
  then have
    init: "hl_initialized (prov r)" "0 < AccountValue state"
    and P: "Positions state = xs @ (symb, meta) # ys"
      "distinct (map fst (Positions state))"
    and inj: "(\<forall>k \<in> fst ` set (Positions state) \<union> dom (hl_lastPositions (prov r)).
          k \<noteq> symb \<longrightarrow>
          convertHyperliquidSymbol k \<noteq> convertHyperliquidSymbol symb)"
    and p: "prev = lookup0 (hl_lastPositions (prov r)) symb"
    and n: "new = hl_Size meta"
    and c: "(0 < prev \<and> new < 0) \<or> (prev < 0 \<and> 0 < new)"
    and pr: "hl_price env (convertHyperliquidSymbol symb)
        (fold (hl_diff_step env (AccountValue state)) xs
           (r\<lparr>prov := hl_ingest env fills (prov r)\<rparr>)) = (price, r1)"
      "0 < price"
    by blast+
  show "filter (\<lambda>s. Symbol s = convertHyperliquidSymbol symb)
          (emitted r (snd (hl_fetchAndEmit env (Inr fills) (Inr state) order r))) =
          [\<lparr>Symbol = convertHyperliquidSymbol symb,
             Action = (if 0 < prev then ActionCloseLong else ActionCloseShort),
             NotionalUSD = \<bar>prev\<bar> * price, Price = price, LeaderEquity = AccountValue state,
             LeaderLeverage = hl_Leverage meta, MarginMode = hl_MarginMode meta,
             Timestamp = time_Now env (ticks r1),
             DeltaSize = - prev, LeaderPosBefore = prev, LeaderPosAfter = 0\<rparr>,
           \<lparr>Symbol = convertHyperliquidSymbol symb,
             Action = (if 0 < prev then ActionOpenShort else ActionOpenLong),
             NotionalUSD = \<bar>new\<bar> * price, Price = price, LeaderEquity = AccountValue state,
             LeaderLeverage = hl_Leverage meta, MarginMode = hl_MarginMode meta,
             Timestamp = time_Now env (Suc (ticks r1)),
             DeltaSize = new, LeaderPosBefore = 0, LeaderPosAfter = new\<rparr>]"
    using c unfolding n by (rule hl_cycle_flip [OF init P inj p _ pr])
next
  assume "prev' = lookup0 (okx_lastPositions (prov q)) symb' \<and>
          new' = okx_Size meta' \<and>
          (0 < prev' \<and> new' < 0 \<or> prev' < 0 \<and> 0 < new') \<and>
          okx_price env' symb' q = (price', q1) \<and>
          0 < price'"
  then have
    p: "prev' = lookup0 (okx_lastPositions (prov q)) symb'"
    and n: "new' = okx_Size meta'"
    and c: "(0 < prev' \<and> new' < 0) \<or> (prev' < 0 \<and> 0 < new')"
    and pr: "okx_price env' symb' q = (price', q1)" "0 < price'"
    by blast+
  show "okx_diff_step env' av' (symb', meta') q =
          q1\<lparr>sent := sent q1 @
              [\<lparr>Symbol = symb',
                 Action = (if 0 < prev' then ActionCloseLong else ActionCloseShort),
                 NotionalUSD = \<bar>prev'\<bar> * price', Price = price', LeaderEquity = av',
                 LeaderLeverage = okx_Leverage meta', MarginMode = okx_MarginMode meta',
                 Timestamp = time_Now env' (ticks q1),
                 DeltaSize = - prev', LeaderPosBefore = prev', LeaderPosAfter = 0\<rparr>,
               \<lparr>Symbol = symb',
                 Action = (if 0 < prev' then ActionOpenShort else ActionOpenLong),
                 NotionalUSD = \<bar>new'\<bar> * price', Price = price', LeaderEquity = av',
                 LeaderLeverage = okx_Leverage meta', MarginMode = okx_MarginMode meta',
                 Timestamp = time_Now env' (Suc (ticks q1)),
                 DeltaSize = new', LeaderPosBefore = 0, LeaderPosAfter = new'\<rparr>],
             ticks := Suc (Suc (ticks q1)),
             prov := (prov q1)\<lparr>okx_lastPositions :=
                       (okx_lastPositions (prov q1))(symb' \<mapsto> new')\<rparr>\<rparr>"
    using c unfolding n by (rule okx_diff_step_flip [OF p _ pr])
next
  assume "okx_initialized (prov q) \<and>
          0 < accountValue \<and>
          positions = xs' @ (symb', meta') # ys' \<and>
          distinct (map fst positions) \<and>
          prev' = lookup0 (okx_lastPositions (prov q)) symb' \<and>
          new' = okx_Size meta' \<and>
          (0 < prev' \<and> new' < 0 \<or> prev' < 0 \<and> 0 < new') \<and>
          okx_price env' symb'
            (fold (okx_diff_step env' accountValue) xs'
               (q\<lparr>prov := okx_ingest env' trades (prov q)\<rparr>)) = (price', q1) \<and>
          0 < price'"
  then have
    init: "okx_initialized (prov q)" "0 < accountValue"
    and P: "positions = xs' @ (symb', meta') # ys'"
      "distinct (map fst positions)"
    and p: "prev' = lookup0 (okx_lastPositions (prov q)) symb'"
    and n: "new' = okx_Size meta'"
    and c: "(0 < prev' \<and> new' < 0) \<or> (prev' < 0 \<and> 0 < new')"
    and pr: "okx_price env' symb'
        (fold (okx_diff_step env' accountValue) xs'
           (q\<lparr>prov := okx_ingest env' trades (prov q)\<rparr>)) = (price', q1)"
      "0 < price'"
    by blast+
  show "filter (\<lambda>s. Symbol s = symb')
          (emitted q (snd (okx_fetchAndEmit env' (Inr trades) (Inr accountValue) (Inr positions) order' q))) =
          [\<lparr>Symbol = symb',
             Action = (if 0 < prev' then ActionCloseLong else ActionCloseShort),
             NotionalUSD = \<bar>prev'\<bar> * price', Price = price', LeaderEquity = accountValue,
             LeaderLeverage = okx_Leverage meta', MarginMode = okx_MarginMode meta',
             Timestamp = time_Now env' (ticks q1),
             DeltaSize = - prev', LeaderPosBefore = prev', LeaderPosAfter = 0\<rparr>,
           \<lparr>Symbol = symb',
             Action = (if 0 < prev' then ActionOpenShort else ActionOpenLong),
             NotionalUSD = \<bar>new'\<bar> * price', Price = price', LeaderEquity = accountValue,
             LeaderLeverage = okx_Leverage meta', MarginMode = okx_MarginMode meta',
             Timestamp = time_Now env' (Suc (ticks q1)),
             DeltaSize = new', LeaderPosBefore = 0, LeaderPosAfter = new'\<rparr>]"
    using c unfolding n by (rule okx_cycle_flip [OF init P p _ pr])
qed

text \<open>
  The witness: Hyperliquid flips \<open>BTC\<close> from \<open>+0.8\<close> to \<open>-0.2\<close> at the cached price 60000
  (the specification's third scenario); OKX flips \<open>ETHUSDT\<close> from \<open>-2\<close> to \<open>+1\<close> at the
  cached price 3000.
\<close>

theorem flip_sends_close_then_open_witness:
  "hl_price
     \<lparr>ParseFloat = (\<lambda>s. 0), market_Get = (\<lambda>k s. None), time_Now = (\<lambda>k. 1000 + int k)\<rparr>
     (convertHyperliquidSymbol ''BTC'')
     \<lparr>prov = \<lparr>hl_user = ''0xabc'', hl_pollInterval = 3000000000, hl_client = None,
              hl_lastTID = 7, hl_initialized = True, hl_lastPositions = [''BTC'' \<mapsto> 0.8],
              hl_lastPrices = [''BTCUSDT'' \<mapsto> 60000]\<rparr>, sent = [], ticks = 0\<rparr>
   = (60000,
      \<lparr>prov = \<lparr>hl_user = ''0xabc'', hl_pollInterval = 3000000000, hl_client = None,
               hl_lastTID = 7, hl_initialized = True, hl_lastPositions = [''BTC'' \<mapsto> 0.8],
               hl_lastPrices = [''BTCUSDT'' \<mapsto> 60000]\<rparr>, sent = [], ticks = 0\<rparr>) \<and>
   hl_diff_step
     \<lparr>ParseFloat = (\<lambda>s. 0), market_Get = (\<lambda>k s. None), time_Now = (\<lambda>k. 1000 + int k)\<rparr>
     100000 (''BTC'', \<lparr>hl_MarginMode = ''cross'', hl_Leverage = 10, hl_Size = - 0.2\<rparr>)
     \<lparr>prov = \<lparr>hl_user = ''0xabc'', hl_pollInterval = 3000000000, hl_client = None,
              hl_lastTID = 7, hl_initialized = True, hl_lastPositions = [''BTC'' \<mapsto> 0.8],
              hl_lastPrices = [''BTCUSDT'' \<mapsto> 60000]\<rparr>, sent = [], ticks = 0\<rparr>
   = \<lparr>prov = \<lparr>hl_user = ''0xabc'', hl_pollInterval = 3000000000, hl_client = None,
              hl_lastTID = 7, hl_initialized = True, hl_lastPositions = [''BTC'' \<mapsto> - 0.2],
              hl_lastPrices = [''BTCUSDT'' \<mapsto> 60000]\<rparr>,
      sent =
        [\<lparr>Symbol = ''BTCUSDT'', Action = ActionCloseLong, NotionalUSD = 48000,
           Price = 60000, LeaderEquity = 100000, LeaderLeverage = 10,
           MarginMode = ''cross'', Timestamp = 1000,
           DeltaSize = - 0.8, LeaderPosBefore = 0.8, LeaderPosAfter = 0\<rparr>,
          \<lparr>Symbol = ''BTCUSDT'', Action = ActionOpenShort, NotionalUSD = 12000,
           Price = 60000, LeaderEquity = 100000, LeaderLeverage = 10,
           MarginMode = ''cross'', Timestamp = 1001,
           DeltaSize = - 0.2, LeaderPosBefore = 0, LeaderPosAfter = - 0.2\<rparr>],
      ticks = 2\<rparr> \<and>
   filter (\<lambda>s. Symbol s = ''BTCUSDT'')
     (emitted
        \<lparr>prov = \<lparr>hl_user = ''0xabc'', hl_pollInterval = 3000000000, hl_client = None,
                 hl_lastTID = 7, hl_initialized = True, hl_lastPositions = [''BTC'' \<mapsto> 0.8],
                 hl_lastPrices = [''BTCUSDT'' \<mapsto> 60000]\<rparr>, sent = [], ticks = 0\<rparr>
        (snd (hl_fetchAndEmit
          \<lparr>ParseFloat = (\<lambda>s. 0), market_Get = (\<lambda>k s. None), time_Now = (\<lambda>k. 1000 + int k)\<rparr>
          (Inr [])
          (Inr \<lparr>AccountValue = 100000,
                Positions = [(''BTC'', \<lparr>hl_MarginMode = ''cross'', hl_Leverage = 10, hl_Size = - 0.2\<rparr>)]\<rparr>)
          [''BTC'']
          \<lparr>prov = \<lparr>hl_user = ''0xabc'', hl_pollInterval = 3000000000, hl_client = None,
                   hl_lastTID = 7, hl_initialized = True, hl_lastPositions = [''BTC'' \<mapsto> 0.8],
                   hl_lastPrices = [''BTCUSDT'' \<mapsto> 60000]\<rparr>, sent = [], ticks = 0\<rparr>)))
   =
     [\<lparr>Symbol = ''BTCUSDT'', Action = ActionCloseLong, NotionalUSD = 48000,
        Price = 60000, LeaderEquity = 100000, LeaderLeverage = 10,
        MarginMode = ''cross'', Timestamp = 1000,
        DeltaSize = - 0.8, LeaderPosBefore = 0.8, LeaderPosAfter = 0\<rparr>,
       \<lparr>Symbol = ''BTCUSDT'', Action = ActionOpenShort, NotionalUSD = 12000,
        Price = 60000, LeaderEquity = 100000, LeaderLeverage = 10,
        MarginMode = ''cross'', Timestamp = 1001,
        DeltaSize = - 0.2, LeaderPosBefore = 0, LeaderPosAfter = - 0.2\<rparr>] \<and>
   okx_price
     \<lparr>ParseFloat = (\<lambda>s. 0), market_Get = (\<lambda>k s. None), time_Now = (\<lambda>k. 1000 + int k)\<rparr>
     ''ETHUSDT''
     \<lparr>prov = \<lparr>okx_uniqueName = ''leader'', okx_pollInterval = 3000000000, okx_client = None,
              okx_lastFillTime = 2, okx_initialized = True,
              okx_lastPositions = [''ETHUSDT'' \<mapsto> - 2],
              okx_lastPrices = [''ETHUSDT'' \<mapsto> 3000]\<rparr>,
       sent = [], ticks = 4\<rparr>
   = (3000,
      \<lparr>prov = \<lparr>okx_uniqueName = ''leader'', okx_pollInterval = 3000000000, okx_client = None,
               okx_lastFillTime = 2, okx_initialized = True,
               okx_lastPositions = [''ETHUSDT'' \<mapsto> - 2],
               okx_lastPrices = [''ETHUSDT'' \<mapsto> 3000]\<rparr>,
        sent = [], ticks = 4\<rparr>) \<and>
   okx_diff_step
     \<lparr>ParseFloat = (\<lambda>s. 0), market_Get = (\<lambda>k s. None), time_Now = (\<lambda>k. 1000 + int k)\<rparr>
     100000 (''ETHUSDT'', \<lparr>okx_Size = 1, okx_Leverage = 5, okx_MarginMode = ''isolated''\<rparr>)
     \<lparr>prov = \<lparr>okx_uniqueName = ''leader'', okx_pollInterval = 3000000000, okx_client = None,
              okx_lastFillTime = 2, okx_initialized = True,
              okx_lastPositions = [''ETHUSDT'' \<mapsto> - 2],
              okx_lastPrices = [''ETHUSDT'' \<mapsto> 3000]\<rparr>,
       sent = [], ticks = 4\<rparr>
   = \<lparr>prov = \<lparr>okx_uniqueName = ''leader'', okx_pollInterval = 3000000000, okx_client = None,
              okx_lastFillTime = 2, okx_initialized = True,
              okx_lastPositions = [''ETHUSDT'' \<mapsto> 1],
              okx_lastPrices = [''ETHUSDT'' \<mapsto> 3000]\<rparr>,
      sent =
        [\<lparr>Symbol = ''ETHUSDT'', Action = ActionCloseShort, NotionalUSD = 6000,
           Price = 3000, LeaderEquity = 100000, LeaderLeverage = 5,
           MarginMode = ''isolated'', Timestamp = 1004,
           DeltaSize = 2, LeaderPosBefore = - 2, LeaderPosAfter = 0\<rparr>,
          \<lparr>Symbol = ''ETHUSDT'', Action = ActionOpenLong, NotionalUSD = 3000,
           Price = 3000, LeaderEquity = 100000, LeaderLeverage = 5,
           MarginMode = ''isolated'', Timestamp = 1005,
           DeltaSize = 1, LeaderPosBefore = 0, LeaderPosAfter = 1\<rparr>],
      ticks = 6\<rparr> \<and>
   filter (\<lambda>s. Symbol s = ''ETHUSDT'')
     (emitted
        \<lparr>prov = \<lparr>okx_uniqueName = ''leader'', okx_pollInterval = 3000000000, okx_client = None,
                 okx_lastFillTime = 2, okx_initialized = True,
                 okx_lastPositions = [''ETHUSDT'' \<mapsto> - 2],
                 okx_lastPrices = [''ETHUSDT'' \<mapsto> 3000]\<rparr>,
          sent = [], ticks = 4\<rparr>
        (snd (okx_fetchAndEmit
          \<lparr>ParseFloat = (\<lambda>s. 0), market_Get = (\<lambda>k s. None), time_Now = (\<lambda>k. 1000 + int k)\<rparr>
          (Inr []) (Inr 100000)
          (Inr [(''ETHUSDT'', \<lparr>okx_Size = 1, okx_Leverage = 5, okx_MarginMode = ''isolated''\<rparr>)])
          [''ETHUSDT'']
          \<lparr>prov = \<lparr>okx_uniqueName = ''leader'', okx_pollInterval = 3000000000, okx_client = None,
                   okx_lastFillTime = 2, okx_initialized = True,
                   okx_lastPositions = [''ETHUSDT'' \<mapsto> - 2],
                   okx_lastPrices = [''ETHUSDT'' \<mapsto> 3000]\<rparr>,
            sent = [], ticks = 4\<rparr>)))
   =
     [\<lparr>Symbol = ''ETHUSDT'', Action = ActionCloseShort, NotionalUSD = 6000,
        Price = 3000, LeaderEquity = 100000, LeaderLeverage = 5,
        MarginMode = ''isolated'', Timestamp = 1004,
        DeltaSize = 2, LeaderPosBefore = - 2, LeaderPosAfter = 0\<rparr>,
       \<lparr>Symbol = ''ETHUSDT'', Action = ActionOpenLong, NotionalUSD = 3000,
        Price = 3000, LeaderEquity = 100000, LeaderLeverage = 5,
        MarginMode = ''isolated'', Timestamp = 1005,
        DeltaSize = 1, LeaderPosBefore = 0, LeaderPosAfter = 1\<rparr>]"
proof -
  let ?env = "\<lparr>ParseFloat = (\<lambda>s. 0), market_Get = (\<lambda>k s. None), time_Now = (\<lambda>k. 1000 + int k)\<rparr>"
  let ?r = "\<lparr>prov = \<lparr>hl_user = ''0xabc'', hl_pollInterval = 3000000000, hl_client = None,
         hl_lastTID = 7, hl_initialized = True, hl_lastPositions = [''BTC'' \<mapsto> 0.8],
         hl_lastPrices = [''BTCUSDT'' \<mapsto> 60000]\<rparr>, sent = [], ticks = 0\<rparr>"
  let ?meta = "\<lparr>hl_MarginMode = ''cross'', hl_Leverage = 10, hl_Size = - 0.2\<rparr>"
  let ?state = "\<lparr>AccountValue = 100000, Positions = [(''BTC'', ?meta)]\<rparr>"
  let ?q = "\<lparr>prov = \<lparr>okx_uniqueName = ''leader'', okx_pollInterval = 3000000000, okx_client = None,
         okx_lastFillTime = 2, okx_initialized = True,
         okx_lastPositions = [''ETHUSDT'' \<mapsto> - 2],
         okx_lastPrices = [''ETHUSDT'' \<mapsto> 3000]\<rparr>,
  sent = [], ticks = 4\<rparr>"
  let ?meta' = "\<lparr>okx_Size = 1, okx_Leverage = 5, okx_MarginMode = ''isolated''\<rparr>"
  have reach: "?r\<lparr>prov := hl_ingest ?env [] (prov ?r)\<rparr> = ?r"
    by (simp add: hl_ingest_def sort_Slice_def Let_def)
  have reach': "?q\<lparr>prov := okx_ingest ?env [] (prov ?q)\<rparr> = ?q"
    by (simp add: okx_ingest_def sort_Slice_def Let_def)
  have price: "hl_price ?env (convertHyperliquidSymbol ''BTC'') ?r = (60000, ?r)"
    by (simp add: lookup0_def hl_price_def convertHyperliquidSymbol_BTC)
  have price': "okx_price ?env ''ETHUSDT'' ?q = (3000, ?q)"
    by (simp add: lookup0_def okx_price_def)
  have hl_round: "0.8 = lookup0 (hl_lastPositions (prov ?r)) ''BTC'' \<and> - 0.2 = hl_Size ?meta \<and>
      (0 < (0.8::real) \<and> (- 0.2::real) < 0 \<or> (0.8::real) < 0 \<and> 0 < (- 0.2::real)) \<and>
      hl_price ?env (convertHyperliquidSymbol ''BTC'') ?r = (60000, ?r) \<and> 0 < (60000::real)"
    using price by (simp add: lookup0_def)
  have hl_cycle: "hl_initialized (prov ?r) \<and> 0 < AccountValue ?state \<and>
      Positions ?state = [] @ (''BTC'', ?meta) # [] \<and>
      distinct (map fst (Positions ?state)) \<and>
      (\<forall>k \<in> fst ` set (Positions ?state) \<union> dom (hl_lastPositions (prov ?r)).
          k \<noteq> ''BTC'' \<longrightarrow>
          convertHyperliquidSymbol k \<noteq> convertHyperliquidSymbol ''BTC'') \<and>
      0.8 = lookup0 (hl_lastPositions (prov ?r)) ''BTC'' \<and> - 0.2 = hl_Size ?meta \<and>
      (0 < (0.8::real) \<and> (- 0.2::real) < 0 \<or> (0.8::real) < 0 \<and> 0 < (- 0.2::real)) \<and>
      hl_price ?env (convertHyperliquidSymbol ''BTC'')
        (fold (hl_diff_step ?env (AccountValue ?state)) []
           (?r\<lparr>prov := hl_ingest ?env [] (prov ?r)\<rparr>)) = (60000, ?r) \<and>
      0 < (60000::real)"
    unfolding fold_simps reach using price
    by (simp add: lookup0_def)
  have okx_round: "- 2 = lookup0 (okx_lastPositions (prov ?q)) ''ETHUSDT'' \<and>
      1 = okx_Size ?meta' \<and>
      (0 < (- 2::real) \<and> (1::real) < 0 \<or> (- 2::real) < 0 \<and> 0 < (1::real)) \<and>
      okx_price ?env ''ETHUSDT'' ?q = (3000, ?q) \<and> 0 < (3000::real)"
    using price' by (simp add: lookup0_def)
  have okx_cycle: "okx_initialized (prov ?q) \<and> 0 < (100000::real) \<and>
      [(''ETHUSDT'', ?meta')] = [] @ (''ETHUSDT'', ?meta') # [] \<and>
      distinct (map fst [(''ETHUSDT'', ?meta')]) \<and>
      - 2 = lookup0 (okx_lastPositions (prov ?q)) ''ETHUSDT'' \<and> 1 = okx_Size ?meta' \<and>
      (0 < (- 2::real) \<and> (1::real) < 0 \<or> (- 2::real) < 0 \<and> 0 < (1::real)) \<and>
      okx_price ?env ''ETHUSDT''
        (fold (okx_diff_step ?env 100000) []
           (?q\<lparr>prov := okx_ingest ?env [] (prov ?q)\<rparr>)) = (3000, ?q) \<and>
      0 < (3000::real)"
    unfolding fold_simps reach' using price' by (simp add: lookup0_def)
  note inst = flip_sends_close_then_open
        [where prev = "0.8" and r = "?r" and symb = "''BTC''" and new = "- 0.2"
           and meta = "?meta" and env = "?env" and price = "60000" and ?r1.0 = "?r"
           and av = "100000" and state = "?state" and xs = "[]" and ys = "[]"
           and fills = "[]" and order = "[''BTC'']"
           and prev' = "- 2" and q = "?q" and symb' = "''ETHUSDT''" and new' = "1"
           and meta' = "?meta'" and env' = "?env" and price' = "3000" and ?q1.0 = "?q"
           and av' = "100000" and accountValue = "100000"
           and positions = "[(''ETHUSDT'', ?meta')]" and xs' = "[]" and ys' = "[]"
           and trades = "[]" and order' = "[''ETHUSDT'']"]
  have 1: "hl_diff_step ?env 100000 (''BTC'', ?meta) ?r = ?r\<lparr>sent := sent ?r @
        [\<lparr>Symbol = ''BTCUSDT'', Action = ActionCloseLong, NotionalUSD = 48000,
           Price = 60000, LeaderEquity = 100000, LeaderLeverage = 10,
           MarginMode = ''cross'', Timestamp = 1000,
           DeltaSize = - 0.8, LeaderPosBefore = 0.8, LeaderPosAfter = 0\<rparr>,
          \<lparr>Symbol = ''BTCUSDT'', Action = ActionOpenShort, NotionalUSD = 12000,
           Price = 60000, LeaderEquity = 100000, LeaderLeverage = 10,
           MarginMode = ''cross'', Timestamp = 1001,
           DeltaSize = - 0.2, LeaderPosBefore = 0, LeaderPosAfter = - 0.2\<rparr>],
        ticks := Suc (Suc (ticks ?r)),
        prov := (prov ?r)\<lparr>hl_lastPositions := (hl_lastPositions (prov ?r))(''BTC'' \<mapsto> - 0.2)\<rparr>\<rparr>"
    using inst [THEN conjunct1] hl_round
    by (simp add: convertHyperliquidSymbol_BTC)
  have 2: "filter (\<lambda>s. Symbol s = ''BTCUSDT'')
        (emitted ?r (snd (hl_fetchAndEmit ?env (Inr []) (Inr ?state) [''BTC''] ?r)))
      =
        [\<lparr>Symbol = ''BTCUSDT'', Action = ActionCloseLong, NotionalUSD = 48000,
           Price = 60000, LeaderEquity = 100000, LeaderLeverage = 10,
           MarginMode = ''cross'', Timestamp = 1000,
           DeltaSize = - 0.8, LeaderPosBefore = 0.8, LeaderPosAfter = 0\<rparr>,
          \<lparr>Symbol = ''BTCUSDT'', Action = ActionOpenShort, NotionalUSD = 12000,
           Price = 60000, LeaderEquity = 100000, LeaderLeverage = 10,
           MarginMode = ''cross'', Timestamp = 1001,
           DeltaSize = - 0.2, LeaderPosBefore = 0, LeaderPosAfter = - 0.2\<rparr>]"
    using inst [THEN conjunct2, THEN conjunct1] hl_cycle
    by (simp add: convertHyperliquidSymbol_BTC)
  have 3: "okx_diff_step ?env 100000 (''ETHUSDT'', ?meta') ?q = ?q\<lparr>sent := sent ?q @
        [\<lparr>Symbol = ''ETHUSDT'', Action = ActionCloseShort, NotionalUSD = 6000,
           Price = 3000, LeaderEquity = 100000, LeaderLeverage = 5,
           MarginMode = ''isolated'', Timestamp = 1004,
           DeltaSize = 2, LeaderPosBefore = - 2, LeaderPosAfter = 0\<rparr>,
          \<lparr>Symbol = ''ETHUSDT'', Action = ActionOpenLong, NotionalUSD = 3000,
           Price = 3000, LeaderEquity = 100000, LeaderLeverage = 5,
           MarginMode = ''isolated'', Timestamp = 1005,
           DeltaSize = 1, LeaderPosBefore = 0, LeaderPosAfter = 1\<rparr>],
        ticks := Suc (Suc (ticks ?q)),
        prov := (prov ?q)\<lparr>okx_lastPositions :=
                  (okx_lastPositions (prov ?q))(''ETHUSDT'' \<mapsto> 1)\<rparr>\<rparr>"
    using inst [THEN conjunct2, THEN conjunct2, THEN conjunct1] okx_round
    by simp
  have 4: "filter (\<lambda>s. Symbol s = ''ETHUSDT'')
        (emitted ?q (snd (okx_fetchAndEmit ?env (Inr []) (Inr 100000)
           (Inr [(''ETHUSDT'', ?meta')]) [''ETHUSDT''] ?q)))
      =
        [\<lparr>Symbol = ''ETHUSDT'', Action = ActionCloseShort, NotionalUSD = 6000,
           Price = 3000, LeaderEquity = 100000, LeaderLeverage = 5,
           MarginMode = ''isolated'', Timestamp = 1004,
           DeltaSize = 2, LeaderPosBefore = - 2, LeaderPosAfter = 0\<rparr>,
          \<lparr>Symbol = ''ETHUSDT'', Action = ActionOpenLong, NotionalUSD = 3000,
           Price = 3000, LeaderEquity = 100000, LeaderLeverage = 5,
           MarginMode = ''isolated'', Timestamp = 1005,
           DeltaSize = 1, LeaderPosBefore = 0, LeaderPosAfter = 1\<rparr>]"
    using inst [THEN conjunct2, THEN conjunct2, THEN conjunct2] okx_cycle
    by simp
  show ?thesis
    unfolding price price' 1 2 3 4 by simp
qed

subsection \<open>C3: the first poll is silent, a repeated poll is idle\<close>

text \<open>
  C3. Take an observer that has not completed a cycle (its snapshot is empty, see
  \<open>hl_uninitialized_stays_empty\<close>) and fetched positions \<open>P\<close>, a Go map: a list with
  distinct keys. Its first cycle with \<open>P\<close> returns no error, sends nothing, and leaves the
  provider that the fill ingestion produced with \<open>P\<close>'s sizes as snapshot and
  \<open>initialized\<close> set. The next cycle with the same map (in any \<open>range\<close> order, with any
  fills, equity and fallback) sends nothing and leaves the snapshot as it is.
\<close>

theorem first_poll_silent_then_idle:
  "(\<not> hl_initialized (prov r) \<and> hl_lastPositions (prov r) = Map.empty \<and>
    0 < AccountValue state \<and> distinct (map fst (Positions state)) \<and>
    distinct (map fst ps') \<and> set ps' = set (Positions state) \<longrightarrow>
    (let c1 = hl_fetchAndEmit env (Inr fills) (Inr state) order r;
         c2 = hl_fetchAndEmit env2 (Inr fills2) (Inr \<lparr>AccountValue = av2, Positions = ps'\<rparr>)
                order2 (snd c1)
     in fst c1 = None \<and> emitted r (snd c1) = [] \<and>
        prov (snd c1) = (hl_ingest env fills (prov r))
          \<lparr>hl_lastPositions := map_option hl_Size \<circ> map_of (Positions state),
           hl_initialized := True\<rparr> \<and>
        emitted (snd c1) (snd c2) = [] \<and>
        hl_lastPositions (prov (snd c2)) = hl_lastPositions (prov (snd c1)))) \<and>
   (\<not> okx_initialized (prov q) \<and> okx_lastPositions (prov q) = Map.empty \<and>
    0 < accountValue \<and> distinct (map fst positions) \<and>
    distinct (map fst qs') \<and> set qs' = set positions \<longrightarrow>
    (let c1 = okx_fetchAndEmit env3 (Inr trades) (Inr accountValue) (Inr positions) order3 q;
         c2 = okx_fetchAndEmit env4 (Inr trades4) (Inr av4) (Inr qs') order4 (snd c1)
     in fst c1 = None \<and> emitted q (snd c1) = [] \<and>
        prov (snd c1) = (okx_ingest env3 trades (prov q))
          \<lparr>okx_lastPositions := map_option okx_Size \<circ> map_of positions,
           okx_initialized := True\<rparr> \<and>
        emitted (snd c1) (snd c2) = [] \<and>
        okx_lastPositions (prov (snd c2)) = okx_lastPositions (prov (snd c1))))"
proof (intro conjI impI)
  assume "\<not> hl_initialized (prov r) \<and> hl_lastPositions (prov r) = Map.empty \<and>
    0 < AccountValue state \<and> distinct (map fst (Positions state)) \<and>
    distinct (map fst ps') \<and> set ps' = set (Positions state)"
  then show "let c1 = hl_fetchAndEmit env (Inr fills) (Inr state) order r;
         c2 = hl_fetchAndEmit env2 (Inr fills2) (Inr \<lparr>AccountValue = av2, Positions = ps'\<rparr>)
                order2 (snd c1)
     in fst c1 = None \<and> emitted r (snd c1) = [] \<and>
        prov (snd c1) = (hl_ingest env fills (prov r))
          \<lparr>hl_lastPositions := map_option hl_Size \<circ> map_of (Positions state),
           hl_initialized := True\<rparr> \<and>
        emitted (snd c1) (snd c2) = [] \<and>
        hl_lastPositions (prov (snd c2)) = hl_lastPositions (prov (snd c1))"
    unfolding Let_def
    by (intro hl_two_polls [where fills = fills and order = order and env = env and
          ?fills2.0 = fills2 and ?av2.0 = av2 and ?order2.0 = order2 and ?env2.0 = env2])
       simp_all
next
  assume "\<not> okx_initialized (prov q) \<and> okx_lastPositions (prov q) = Map.empty \<and>
    0 < accountValue \<and> distinct (map fst positions) \<and>
    distinct (map fst qs') \<and> set qs' = set positions"
  then show "let c1 = okx_fetchAndEmit env3 (Inr trades) (Inr accountValue) (Inr positions) order3 q;
         c2 = okx_fetchAndEmit env4 (Inr trades4) (Inr av4) (Inr qs') order4 (snd c1)
     in fst c1 = None \<and> emitted q (snd c1) = [] \<and>
        prov (snd c1) = (okx_ingest env3 trades (prov q))
          \<lparr>okx_lastPositions := map_option okx_Size \<circ> map_of positions,
           okx_initialized := True\<rparr> \<and>
        emitted (snd c1) (snd c2) = [] \<and>
        okx_lastPositions (prov (snd c2)) = okx_lastPositions (prov (snd c1))"
    unfolding Let_def
    by (intro okx_two_polls [where trades = trades and order = order3 and env = env3 and
          ?trades2.0 = trades4 and ?av2.0 = av4 and ?order2.0 = order4 and ?env2.0 = env4])
       simp_all
qed

text \<open>
  The witness is the specification's cold start: the leader already holds \<open>BTC\<close> long 0.5
  (and \<open>ETH\<close> short 2). One fill is fetched with it and sets the price cache and the
  cursor. The second cycle gets the same map in the other order.
\<close>

theorem first_poll_silent_then_idle_witness:
  "(let c1 = hl_fetchAndEmit
         \<lparr>ParseFloat = (\<lambda>s. 60000), market_Get = (\<lambda>k s. None), time_Now = (\<lambda>k. int k)\<rparr>
         (Inr [\<lparr>Coin = ''BTC'', Dir = ''Open Long'', Px = ''60000'', Sz = ''0.5'', Time = 5,
                TID = 9\<rparr>])
         (Inr \<lparr>AccountValue = 100000,
               Positions =
                 [(''BTC'', \<lparr>hl_MarginMode = ''cross'', hl_Leverage = 10, hl_Size = 0.5\<rparr>),
                  (''ETH'', \<lparr>hl_MarginMode = ''cross'', hl_Leverage = 5, hl_Size = - 2\<rparr>)]\<rparr>)
         []
         \<lparr>prov = \<lparr>hl_user = ''0xabc'', hl_pollInterval = 3000000000, hl_client = None,
                  hl_lastTID = 0, hl_initialized = False, hl_lastPositions = Map.empty,
                  hl_lastPrices = Map.empty\<rparr>, sent = [], ticks = 0\<rparr>;
        c2 = hl_fetchAndEmit
         \<lparr>ParseFloat = (\<lambda>s. 60000), market_Get = (\<lambda>k s. None), time_Now = (\<lambda>k. int k)\<rparr>
         (Inr [])
         (Inr \<lparr>AccountValue = 100000,
               Positions =
                 [(''ETH'', \<lparr>hl_MarginMode = ''cross'', hl_Leverage = 5, hl_Size = - 2\<rparr>),
                  (''BTC'', \<lparr>hl_MarginMode = ''cross'', hl_Leverage = 10, hl_Size = 0.5\<rparr>)]\<rparr>)
         [''ETH'', ''BTC''] (snd c1)
    in fst c1 = None \<and>
       emitted \<lparr>prov = \<lparr>hl_user = ''0xabc'', hl_pollInterval = 3000000000, hl_client = None,
                  hl_lastTID = 0, hl_initialized = False, hl_lastPositions = Map.empty,
                  hl_lastPrices = Map.empty\<rparr>, sent = [], ticks = 0\<rparr> (snd c1) = [] \<and>
       prov (snd c1) = \<lparr>hl_user = ''0xabc'', hl_pollInterval = 3000000000, hl_client = None,
                  hl_lastTID = 9, hl_initialized = True,
                  hl_lastPositions = [''BTC'' \<mapsto> 0.5, ''ETH'' \<mapsto> - 2],
                  hl_lastPrices = [''BTCUSDT'' \<mapsto> 60000]\<rparr> \<and>
       emitted (snd c1) (snd c2) = [] \<and>
       hl_lastPositions (prov (snd c2)) = [''BTC'' \<mapsto> 0.5, ''ETH'' \<mapsto> - 2]) \<and>
   (let c1 = okx_fetchAndEmit
         \<lparr>ParseFloat = (\<lambda>s. 60000), market_Get = (\<lambda>k s. None), time_Now = (\<lambda>k. int k)\<rparr>
         (Inr []) (Inr 100000)
         (Inr [(''BTCUSDT'', \<lparr>okx_Size = 0.5, okx_Leverage = 10, okx_MarginMode = ''cross''\<rparr>)])
         []
         \<lparr>prov = \<lparr>okx_uniqueName = ''leader'', okx_pollInterval = 3000000000,
                  okx_client = None, okx_lastFillTime = 0, okx_initialized = False,
                  okx_lastPositions = Map.empty, okx_lastPrices = Map.empty\<rparr>,
          sent = [], ticks = 0\<rparr>;
        c2 = okx_fetchAndEmit
         \<lparr>ParseFloat = (\<lambda>s. 60000), market_Get = (\<lambda>k s. None), time_Now = (\<lambda>k. int k)\<rparr>
         (Inr []) (Inr 100000)
         (Inr [(''BTCUSDT'', \<lparr>okx_Size = 0.5, okx_Leverage = 10, okx_MarginMode = ''cross''\<rparr>)])
         [''BTCUSDT''] (snd c1)
    in fst c1 = None \<and>
       emitted \<lparr>prov = \<lparr>okx_uniqueName = ''leader'', okx_pollInterval = 3000000000,
                  okx_client = None, okx_lastFillTime = 0, okx_initialized = False,
                  okx_lastPositions = Map.empty, okx_lastPrices = Map.empty\<rparr>,
          sent = [], ticks = 0\<rparr> (snd c1) = [] \<and>
       prov (snd c1) = \<lparr>okx_uniqueName = ''leader'', okx_pollInterval = 3000000000,
                  okx_client = None, okx_lastFillTime = 0, okx_initialized = True,
                  okx_lastPositions = [''BTCUSDT'' \<mapsto> 0.5], okx_lastPrices = Map.empty\<rparr> \<and>
       emitted (snd c1) (snd c2) = [] \<and>
       okx_lastPositions (prov (snd c2)) = [''BTCUSDT'' \<mapsto> 0.5])"
proof -
  let ?env = "\<lparr>ParseFloat = (\<lambda>s. 60000), market_Get = (\<lambda>k s. None),
               time_Now = (\<lambda>k. int k)\<rparr>"
  let ?fills = "[\<lparr>Coin = ''BTC'', Dir = ''Open Long'', Px = ''60000'', Sz = ''0.5'', Time = 5,
                TID = 9\<rparr>]"
  let ?state = "\<lparr>AccountValue = 100000,
               Positions =
                 [(''BTC'', \<lparr>hl_MarginMode = ''cross'', hl_Leverage = 10, hl_Size = 0.5\<rparr>),
                  (''ETH'', \<lparr>hl_MarginMode = ''cross'', hl_Leverage = 5, hl_Size = - 2\<rparr>)]\<rparr>"
  let ?ps' = "[(''ETH'', \<lparr>hl_MarginMode = ''cross'', hl_Leverage = 5, hl_Size = - 2\<rparr>),
               (''BTC'', \<lparr>hl_MarginMode = ''cross'', hl_Leverage = 10, hl_Size = 0.5\<rparr>)]"
  let ?r = "\<lparr>prov = \<lparr>hl_user = ''0xabc'', hl_pollInterval = 3000000000, hl_client = None,
                  hl_lastTID = 0, hl_initialized = False, hl_lastPositions = Map.empty,
                  hl_lastPrices = Map.empty\<rparr>, sent = [], ticks = 0\<rparr>"
  let ?positions = "[(''BTCUSDT'', \<lparr>okx_Size = 0.5, okx_Leverage = 10,
                       okx_MarginMode = ''cross''\<rparr>)]"
  let ?q = "\<lparr>prov = \<lparr>okx_uniqueName = ''leader'', okx_pollInterval = 3000000000,
                  okx_client = None, okx_lastFillTime = 0, okx_initialized = False,
                  okx_lastPositions = Map.empty, okx_lastPrices = Map.empty\<rparr>,
          sent = [], ticks = 0\<rparr>"
  have ingest: "hl_ingest ?env ?fills (prov ?r) =
      \<lparr>hl_user = ''0xabc'', hl_pollInterval = 3000000000, hl_client = None,
       hl_lastTID = 9, hl_initialized = False, hl_lastPositions = Map.empty,
       hl_lastPrices = [''BTCUSDT'' \<mapsto> 60000]\<rparr>"
    by (simp add: hl_ingest_def hl_ingest_fill_def sort_Slice_def Let_def
        hyperliquidFill_price_def convertHyperliquidSymbol_BTC)
  have snapshot: "map_option hl_Size \<circ> map_of (Positions ?state) = [''BTC'' \<mapsto> 0.5, ''ETH'' \<mapsto> - 2]"
    by (rule ext) simp
  have okx_ingest: "okx_ingest ?env [] (prov ?q) = prov ?q"
    by (simp add: okx_ingest_def sort_Slice_def Let_def)
  have okx_snapshot: "map_option okx_Size \<circ> map_of ?positions = [''BTCUSDT'' \<mapsto> 0.5]"
    by (rule ext) simp
  have hyps:
    "\<not> hl_initialized (prov ?r) \<and> hl_lastPositions (prov ?r) = Map.empty \<and>
     0 < AccountValue ?state \<and> distinct (map fst (Positions ?state)) \<and>
     distinct (map fst ?ps') \<and> set ?ps' = set (Positions ?state)"
    "\<not> okx_initialized (prov ?q) \<and> okx_lastPositions (prov ?q) = Map.empty \<and>
     0 < (100000::real) \<and> distinct (map fst ?positions) \<and>
     distinct (map fst ?positions) \<and> set ?positions = set ?positions"
    by auto
  show ?thesis
    using hyps
      first_poll_silent_then_idle
        [of ?r ?state ?ps' ?env ?fills "[]" ?env "[]" 100000 "[''ETH'', ''BTC'']"
            ?q 100000 ?positions ?positions ?env "[]" "[]" ?env "[]" 100000 "[''BTCUSDT'']"]
    unfolding ingest snapshot okx_ingest okx_snapshot
    by (simp add: Let_def)
qed

subsection \<open>C4: a change that is not a flip sends one signal\<close>

text \<open>
  C4. A symbol is among the fetched positions; \<open>prev\<close> is the snapshot's size for it and
  \<open>new\<close> the fetched size, with \<open>new \<noteq> prev\<close> and no flip, and a price resolves
  (\<open>price > 0\<close>, from the cache or the fallback). Then the observer sends exactly one
  signal: its action is \<open>add_long\<close> if \<open>new > prev\<close> and \<open>new > 0\<close>, \<open>reduce_short\<close> if
  \<open>new > prev\<close> and \<open>new \<le> 0\<close>, \<open>add_short\<close> if \<open>new < prev\<close> and \<open>new < 0\<close>,
  \<open>reduce_long\<close> if \<open>new < prev\<close> and \<open>new \<ge> 0\<close>; its notional is
  \<open>|new - prev| * price\<close>. This is stated twice for each observer:
  \<^item> for the round of the loop that handles the entry, from any run \<open>r\<close>: the round
    appends this one signal and stores \<open>new\<close> in the snapshot;
  \<^item> for a whole cycle from an initialized provider, \<open>prev\<close> being the snapshot's size
    when the cycle starts and the price being resolved when the loop reaches the entry:
    the cycle's signals with this symbol are this one signal. For Hyperliquid the keys
    are coins and the symbol is computed from the coin, so no other coin of the fetched
    positions or of the snapshot may have the same symbol.
\<close>

theorem change_sends_one_signal:
  "(prev = lookup0 (hl_lastPositions (prov r)) symb \<and>
    new = hl_Size meta \<and>
    new \<noteq> prev \<and>
    \<not> (0 < prev \<and> new < 0) \<and>
    \<not> (prev < 0 \<and> 0 < new) \<and>
    hl_price env (convertHyperliquidSymbol symb) r = (price, r1) \<and>
    0 < price \<longrightarrow>
    hl_diff_step env av (symb, meta) r =
      r1\<lparr>sent := sent r1 @
          [\<lparr>Symbol = convertHyperliquidSymbol symb,
             Action = (if prev < new
                      then (if 0 < new then ActionAddLong else ActionReduceShort)
                      else (if new < 0 then ActionAddShort else ActionReduceLong)),
             NotionalUSD = \<bar>new - prev\<bar> * price, Price = price, LeaderEquity = av,
             LeaderLeverage = hl_Leverage meta, MarginMode = hl_MarginMode meta,
             Timestamp = time_Now env (ticks r1),
             DeltaSize = new - prev, LeaderPosBefore = prev, LeaderPosAfter = new\<rparr>],
         ticks := Suc (ticks r1),
         prov := (prov r1)\<lparr>hl_lastPositions :=
                   (hl_lastPositions (prov r1))(symb \<mapsto> new)\<rparr>\<rparr>) \<and>
   (hl_initialized (prov r) \<and>
    0 < AccountValue state \<and>
    Positions state = xs @ (symb, meta) # ys \<and>
    distinct (map fst (Positions state)) \<and>
    (\<forall>k \<in> fst ` set (Positions state) \<union> dom (hl_lastPositions (prov r)).
        k \<noteq> symb \<longrightarrow>
        convertHyperliquidSymbol k \<noteq> convertHyperliquidSymbol symb) \<and>
    prev = lookup0 (hl_lastPositions (prov r)) symb \<and>
    new = hl_Size meta \<and>
    new \<noteq> prev \<and>
    \<not> (0 < prev \<and> new < 0) \<and>
    \<not> (prev < 0 \<and> 0 < new) \<and>
    hl_price env (convertHyperliquidSymbol symb)
      (fold (hl_diff_step env (AccountValue state)) xs
         (r\<lparr>prov := hl_ingest env fills (prov r)\<rparr>)) = (price, r1) \<and>
    0 < price \<longrightarrow>
    filter (\<lambda>s. Symbol s = convertHyperliquidSymbol symb)
      (emitted r (snd (hl_fetchAndEmit env (Inr fills) (Inr state) order r))) =
      [\<lparr>Symbol = convertHyperliquidSymbol symb,
         Action = (if prev < new
                  then (if 0 < new then ActionAddLong else ActionReduceShort)
                  else (if new < 0 then ActionAddShort else ActionReduceLong)),
         NotionalUSD = \<bar>new - prev\<bar> * price, Price = price, LeaderEquity = AccountValue state,
         LeaderLeverage = hl_Leverage meta, MarginMode = hl_MarginMode meta,
         Timestamp = time_Now env (ticks r1),
         DeltaSize = new - prev, LeaderPosBefore = prev, LeaderPosAfter = new\<rparr>]) \<and>
   (prev' = lookup0 (okx_lastPositions (prov q)) symb' \<and>
    new' = okx_Size meta' \<and>
    new' \<noteq> prev' \<and>
    \<not> (0 < prev' \<and> new' < 0) \<and>
    \<not> (prev' < 0 \<and> 0 < new') \<and>
    okx_price env' symb' q = (price', q1) \<and>
    0 < price' \<longrightarrow>
    okx_diff_step env' av' (symb', meta') q =
      q1\<lparr>sent := sent q1 @
          [\<lparr>Symbol = symb',
             Action = (if prev' < new'
                      then (if 0 < new' then ActionAddLong else ActionReduceShort)
                      else (if new' < 0 then ActionAddShort else ActionReduceLong)),
             NotionalUSD = \<bar>new' - prev'\<bar> * price', Price = price', LeaderEquity = av',
             LeaderLeverage = okx_Leverage meta', MarginMode = okx_MarginMode meta',
             Timestamp = time_Now env' (ticks q1),
             DeltaSize = new' - prev', LeaderPosBefore = prev', LeaderPosAfter = new'\<rparr>],
         ticks := Suc (ticks q1),
         prov := (prov q1)\<lparr>okx_lastPositions :=
                   (okx_lastPositions (prov q1))(symb' \<mapsto> new')\<rparr>\<rparr>) \<and>
   (okx_initialized (prov q) \<and>
    0 < accountValue \<and>
    positions = xs' @ (symb', meta') # ys' \<and>
    distinct (map fst positions) \<and>
    prev' = lookup0 (okx_lastPositions (prov q)) symb' \<and>
    new' = okx_Size meta' \<and>
    new' \<noteq> prev' \<and>
    \<not> (0 < prev' \<and> new' < 0) \<and>
    \<not> (prev' < 0 \<and> 0 < new') \<and>
    okx_price env' symb'
      (fold (okx_diff_step env' accountValue) xs'
         (q\<lparr>prov := okx_ingest env' trades (prov q)\<rparr>)) = (price', q1) \<and>
    0 < price' \<longrightarrow>
    filter (\<lambda>s. Symbol s = symb')
      (emitted q (snd (okx_fetchAndEmit env' (Inr trades) (Inr accountValue) (Inr positions) order' q))) =
      [\<lparr>Symbol = symb',
         Action = (if prev' < new'
                  then (if 0 < new' then ActionAddLong else ActionReduceShort)
                  else (if new' < 0 then ActionAddShort else ActionReduceLong)),
         NotionalUSD = \<bar>new' - prev'\<bar> * price', Price = price', LeaderEquity = accountValue,
         LeaderLeverage = okx_Leverage meta', MarginMode = okx_MarginMode meta',
         Timestamp = time_Now env' (ticks q1),
         DeltaSize = new' - prev', LeaderPosBefore = prev', LeaderPosAfter = new'\<rparr>])"
proof (intro conjI impI)
  assume "prev = lookup0 (hl_lastPositions (prov r)) symb \<and>
          new = hl_Size meta \<and>
          new \<noteq> prev \<and>
          \<not> (0 < prev \<and> new < 0) \<and>
          \<not> (prev < 0 \<and> 0 < new) \<and>
          hl_price env (convertHyperliquidSymbol symb) r = (price, r1) \<and>
          0 < price"
  then have
    p: "prev = lookup0 (hl_lastPositions (prov r)) symb"
    and n: "new = hl_Size meta"
    and c: "new \<noteq> prev" "\<not> (0 < prev \<and> new < 0)"
      "\<not> (prev < 0 \<and> 0 < new)"
    and pr: "hl_price env (convertHyperliquidSymbol symb) r = (price, r1)" "0 < price"
    by blast+
  show "hl_diff_step env av (symb, meta) r =
          r1\<lparr>sent := sent r1 @
              [\<lparr>Symbol = convertHyperliquidSymbol symb,
                 Action = (if prev < new
                          then (if 0 < new then ActionAddLong else ActionReduceShort)
                          else (if new < 0 then ActionAddShort else ActionReduceLong)),
                 NotionalUSD = \<bar>new - prev\<bar> * price, Price = price, LeaderEquity = av,
                 LeaderLeverage = hl_Leverage meta, MarginMode = hl_MarginMode meta,
                 Timestamp = time_Now env (ticks r1),
                 DeltaSize = new - prev, LeaderPosBefore = prev, LeaderPosAfter = new\<rparr>],
             ticks := Suc (ticks r1),
             prov := (prov r1)\<lparr>hl_lastPositions :=
                       (hl_lastPositions (prov r1))(symb \<mapsto> new)\<rparr>\<rparr>"
    using c unfolding n by (rule hl_diff_step_change [OF p _ _ _ pr])
next
  assume "hl_initialized (prov r) \<and>
          0 < AccountValue state \<and>
          Positions state = xs @ (symb, meta) # ys \<and>
          distinct (map fst (Positions state)) \<and>
          (\<forall>k \<in> fst ` set (Positions state) \<union> dom (hl_lastPositions (prov r)).
              k \<noteq> symb \<longrightarrow>
              convertHyperliquidSymbol k \<noteq> convertHyperliquidSymbol symb) \<and>
          prev = lookup0 (hl_lastPositions (prov r)) symb \<and>
          new = hl_Size meta \<and>
          new \<noteq> prev \<and>
          \<not> (0 < prev \<and> new < 0) \<and>
          \<not> (prev < 0 \<and> 0 < new) \<and>
          hl_price env (convertHyperliquidSymbol symb)
            (fold (hl_diff_step env (AccountValue state)) xs
               (r\<lparr>prov := hl_ingest env fills (prov r)\<rparr>)) = (price, r1) \<and>
          0 < price"
  then have
    init: "hl_initialized (prov r)" "0 < AccountValue state"
    and P: "Positions state = xs @ (symb, meta) # ys"
      "distinct (map fst (Positions state))"
    and inj: "(\<forall>k \<in> fst ` set (Positions state) \<union> dom (hl_lastPositions (prov r)).
          k \<noteq> symb \<longrightarrow>
          convertHyperliquidSymbol k \<noteq> convertHyperliquidSymbol symb)"
    and p: "prev = lookup0 (hl_lastPositions (prov r)) symb"
    and n: "new = hl_Size meta"
    and c: "new \<noteq> prev" "\<not> (0 < prev \<and> new < 0)"
      "\<not> (prev < 0 \<and> 0 < new)"
    and pr: "hl_price env (convertHyperliquidSymbol symb)
        (fold (hl_diff_step env (AccountValue state)) xs
           (r\<lparr>prov := hl_ingest env fills (prov r)\<rparr>)) = (price, r1)"
      "0 < price"
    by blast+
  show "filter (\<lambda>s. Symbol s = convertHyperliquidSymbol symb)
          (emitted r (snd (hl_fetchAndEmit env (Inr fills) (Inr state) order r))) =
          [\<lparr>Symbol = convertHyperliquidSymbol symb,
             Action = (if prev < new
                      then (if 0 < new then ActionAddLong else ActionReduceShort)
                      else (if new < 0 then ActionAddShort else ActionReduceLong)),
             NotionalUSD = \<bar>new - prev\<bar> * price, Price = price, LeaderEquity = AccountValue state,
             LeaderLeverage = hl_Leverage meta, MarginMode = hl_MarginMode meta,
             Timestamp = time_Now env (ticks r1),
             DeltaSize = new - prev, LeaderPosBefore = prev, LeaderPosAfter = new\<rparr>]"
    using c unfolding n by (rule hl_cycle_change [OF init P inj p _ _ _ pr])
next
  assume "prev' = lookup0 (okx_lastPositions (prov q)) symb' \<and>
          new' = okx_Size meta' \<and>
          new' \<noteq> prev' \<and>
          \<not> (0 < prev' \<and> new' < 0) \<and>
          \<not> (prev' < 0 \<and> 0 < new') \<and>
          okx_price env' symb' q = (price', q1) \<and>
          0 < price'"
  then have
    p: "prev' = lookup0 (okx_lastPositions (prov q)) symb'"
    and n: "new' = okx_Size meta'"
    and c: "new' \<noteq> prev'" "\<not> (0 < prev' \<and> new' < 0)"
      "\<not> (prev' < 0 \<and> 0 < new')"
    and pr: "okx_price env' symb' q = (price', q1)" "0 < price'"
    by blast+
  show "okx_diff_step env' av' (symb', meta') q =
          q1\<lparr>sent := sent q1 @
              [\<lparr>Symbol = symb',
                 Action = (if prev' < new'
                          then (if 0 < new' then ActionAddLong else ActionReduceShort)
                          else (if new' < 0 then ActionAddShort else ActionReduceLong)),
                 NotionalUSD = \<bar>new' - prev'\<bar> * price', Price = price', LeaderEquity = av',
                 LeaderLeverage = okx_Leverage meta', MarginMode = okx_MarginMode meta',
                 Timestamp = time_Now env' (ticks q1),
                 DeltaSize = new' - prev', LeaderPosBefore = prev', LeaderPosAfter = new'\<rparr>],
             ticks := Suc (ticks q1),
             prov := (prov q1)\<lparr>okx_lastPositions :=
                       (okx_lastPositions (prov q1))(symb' \<mapsto> new')\<rparr>\<rparr>"
    using c unfolding n by (rule okx_diff_step_change [OF p _ _ _ pr])
next
  assume "okx_initialized (prov q) \<and>
          0 < accountValue \<and>
          positions = xs' @ (symb', meta') # ys' \<and>
          distinct (map fst positions) \<and>
          prev' = lookup0 (okx_lastPositions (prov q)) symb' \<and>
          new' = okx_Size meta' \<and>
          new' \<noteq> prev' \<and>
          \<not> (0 < prev' \<and> new' < 0) \<and>
          \<not> (prev' < 0 \<and> 0 < new') \<and>
          okx_price env' symb'
            (fold (okx_diff_step env' accountValue) xs'
               (q\<lparr>prov := okx_ingest env' trades (prov q)\<rparr>)) = (price', q1) \<and>
          0 < price'"
  then have
    init: "okx_initialized (prov q)" "0 < accountValue"
    and P: "positions = xs' @ (symb', meta') # ys'"
      "distinct (map fst positions)"
    and p: "prev' = lookup0 (okx_lastPositions (prov q)) symb'"
    and n: "new' = okx_Size meta'"
    and c: "new' \<noteq> prev'" "\<not> (0 < prev' \<and> new' < 0)"
      "\<not> (prev' < 0 \<and> 0 < new')"
    and pr: "okx_price env' symb'
        (fold (okx_diff_step env' accountValue) xs'
           (q\<lparr>prov := okx_ingest env' trades (prov q)\<rparr>)) = (price', q1)"
      "0 < price'"
    by blast+
  show "filter (\<lambda>s. Symbol s = symb')
          (emitted q (snd (okx_fetchAndEmit env' (Inr trades) (Inr accountValue) (Inr positions) order' q))) =
          [\<lparr>Symbol = symb',
             Action = (if prev' < new'
                      then (if 0 < new' then ActionAddLong else ActionReduceShort)
                      else (if new' < 0 then ActionAddShort else ActionReduceLong)),
             NotionalUSD = \<bar>new' - prev'\<bar> * price', Price = price', LeaderEquity = accountValue,
             LeaderLeverage = okx_Leverage meta', MarginMode = okx_MarginMode meta',
             Timestamp = time_Now env' (ticks q1),
             DeltaSize = new' - prev', LeaderPosBefore = prev', LeaderPosAfter = new'\<rparr>]"
    using c unfolding n by (rule okx_cycle_change [OF init P p _ _ _ pr])
qed

text \<open>
  The witness is the specification's second scenario. Hyperliquid: \<open>BTC\<close> grows from 0.5
  to 0.8 at the cached fill price 60000, \<open>ETH\<close> stays at \<open>-2\<close>. OKX: \<open>ETHUSDT\<close> appears at
  \<open>-2\<close>; the cache has no price for it and the fallback answers 3000.
\<close>

theorem change_sends_one_signal_witness:
  "hl_price
     \<lparr>ParseFloat = (\<lambda>s. 0), market_Get = (\<lambda>k s. None), time_Now = (\<lambda>k. 1000 + int k)\<rparr>
     (convertHyperliquidSymbol ''BTC'')
     \<lparr>prov = \<lparr>hl_user = ''0xabc'', hl_pollInterval = 3000000000, hl_client = None,
              hl_lastTID = 7, hl_initialized = True,
              hl_lastPositions = [''ETH'' \<mapsto> - 2, ''BTC'' \<mapsto> 0.5],
              hl_lastPrices = [''BTCUSDT'' \<mapsto> 60000]\<rparr>, sent = [], ticks = 0\<rparr>
   = (60000,
      \<lparr>prov = \<lparr>hl_user = ''0xabc'', hl_pollInterval = 3000000000, hl_client = None,
              hl_lastTID = 7, hl_initialized = True,
              hl_lastPositions = [''ETH'' \<mapsto> - 2, ''BTC'' \<mapsto> 0.5],
              hl_lastPrices = [''BTCUSDT'' \<mapsto> 60000]\<rparr>, sent = [], ticks = 0\<rparr>) \<and>
   hl_diff_step
     \<lparr>ParseFloat = (\<lambda>s. 0), market_Get = (\<lambda>k s. None), time_Now = (\<lambda>k. 1000 + int k)\<rparr>
     100000 (''BTC'', \<lparr>hl_MarginMode = ''cross'', hl_Leverage = 10, hl_Size = 0.8\<rparr>)
     \<lparr>prov = \<lparr>hl_user = ''0xabc'', hl_pollInterval = 3000000000, hl_client = None,
              hl_lastTID = 7, hl_initialized = True,
              hl_lastPositions = [''ETH'' \<mapsto> - 2, ''BTC'' \<mapsto> 0.5],
              hl_lastPrices = [''BTCUSDT'' \<mapsto> 60000]\<rparr>, sent = [], ticks = 0\<rparr>
   = \<lparr>prov = \<lparr>hl_user = ''0xabc'', hl_pollInterval = 3000000000, hl_client = None,
              hl_lastTID = 7, hl_initialized = True,
              hl_lastPositions = [''ETH'' \<mapsto> - 2, ''BTC'' \<mapsto> 0.8],
              hl_lastPrices = [''BTCUSDT'' \<mapsto> 60000]\<rparr>,
      sent = [\<lparr>Symbol = ''BTCUSDT'', Action = ActionAddLong, NotionalUSD = 18000,
               Price = 60000, LeaderEquity = 100000, LeaderLeverage = 10,
               MarginMode = ''cross'', Timestamp = 1000,
               DeltaSize = 0.3, LeaderPosBefore = 0.5, LeaderPosAfter = 0.8\<rparr>],
      ticks = 1\<rparr> \<and>
   filter (\<lambda>s. Symbol s = ''BTCUSDT'')
     (emitted
        \<lparr>prov = \<lparr>hl_user = ''0xabc'', hl_pollInterval = 3000000000, hl_client = None,
                 hl_lastTID = 7, hl_initialized = True,
                 hl_lastPositions = [''ETH'' \<mapsto> - 2, ''BTC'' \<mapsto> 0.5],
                 hl_lastPrices = [''BTCUSDT'' \<mapsto> 60000]\<rparr>, sent = [], ticks = 0\<rparr>
        (snd (hl_fetchAndEmit
          \<lparr>ParseFloat = (\<lambda>s. 0), market_Get = (\<lambda>k s. None),
            time_Now = (\<lambda>k. 1000 + int k)\<rparr>
          (Inr [])
          (Inr \<lparr>AccountValue = 100000,
                Positions =
                  [(''ETH'', \<lparr>hl_MarginMode = ''cross'', hl_Leverage = 5, hl_Size = - 2\<rparr>),
                   (''BTC'', \<lparr>hl_MarginMode = ''cross'', hl_Leverage = 10, hl_Size = 0.8\<rparr>)]\<rparr>)
          [''BTC'', ''ETH'']
          \<lparr>prov = \<lparr>hl_user = ''0xabc'', hl_pollInterval = 3000000000, hl_client = None,
                   hl_lastTID = 7, hl_initialized = True,
                   hl_lastPositions = [''ETH'' \<mapsto> - 2, ''BTC'' \<mapsto> 0.5],
                   hl_lastPrices = [''BTCUSDT'' \<mapsto> 60000]\<rparr>, sent = [], ticks = 0\<rparr>)))
   = [\<lparr>Symbol = ''BTCUSDT'', Action = ActionAddLong, NotionalUSD = 18000,
       Price = 60000, LeaderEquity = 100000, LeaderLeverage = 10,
       MarginMode = ''cross'', Timestamp = 1000,
       DeltaSize = 0.3, LeaderPosBefore = 0.5, LeaderPosAfter = 0.8\<rparr>] \<and>
   okx_price
     \<lparr>ParseFloat = (\<lambda>s. 0), market_Get = (\<lambda>k s. Some 3000), time_Now = (\<lambda>k. 1000 + int k)\<rparr>
     ''ETHUSDT''
     \<lparr>prov = \<lparr>okx_uniqueName = ''leader'', okx_pollInterval = 3000000000, okx_client = None,
              okx_lastFillTime = 2, okx_initialized = True,
              okx_lastPositions = [''BTCUSDT'' \<mapsto> 0.5], okx_lastPrices = Map.empty\<rparr>,
      sent = [], ticks = 0\<rparr>
   = (3000,
      \<lparr>prov = \<lparr>okx_uniqueName = ''leader'', okx_pollInterval = 3000000000, okx_client = None,
              okx_lastFillTime = 2, okx_initialized = True,
              okx_lastPositions = [''BTCUSDT'' \<mapsto> 0.5],
              okx_lastPrices = [''ETHUSDT'' \<mapsto> 3000]\<rparr>,
      sent = [], ticks = 1\<rparr>) \<and>
   okx_diff_step
     \<lparr>ParseFloat = (\<lambda>s. 0), market_Get = (\<lambda>k s. Some 3000), time_Now = (\<lambda>k. 1000 + int k)\<rparr>
     100000 (''ETHUSDT'', \<lparr>okx_Size = - 2, okx_Leverage = 5, okx_MarginMode = ''isolated''\<rparr>)
     \<lparr>prov = \<lparr>okx_uniqueName = ''leader'', okx_pollInterval = 3000000000, okx_client = None,
              okx_lastFillTime = 2, okx_initialized = True,
              okx_lastPositions = [''BTCUSDT'' \<mapsto> 0.5], okx_lastPrices = Map.empty\<rparr>,
      sent = [], ticks = 0\<rparr>
   = \<lparr>prov = \<lparr>okx_uniqueName = ''leader'', okx_pollInterval = 3000000000, okx_client = None,
              okx_lastFillTime = 2, okx_initialized = True,
              okx_lastPositions = [''BTCUSDT'' \<mapsto> 0.5, ''ETHUSDT'' \<mapsto> - 2],
              okx_lastPrices = [''ETHUSDT'' \<mapsto> 3000]\<rparr>,
      sent = [\<lparr>Symbol = ''ETHUSDT'', Action = ActionAddShort, NotionalUSD = 6000,
               Price = 3000, LeaderEquity = 100000, LeaderLeverage = 5,
               MarginMode = ''isolated'', Timestamp = 1001,
               DeltaSize = - 2, LeaderPosBefore = 0, LeaderPosAfter = - 2\<rparr>],
      ticks = 2\<rparr> \<and>
   filter (\<lambda>s. Symbol s = ''ETHUSDT'')
     (emitted
        \<lparr>prov = \<lparr>okx_uniqueName = ''leader'', okx_pollInterval = 3000000000,
                 okx_client = None, okx_lastFillTime = 2, okx_initialized = True,
                 okx_lastPositions = [''BTCUSDT'' \<mapsto> 0.5], okx_lastPrices = Map.empty\<rparr>,
         sent = [], ticks = 0\<rparr>
        (snd (okx_fetchAndEmit
          \<lparr>ParseFloat = (\<lambda>s. 0), market_Get = (\<lambda>k s. Some 3000),
            time_Now = (\<lambda>k. 1000 + int k)\<rparr>
          (Inr []) (Inr 100000)
          (Inr [(''BTCUSDT'', \<lparr>okx_Size = 0.5, okx_Leverage = 10, okx_MarginMode = ''cross''\<rparr>),
                (''ETHUSDT'', \<lparr>okx_Size = - 2, okx_Leverage = 5,
                               okx_MarginMode = ''isolated''\<rparr>)])
          [''BTCUSDT'', ''ETHUSDT'']
          \<lparr>prov = \<lparr>okx_uniqueName = ''leader'', okx_pollInterval = 3000000000,
                   okx_client = None, okx_lastFillTime = 2, okx_initialized = True,
                   okx_lastPositions = [''BTCUSDT'' \<mapsto> 0.5], okx_lastPrices = Map.empty\<rparr>,
           sent = [], ticks = 0\<rparr>)))
   = [\<lparr>Symbol = ''ETHUSDT'', Action = ActionAddShort, NotionalUSD = 6000,
       Price = 3000, LeaderEquity = 100000, LeaderLeverage = 5,
       MarginMode = ''isolated'', Timestamp = 1001,
       DeltaSize = - 2, LeaderPosBefore = 0, LeaderPosAfter = - 2\<rparr>]"
proof -
  let ?env = "\<lparr>ParseFloat = (\<lambda>s. 0), market_Get = (\<lambda>k s. None),
               time_Now = (\<lambda>k. 1000 + int k)\<rparr>"
  let ?r = "\<lparr>prov = \<lparr>hl_user = ''0xabc'', hl_pollInterval = 3000000000, hl_client = None,
              hl_lastTID = 7, hl_initialized = True,
              hl_lastPositions = [''ETH'' \<mapsto> - 2, ''BTC'' \<mapsto> 0.5],
              hl_lastPrices = [''BTCUSDT'' \<mapsto> 60000]\<rparr>, sent = [], ticks = 0\<rparr>"
  let ?meta = "\<lparr>hl_MarginMode = ''cross'', hl_Leverage = 10, hl_Size = 0.8\<rparr>"
  let ?eth = "(''ETH'', \<lparr>hl_MarginMode = ''cross'', hl_Leverage = 5, hl_Size = - 2\<rparr>)"
  let ?state = "\<lparr>AccountValue = 100000, Positions = [?eth, (''BTC'', ?meta)]\<rparr>"
  let ?env' = "\<lparr>ParseFloat = (\<lambda>s. 0), market_Get = (\<lambda>k s. Some 3000),
               time_Now = (\<lambda>k. 1000 + int k)\<rparr>"
  let ?q = "\<lparr>prov = \<lparr>okx_uniqueName = ''leader'', okx_pollInterval = 3000000000,
              okx_client = None, okx_lastFillTime = 2, okx_initialized = True,
              okx_lastPositions = [''BTCUSDT'' \<mapsto> 0.5], okx_lastPrices = Map.empty\<rparr>,
      sent = [], ticks = 0\<rparr>"
  let ?q1 = "\<lparr>prov = \<lparr>okx_uniqueName = ''leader'', okx_pollInterval = 3000000000,
              okx_client = None, okx_lastFillTime = 2, okx_initialized = True,
              okx_lastPositions = [''BTCUSDT'' \<mapsto> 0.5],
              okx_lastPrices = [''ETHUSDT'' \<mapsto> 3000]\<rparr>,
      sent = [], ticks = 1\<rparr>"
  let ?meta' = "\<lparr>okx_Size = - 2, okx_Leverage = 5, okx_MarginMode = ''isolated''\<rparr>"
  let ?btc = "(''BTCUSDT'', \<lparr>okx_Size = 0.5, okx_Leverage = 10, okx_MarginMode = ''cross''\<rparr>)"
  have reach: "fold (hl_diff_step ?env (AccountValue ?state)) [?eth]
      (?r\<lparr>prov := hl_ingest ?env [] (prov ?r)\<rparr>) = ?r"
    by (simp add: hl_ingest_def sort_Slice_def Let_def hl_diff_step_def lookup0_def)
  have reach': "fold (okx_diff_step ?env' 100000) [?btc]
      (?q\<lparr>prov := okx_ingest ?env' [] (prov ?q)\<rparr>) = ?q"
    by (simp add: okx_ingest_def sort_Slice_def Let_def okx_diff_step_def lookup0_def)
  have price: "hl_price ?env (convertHyperliquidSymbol ''BTC'') ?r = (60000, ?r)"
    by (simp add: lookup0_def hl_price_def convertHyperliquidSymbol_BTC)
  have price': "okx_price ?env' ''ETHUSDT'' ?q = (3000, ?q1)"
    by (simp add: lookup0_def okx_price_def)
  have hl_round: "0.5 = lookup0 (hl_lastPositions (prov ?r)) ''BTC'' \<and> 0.8 = hl_Size ?meta \<and>
      (0.8::real) \<noteq> 0.5 \<and> \<not> (0 < (0.5::real) \<and> (0.8::real) < 0) \<and>
      \<not> ((0.5::real) < 0 \<and> 0 < (0.8::real)) \<and>
      hl_price ?env (convertHyperliquidSymbol ''BTC'') ?r = (60000, ?r) \<and> 0 < (60000::real)"
    using price by (simp add: lookup0_def)
  have hl_cycle: "hl_initialized (prov ?r) \<and> 0 < AccountValue ?state \<and>
      Positions ?state = [?eth] @ (''BTC'', ?meta) # [] \<and>
      distinct (map fst (Positions ?state)) \<and>
      (\<forall>k \<in> fst ` set (Positions ?state) \<union> dom (hl_lastPositions (prov ?r)).
          k \<noteq> ''BTC'' \<longrightarrow>
          convertHyperliquidSymbol k \<noteq> convertHyperliquidSymbol ''BTC'') \<and>
      0.5 = lookup0 (hl_lastPositions (prov ?r)) ''BTC'' \<and> 0.8 = hl_Size ?meta \<and>
      (0.8::real) \<noteq> 0.5 \<and> \<not> (0 < (0.5::real) \<and> (0.8::real) < 0) \<and>
      \<not> ((0.5::real) < 0 \<and> 0 < (0.8::real)) \<and>
      hl_price ?env (convertHyperliquidSymbol ''BTC'')
        (fold (hl_diff_step ?env (AccountValue ?state)) [?eth]
           (?r\<lparr>prov := hl_ingest ?env [] (prov ?r)\<rparr>)) = (60000, ?r) \<and>
      0 < (60000::real)"
    unfolding reach using price
    by (simp add: lookup0_def convertHyperliquidSymbol_BTC convertHyperliquidSymbol_ETH)
  have okx_round: "0 = lookup0 (okx_lastPositions (prov ?q)) ''ETHUSDT'' \<and>
      - 2 = okx_Size ?meta' \<and>
      (- 2::real) \<noteq> 0 \<and> \<not> (0 < (0::real) \<and> (- 2::real) < 0) \<and>
      \<not> ((0::real) < 0 \<and> 0 < (- 2::real)) \<and>
      okx_price ?env' ''ETHUSDT'' ?q = (3000, ?q1) \<and> 0 < (3000::real)"
    using price' by (simp add: lookup0_def)
  have okx_cycle: "okx_initialized (prov ?q) \<and> 0 < (100000::real) \<and>
      [?btc, (''ETHUSDT'', ?meta')] = [?btc] @ (''ETHUSDT'', ?meta') # [] \<and>
      distinct (map fst [?btc, (''ETHUSDT'', ?meta')]) \<and>
      0 = lookup0 (okx_lastPositions (prov ?q)) ''ETHUSDT'' \<and> - 2 = okx_Size ?meta' \<and>
      (- 2::real) \<noteq> 0 \<and> \<not> (0 < (0::real) \<and> (- 2::real) < 0) \<and>
      \<not> ((0::real) < 0 \<and> 0 < (- 2::real)) \<and>
      okx_price ?env' ''ETHUSDT''
        (fold (okx_diff_step ?env' 100000) [?btc]
           (?q\<lparr>prov := okx_ingest ?env' [] (prov ?q)\<rparr>)) = (3000, ?q1) \<and>
      0 < (3000::real)"
    unfolding reach' using price' by (simp add: lookup0_def)
  note inst = change_sends_one_signal
        [where prev = "0.5" and r = "?r" and symb = "''BTC''" and new = "0.8" and meta = "?meta"
           and env = "?env" and price = "60000" and ?r1.0 = "?r" and av = "100000"
           and state = "?state" and xs = "[?eth]" and ys = "[]" and fills = "[]"
           and order = "[''BTC'', ''ETH'']"
           and prev' = "0" and q = "?q" and symb' = "''ETHUSDT''" and new' = "- 2"
           and meta' = "?meta'" and env' = "?env'" and price' = "3000" and ?q1.0 = "?q1"
           and av' = "100000" and accountValue = "100000"
           and positions = "[?btc, (''ETHUSDT'', ?meta')]" and xs' = "[?btc]" and ys' = "[]"
           and trades = "[]" and order' = "[''BTCUSDT'', ''ETHUSDT'']"]
  have 1: "hl_diff_step ?env 100000 (''BTC'', ?meta) ?r = ?r\<lparr>sent := sent ?r @
        [\<lparr>Symbol = ''BTCUSDT'', Action = ActionAddLong, NotionalUSD = 18000,
          Price = 60000, LeaderEquity = 100000, LeaderLeverage = 10,
          MarginMode = ''cross'', Timestamp = 1000,
          DeltaSize = 0.3, LeaderPosBefore = 0.5, LeaderPosAfter = 0.8\<rparr>],
        ticks := Suc (ticks ?r),
        prov := (prov ?r)\<lparr>hl_lastPositions := (hl_lastPositions (prov ?r))(''BTC'' \<mapsto> 0.8)\<rparr>\<rparr>"
    using inst [THEN conjunct1] hl_round
    by (simp add: convertHyperliquidSymbol_BTC)
  have 2: "filter (\<lambda>s. Symbol s = ''BTCUSDT'')
        (emitted ?r (snd (hl_fetchAndEmit ?env (Inr []) (Inr ?state) [''BTC'', ''ETH''] ?r)))
      = [\<lparr>Symbol = ''BTCUSDT'', Action = ActionAddLong, NotionalUSD = 18000,
          Price = 60000, LeaderEquity = 100000, LeaderLeverage = 10,
          MarginMode = ''cross'', Timestamp = 1000,
          DeltaSize = 0.3, LeaderPosBefore = 0.5, LeaderPosAfter = 0.8\<rparr>]"
    using inst [THEN conjunct2, THEN conjunct1] hl_cycle
    by (simp add: convertHyperliquidSymbol_BTC)
  have 3: "okx_diff_step ?env' 100000 (''ETHUSDT'', ?meta') ?q = ?q1\<lparr>sent := sent ?q1 @
        [\<lparr>Symbol = ''ETHUSDT'', Action = ActionAddShort, NotionalUSD = 6000,
          Price = 3000, LeaderEquity = 100000, LeaderLeverage = 5,
          MarginMode = ''isolated'', Timestamp = 1001,
          DeltaSize = - 2, LeaderPosBefore = 0, LeaderPosAfter = - 2\<rparr>],
        ticks := Suc (ticks ?q1),
        prov := (prov ?q1)\<lparr>okx_lastPositions :=
                  (okx_lastPositions (prov ?q1))(''ETHUSDT'' \<mapsto> - 2)\<rparr>\<rparr>"
    using inst [THEN conjunct2, THEN conjunct2, THEN conjunct1] okx_round
    by simp
  have 4: "filter (\<lambda>s. Symbol s = ''ETHUSDT'')
        (emitted ?q (snd (okx_fetchAndEmit ?env' (Inr []) (Inr 100000)
           (Inr [?btc, (''ETHUSDT'', ?meta')]) [''BTCUSDT'', ''ETHUSDT''] ?q)))
      = [\<lparr>Symbol = ''ETHUSDT'', Action = ActionAddShort, NotionalUSD = 6000,
          Price = 3000, LeaderEquity = 100000, LeaderLeverage = 5,
          MarginMode = ''isolated'', Timestamp = 1001,
          DeltaSize = - 2, LeaderPosBefore = 0, LeaderPosAfter = - 2\<rparr>]"
    using inst [THEN conjunct2, THEN conjunct2, THEN conjunct2] okx_cycle
    by simp
  show ?thesis
    unfolding price price' 1 2 3 4 by simp
qed

subsection \<open>C5: a changed symbol without a price is skipped\<close>

text \<open>
  C5. A symbol is among the fetched positions and its size changed, the price cache has
  no positive price for it, and the market-data fallback returns none either (an error,
  or a price \<open>\<le> 0\<close>). Then
  \<^item> the round of the loop for this entry sends nothing and leaves the provider as it
    is (only the fallback has been asked once);
  \<^item> when the fallback has no positive price for the symbol during the cycle, the whole
    cycle sends no signal with this symbol, and the symbol's snapshot entry is after the
    cycle what it was before.
  The second part does not need the size to have changed.
\<close>

theorem missing_price_skips_symbol:
  "(hl_Size meta \<noteq> lookup0 (hl_lastPositions (prov r)) symb \<and>
    \<not> 0 < lookup0 (hl_lastPrices (prov r)) (convertHyperliquidSymbol symb) \<and>
    (\<forall>cp. market_Get env (ticks r) (convertHyperliquidSymbol symb) = Some cp \<longrightarrow> cp \<le> 0) \<longrightarrow>
    hl_diff_step env av (symb, meta) r = r\<lparr>ticks := Suc (ticks r)\<rparr>) \<and>
   (hl_initialized (prov r) \<and> 0 < AccountValue state \<and>
    map_of (Positions state) symb \<noteq> None \<and>
    \<not> 0 < lookup0 (hl_lastPrices (hl_ingest env fills (prov r))) (convertHyperliquidSymbol symb) \<and>
    (\<forall>k cp. market_Get env k (convertHyperliquidSymbol symb) = Some cp \<longrightarrow> cp \<le> 0) \<longrightarrow>
    (\<forall>s \<in> set (emitted r (snd (hl_fetchAndEmit env (Inr fills) (Inr state) order r))).
        Symbol s \<noteq> convertHyperliquidSymbol symb) \<and>
    hl_lastPositions (prov (snd (hl_fetchAndEmit env (Inr fills) (Inr state) order r))) symb =
      hl_lastPositions (prov r) symb) \<and>
   (okx_Size meta' \<noteq> lookup0 (okx_lastPositions (prov q)) symb' \<and>
    \<not> 0 < lookup0 (okx_lastPrices (prov q)) symb' \<and>
    (\<forall>cp. market_Get env' (ticks q) symb' = Some cp \<longrightarrow> cp \<le> 0) \<longrightarrow>
    okx_diff_step env' av' (symb', meta') q = q\<lparr>ticks := Suc (ticks q)\<rparr>) \<and>
   (okx_initialized (prov q) \<and> 0 < accountValue \<and> map_of positions symb' \<noteq> None \<and>
    \<not> 0 < lookup0 (okx_lastPrices (okx_ingest env' trades (prov q))) symb' \<and>
    (\<forall>k cp. market_Get env' k symb' = Some cp \<longrightarrow> cp \<le> 0) \<longrightarrow>
    (\<forall>s \<in> set (emitted q
         (snd (okx_fetchAndEmit env' (Inr trades) (Inr accountValue) (Inr positions) order' q))).
        Symbol s \<noteq> symb') \<and>
    okx_lastPositions
      (prov (snd (okx_fetchAndEmit env' (Inr trades) (Inr accountValue) (Inr positions)
         order' q))) symb' =
      okx_lastPositions (prov q) symb')"
proof (intro conjI impI)
  assume "hl_Size meta \<noteq> lookup0 (hl_lastPositions (prov r)) symb \<and>
    \<not> 0 < lookup0 (hl_lastPrices (prov r)) (convertHyperliquidSymbol symb) \<and>
    (\<forall>cp. market_Get env (ticks r) (convertHyperliquidSymbol symb) = Some cp \<longrightarrow> cp \<le> 0)"
  then show "hl_diff_step env av (symb, meta) r = r\<lparr>ticks := Suc (ticks r)\<rparr>"
    by (intro hl_diff_step_no_price) simp_all
next
  assume a: "hl_initialized (prov r) \<and> 0 < AccountValue state \<and>
    map_of (Positions state) symb \<noteq> None \<and>
    \<not> 0 < lookup0 (hl_lastPrices (hl_ingest env fills (prov r))) (convertHyperliquidSymbol symb) \<and>
    (\<forall>k cp. market_Get env k (convertHyperliquidSymbol symb) = Some cp \<longrightarrow> cp \<le> 0)"
  from a show "\<forall>s \<in> set (emitted r (snd (hl_fetchAndEmit env (Inr fills) (Inr state) order r))).
        Symbol s \<noteq> convertHyperliquidSymbol symb"
    using hl_cycle_frame [of r state symb env fills order] by blast
  from a show
    "hl_lastPositions (prov (snd (hl_fetchAndEmit env (Inr fills) (Inr state) order r))) symb =
      hl_lastPositions (prov r) symb"
    using hl_cycle_frame [of r state symb env fills order] by blast
next
  assume "okx_Size meta' \<noteq> lookup0 (okx_lastPositions (prov q)) symb' \<and>
    \<not> 0 < lookup0 (okx_lastPrices (prov q)) symb' \<and>
    (\<forall>cp. market_Get env' (ticks q) symb' = Some cp \<longrightarrow> cp \<le> 0)"
  then show "okx_diff_step env' av' (symb', meta') q = q\<lparr>ticks := Suc (ticks q)\<rparr>"
    by (intro okx_diff_step_no_price) simp_all
next
  assume a: "okx_initialized (prov q) \<and> 0 < accountValue \<and> map_of positions symb' \<noteq> None \<and>
    \<not> 0 < lookup0 (okx_lastPrices (okx_ingest env' trades (prov q))) symb' \<and>
    (\<forall>k cp. market_Get env' k symb' = Some cp \<longrightarrow> cp \<le> 0)"
  from a show "\<forall>s \<in> set (emitted q
         (snd (okx_fetchAndEmit env' (Inr trades) (Inr accountValue) (Inr positions) order' q))).
        Symbol s \<noteq> symb'"
    using okx_cycle_frame [of q accountValue positions symb' env' trades order'] by blast
  from a show "okx_lastPositions
      (prov (snd (okx_fetchAndEmit env' (Inr trades) (Inr accountValue) (Inr positions)
         order' q))) symb' =
      okx_lastPositions (prov q) symb'"
    using okx_cycle_frame [of q accountValue positions symb' env' trades order'] by blast
qed

text \<open>
  The witness: \<open>BTC\<close> grows from 0.5 to 0.8 but no price is known for it, neither cached
  nor from the fallback, while \<open>ETH\<close> goes from \<open>-2\<close> to \<open>-3\<close> at the cached price 3000.
  The cycle sends the \<open>ETH\<close> signal only, and the snapshot keeps 0.5 for \<open>BTC\<close>.
\<close>

theorem missing_price_skips_symbol_witness:
  "hl_diff_step
     \<lparr>ParseFloat = (\<lambda>s. 0), market_Get = (\<lambda>k s. None), time_Now = (\<lambda>k. 1000 + int k)\<rparr>
     100000 (''BTC'', \<lparr>hl_MarginMode = ''cross'', hl_Leverage = 10, hl_Size = 0.8\<rparr>)
     \<lparr>prov = \<lparr>hl_user = ''0xabc'', hl_pollInterval = 3000000000, hl_client = None,
              hl_lastTID = 7, hl_initialized = True,
              hl_lastPositions = [''BTC'' \<mapsto> 0.5, ''ETH'' \<mapsto> - 2],
              hl_lastPrices = [''ETHUSDT'' \<mapsto> 3000]\<rparr>, sent = [], ticks = 0\<rparr>
   = \<lparr>prov = \<lparr>hl_user = ''0xabc'', hl_pollInterval = 3000000000, hl_client = None,
              hl_lastTID = 7, hl_initialized = True,
              hl_lastPositions = [''BTC'' \<mapsto> 0.5, ''ETH'' \<mapsto> - 2],
              hl_lastPrices = [''ETHUSDT'' \<mapsto> 3000]\<rparr>, sent = [], ticks = 1\<rparr> \<and>
   emitted
     \<lparr>prov = \<lparr>hl_user = ''0xabc'', hl_pollInterval = 3000000000, hl_client = None,
              hl_lastTID = 7, hl_initialized = True,
              hl_lastPositions = [''BTC'' \<mapsto> 0.5, ''ETH'' \<mapsto> - 2],
              hl_lastPrices = [''ETHUSDT'' \<mapsto> 3000]\<rparr>, sent = [], ticks = 0\<rparr>
     (snd (hl_fetchAndEmit
       \<lparr>ParseFloat = (\<lambda>s. 0), market_Get = (\<lambda>k s. None), time_Now = (\<lambda>k. 1000 + int k)\<rparr>
       (Inr [])
       (Inr \<lparr>AccountValue = 100000,
             Positions =
               [(''BTC'', \<lparr>hl_MarginMode = ''cross'', hl_Leverage = 10, hl_Size = 0.8\<rparr>),
                (''ETH'', \<lparr>hl_MarginMode = ''cross'', hl_Leverage = 5, hl_Size = - 3\<rparr>)]\<rparr>)
       [''BTC'', ''ETH'']
       \<lparr>prov = \<lparr>hl_user = ''0xabc'', hl_pollInterval = 3000000000, hl_client = None,
                hl_lastTID = 7, hl_initialized = True,
                hl_lastPositions = [''BTC'' \<mapsto> 0.5, ''ETH'' \<mapsto> - 2],
                hl_lastPrices = [''ETHUSDT'' \<mapsto> 3000]\<rparr>, sent = [], ticks = 0\<rparr>))
   = [\<lparr>Symbol = ''ETHUSDT'', Action = ActionAddShort, NotionalUSD = 3000, Price = 3000,
       LeaderEquity = 100000, LeaderLeverage = 5, MarginMode = ''cross'', Timestamp = 1001,
       DeltaSize = - 1, LeaderPosBefore = - 2, LeaderPosAfter = - 3\<rparr>] \<and>
   list_all (\<lambda>s. Symbol s \<noteq> ''BTCUSDT'')
     [\<lparr>Symbol = ''ETHUSDT'', Action = ActionAddShort, NotionalUSD = 3000, Price = 3000,
       LeaderEquity = 100000, LeaderLeverage = 5, MarginMode = ''cross'', Timestamp = 1001,
       DeltaSize = - 1, LeaderPosBefore = - 2, LeaderPosAfter = - 3\<rparr>] \<and>
   hl_lastPositions (prov (snd (hl_fetchAndEmit
       \<lparr>ParseFloat = (\<lambda>s. 0), market_Get = (\<lambda>k s. None), time_Now = (\<lambda>k. 1000 + int k)\<rparr>
       (Inr [])
       (Inr \<lparr>AccountValue = 100000,
             Positions =
               [(''BTC'', \<lparr>hl_MarginMode = ''cross'', hl_Leverage = 10, hl_Size = 0.8\<rparr>),
                (''ETH'', \<lparr>hl_MarginMode = ''cross'', hl_Leverage = 5, hl_Size = - 3\<rparr>)]\<rparr>)
       [''BTC'', ''ETH'']
       \<lparr>prov = \<lparr>hl_user = ''0xabc'', hl_pollInterval = 3000000000, hl_client = None,
                hl_lastTID = 7, hl_initialized = True,
                hl_lastPositions = [''BTC'' \<mapsto> 0.5, ''ETH'' \<mapsto> - 2],
                hl_lastPrices = [''ETHUSDT'' \<mapsto> 3000]\<rparr>, sent = [], ticks = 0\<rparr>))) ''BTC''
   = Some 0.5 \<and>
   okx_diff_step
     \<lparr>ParseFloat = (\<lambda>s. 0), market_Get = (\<lambda>k s. Some 0), time_Now = (\<lambda>k. 1000 + int k)\<rparr>
     100000 (''BTCUSDT'', \<lparr>okx_Size = 0.8, okx_Leverage = 10, okx_MarginMode = ''cross''\<rparr>)
     \<lparr>prov = \<lparr>okx_uniqueName = ''leader'', okx_pollInterval = 3000000000, okx_client = None,
              okx_lastFillTime = 2, okx_initialized = True,
              okx_lastPositions = [''BTCUSDT'' \<mapsto> 0.5], okx_lastPrices = Map.empty\<rparr>,
      sent = [], ticks = 0\<rparr>
   = \<lparr>prov = \<lparr>okx_uniqueName = ''leader'', okx_pollInterval = 3000000000, okx_client = None,
              okx_lastFillTime = 2, okx_initialized = True,
              okx_lastPositions = [''BTCUSDT'' \<mapsto> 0.5], okx_lastPrices = Map.empty\<rparr>,
      sent = [], ticks = 1\<rparr> \<and>
   emitted
     \<lparr>prov = \<lparr>okx_uniqueName = ''leader'', okx_pollInterval = 3000000000, okx_client = None,
              okx_lastFillTime = 2, okx_initialized = True,
              okx_lastPositions = [''BTCUSDT'' \<mapsto> 0.5], okx_lastPrices = Map.empty\<rparr>,
      sent = [], ticks = 0\<rparr>
     (snd (okx_fetchAndEmit
       \<lparr>ParseFloat = (\<lambda>s. 0), market_Get = (\<lambda>k s. Some 0), time_Now = (\<lambda>k. 1000 + int k)\<rparr>
       (Inr []) (Inr 100000)
       (Inr [(''BTCUSDT'', \<lparr>okx_Size = 0.8, okx_Leverage = 10, okx_MarginMode = ''cross''\<rparr>)])
       [''BTCUSDT'']
       \<lparr>prov = \<lparr>okx_uniqueName = ''leader'', okx_pollInterval = 3000000000,
                okx_client = None, okx_lastFillTime = 2, okx_initialized = True,
                okx_lastPositions = [''BTCUSDT'' \<mapsto> 0.5], okx_lastPrices = Map.empty\<rparr>,
        sent = [], ticks = 0\<rparr>))
   = [] \<and>
   okx_lastPositions (prov (snd (okx_fetchAndEmit
       \<lparr>ParseFloat = (\<lambda>s. 0), market_Get = (\<lambda>k s. Some 0), time_Now = (\<lambda>k. 1000 + int k)\<rparr>
       (Inr []) (Inr 100000)
       (Inr [(''BTCUSDT'', \<lparr>okx_Size = 0.8, okx_Leverage = 10, okx_MarginMode = ''cross''\<rparr>)])
       [''BTCUSDT'']
       \<lparr>prov = \<lparr>okx_uniqueName = ''leader'', okx_pollInterval = 3000000000,
                okx_client = None, okx_lastFillTime = 2, okx_initialized = True,
                okx_lastPositions = [''BTCUSDT'' \<mapsto> 0.5], okx_lastPrices = Map.empty\<rparr>,
        sent = [], ticks = 0\<rparr>))) ''BTCUSDT''
   = Some 0.5"
proof -
  let ?env = "\<lparr>ParseFloat = (\<lambda>s. 0), market_Get = (\<lambda>k s. None),
               time_Now = (\<lambda>k. 1000 + int k)\<rparr>"
  let ?r = "\<lparr>prov = \<lparr>hl_user = ''0xabc'', hl_pollInterval = 3000000000, hl_client = None,
              hl_lastTID = 7, hl_initialized = True,
              hl_lastPositions = [''BTC'' \<mapsto> 0.5, ''ETH'' \<mapsto> - 2],
              hl_lastPrices = [''ETHUSDT'' \<mapsto> 3000]\<rparr>, sent = [], ticks = 0\<rparr>"
  let ?meta = "\<lparr>hl_MarginMode = ''cross'', hl_Leverage = 10, hl_Size = 0.8\<rparr>"
  let ?state = "\<lparr>AccountValue = 100000,
             Positions =
               [(''BTC'', \<lparr>hl_MarginMode = ''cross'', hl_Leverage = 10, hl_Size = 0.8\<rparr>),
                (''ETH'', \<lparr>hl_MarginMode = ''cross'', hl_Leverage = 5, hl_Size = - 3\<rparr>)]\<rparr>"
  let ?env' = "\<lparr>ParseFloat = (\<lambda>s. 0), market_Get = (\<lambda>k s. Some 0),
               time_Now = (\<lambda>k. 1000 + int k)\<rparr>"
  let ?q = "\<lparr>prov = \<lparr>okx_uniqueName = ''leader'', okx_pollInterval = 3000000000,
              okx_client = None, okx_lastFillTime = 2, okx_initialized = True,
              okx_lastPositions = [''BTCUSDT'' \<mapsto> 0.5], okx_lastPrices = Map.empty\<rparr>,
      sent = [], ticks = 0\<rparr>"
  let ?meta' = "\<lparr>okx_Size = 0.8, okx_Leverage = 10, okx_MarginMode = ''cross''\<rparr>"
  let ?positions = "[(''BTCUSDT'', ?meta')]"
  have ingest: "hl_ingest ?env [] (prov ?r) = prov ?r"
    by (simp add: hl_ingest_def sort_Slice_def Let_def)
  have okx_ingest: "okx_ingest ?env' [] (prov ?q) = prov ?q"
    by (simp add: okx_ingest_def sort_Slice_def Let_def)
  have hl_step: "hl_Size ?meta \<noteq> lookup0 (hl_lastPositions (prov ?r)) ''BTC'' \<and>
      \<not> 0 < lookup0 (hl_lastPrices (prov ?r)) (convertHyperliquidSymbol ''BTC'') \<and>
      (\<forall>cp. market_Get ?env (ticks ?r) (convertHyperliquidSymbol ''BTC'') = Some cp \<longrightarrow> cp \<le> 0)"
    by (simp add: lookup0_def convertHyperliquidSymbol_BTC)
  have hl_cycle: "hl_initialized (prov ?r) \<and> 0 < AccountValue ?state \<and>
      map_of (Positions ?state) ''BTC'' \<noteq> None \<and>
      \<not> 0 < lookup0 (hl_lastPrices (hl_ingest ?env [] (prov ?r))) (convertHyperliquidSymbol ''BTC'') \<and>
      (\<forall>k cp. market_Get ?env k (convertHyperliquidSymbol ''BTC'') = Some cp \<longrightarrow> cp \<le> 0)"
    unfolding ingest by (simp add: lookup0_def convertHyperliquidSymbol_BTC)
  have okx_step: "okx_Size ?meta' \<noteq> lookup0 (okx_lastPositions (prov ?q)) ''BTCUSDT'' \<and>
      \<not> 0 < lookup0 (okx_lastPrices (prov ?q)) ''BTCUSDT'' \<and>
      (\<forall>cp. market_Get ?env' (ticks ?q) ''BTCUSDT'' = Some cp \<longrightarrow> cp \<le> 0)"
    by (simp add: lookup0_def)
  have okx_cycle: "okx_initialized (prov ?q) \<and> 0 < (100000::real) \<and>
      map_of ?positions ''BTCUSDT'' \<noteq> None \<and>
      \<not> 0 < lookup0 (okx_lastPrices (okx_ingest ?env' [] (prov ?q))) ''BTCUSDT'' \<and>
      (\<forall>k cp. market_Get ?env' k ''BTCUSDT'' = Some cp \<longrightarrow> cp \<le> 0)"
    unfolding okx_ingest by (simp add: lookup0_def)
  have hl_out: "emitted ?r (snd (hl_fetchAndEmit ?env (Inr []) (Inr ?state) [''BTC'', ''ETH''] ?r))
   = [\<lparr>Symbol = ''ETHUSDT'', Action = ActionAddShort, NotionalUSD = 3000, Price = 3000,
       LeaderEquity = 100000, LeaderLeverage = 5, MarginMode = ''cross'', Timestamp = 1001,
       DeltaSize = - 1, LeaderPosBefore = - 2, LeaderPosAfter = - 3\<rparr>]"
    by (simp add: emitted_def hl_fetchAndEmit_def hl_ingest_def sort_Slice_def Let_def
        hl_diff_step_def hl_sweep_step_def hl_price_def lookup0_def send_def
        hl_set_position_def convertHyperliquidSymbol_BTC convertHyperliquidSymbol_ETH
        deriveActionFromDelta_def)
  have okx_out: "emitted ?q (snd (okx_fetchAndEmit ?env' (Inr []) (Inr 100000) (Inr ?positions)
      [''BTCUSDT''] ?q)) = []"
    by (simp add: emitted_def okx_fetchAndEmit_def okx_ingest_def sort_Slice_def Let_def
        okx_diff_step_def okx_sweep_step_def okx_price_def lookup0_def)
  show ?thesis
    using hl_step hl_cycle okx_step okx_cycle
      missing_price_skips_symbol
        [where meta = ?meta and r = ?r and symb = "''BTC''" and env = ?env and av = 100000
           and state = ?state and fills = "[]" and order = "[''BTC'', ''ETH'']"
           and meta' = ?meta' and q = ?q and symb' = "''BTCUSDT''" and env' = ?env'
           and av' = 100000 and accountValue = 100000 and positions = ?positions
           and trades = "[]" and order' = "[''BTCUSDT'']"]
    unfolding hl_out okx_out
    by (simp add: convertHyperliquidSymbol_BTC)
qed

subsection \<open>C6: a symbol that disappeared is closed and swept\<close>

text \<open>
  C6. A symbol has a size \<open>prev \<noteq> 0\<close> in the snapshot and is not among the fetched
  positions. If a price resolves, the observer sends exactly one signal for it:
  \<open>close_long\<close> when \<open>prev > 0\<close>, \<open>close_short\<close> when \<open>prev < 0\<close>, with notional
  \<open>|prev| * price\<close>, \<open>delta_size = -prev\<close>, \<open>pos_before = prev\<close>, \<open>pos_after = 0\<close>, leverage 0
  and an empty margin mode; if no price resolves it sends nothing. In both cases the
  snapshot entry is deleted. (The OKX signal leaves its \<open>Price\<close> at zero.) This is stated
  three times for each observer:
  \<^item> for the round of the loop over the snapshot that handles the symbol, from any run
    \<open>r\<close>: the round appends the signal, or nothing, and deletes the entry;
  \<^item> for a whole cycle from an initialized provider whose loop over the snapshot visits
    the symbol: the symbol has no entry in the snapshot when the cycle ends;
  \<^item> for a whole cycle from an initialized provider, \<open>prev\<close> being the snapshot's size
    when the cycle starts, the symbol being visited after the keys \<open>ks1\<close> and the price
    being resolved at that moment: the cycle's signals with this symbol are this one
    signal, or none. For Hyperliquid no other coin of the fetched positions or of the
    snapshot may have the same symbol.
\<close>

theorem disappeared_symbol_swept:
  "(hl_lastPositions (prov r) symb = Some prev \<and>
    prev \<noteq> 0 \<and>
    map_of ps symb = None \<and>
    hl_price env (convertHyperliquidSymbol symb) r = (price, r1) \<longrightarrow>
    hl_sweep_step env av ps symb r =
      (if 0 < price
       then r1\<lparr>sent := sent r1 @
              [\<lparr>Symbol = convertHyperliquidSymbol symb,
                 Action = (if 0 < prev then ActionCloseLong else ActionCloseShort),
                 NotionalUSD = \<bar>prev\<bar> * price, Price = price, LeaderEquity = av,
                 LeaderLeverage = 0, MarginMode = [],
                 Timestamp = time_Now env (ticks r1),
                 DeltaSize = - prev, LeaderPosBefore = prev, LeaderPosAfter = 0\<rparr>],
              ticks := Suc (ticks r1),
              prov := (prov r1)\<lparr>hl_lastPositions :=
                        (hl_lastPositions (prov r1))(symb := None)\<rparr>\<rparr>
       else r1\<lparr>prov := (prov r1)\<lparr>hl_lastPositions :=
                        (hl_lastPositions (prov r1))(symb := None)\<rparr>\<rparr>)) \<and>
   (hl_initialized (prov r) \<and>
    0 < AccountValue state \<and>
    map_of (Positions state) symb = None \<and>
    symb \<in> set order \<longrightarrow>
    hl_lastPositions
      (prov (snd (hl_fetchAndEmit env (Inr fills) (Inr state) order r))) symb
      = None) \<and>
   (hl_initialized (prov r) \<and>
    0 < AccountValue state \<and>
    map_of (Positions state) symb = None \<and>
    order = ks1 @ symb # ks2 \<and>
    symb \<notin> set ks1 \<and>
    (\<forall>k \<in> fst ` set (Positions state) \<union> dom (hl_lastPositions (prov r)).
        k \<noteq> symb \<longrightarrow>
        convertHyperliquidSymbol k \<noteq> convertHyperliquidSymbol symb) \<and>
    hl_lastPositions (prov r) symb = Some prev \<and>
    prev \<noteq> 0 \<and>
    hl_price env (convertHyperliquidSymbol symb)
      (fold (hl_sweep_step env (AccountValue state) (Positions state)) ks1
         (fold (hl_diff_step env (AccountValue state)) (Positions state)
            (r\<lparr>prov := hl_ingest env fills (prov r)\<rparr>))) = (price, r1) \<longrightarrow>
    filter (\<lambda>s. Symbol s = convertHyperliquidSymbol symb)
      (emitted r (snd (hl_fetchAndEmit env (Inr fills) (Inr state) order r))) =
      (if 0 < price
       then [\<lparr>Symbol = convertHyperliquidSymbol symb,
               Action = (if 0 < prev then ActionCloseLong else ActionCloseShort),
               NotionalUSD = \<bar>prev\<bar> * price, Price = price, LeaderEquity = AccountValue state,
               LeaderLeverage = 0, MarginMode = [],
               Timestamp = time_Now env (ticks r1),
               DeltaSize = - prev, LeaderPosBefore = prev, LeaderPosAfter = 0\<rparr>]
       else [])) \<and>
   (okx_lastPositions (prov q) symb' = Some prev' \<and>
    prev' \<noteq> 0 \<and>
    map_of qs symb' = None \<and>
    okx_price env' symb' q = (price', q1) \<longrightarrow>
    okx_sweep_step env' av' qs symb' q =
      (if 0 < price'
       then q1\<lparr>sent := sent q1 @
              [\<lparr>Symbol = symb',
                 Action = (if 0 < prev' then ActionCloseLong else ActionCloseShort),
                 NotionalUSD = \<bar>prev'\<bar> * price', Price = 0, LeaderEquity = av',
                 LeaderLeverage = 0, MarginMode = [],
                 Timestamp = time_Now env' (ticks q1),
                 DeltaSize = - prev', LeaderPosBefore = prev', LeaderPosAfter = 0\<rparr>],
              ticks := Suc (ticks q1),
              prov := (prov q1)\<lparr>okx_lastPositions :=
                        (okx_lastPositions (prov q1))(symb' := None)\<rparr>\<rparr>
       else q1\<lparr>prov := (prov q1)\<lparr>okx_lastPositions :=
                        (okx_lastPositions (prov q1))(symb' := None)\<rparr>\<rparr>)) \<and>
   (okx_initialized (prov q) \<and>
    0 < accountValue \<and>
    map_of positions symb' = None \<and>
    symb' \<in> set order' \<longrightarrow>
    okx_lastPositions
      (prov (snd (okx_fetchAndEmit env' (Inr trades) (Inr accountValue) (Inr positions) order' q))) symb'
      = None) \<and>
   (okx_initialized (prov q) \<and>
    0 < accountValue \<and>
    map_of positions symb' = None \<and>
    order' = ks1' @ symb' # ks2' \<and>
    symb' \<notin> set ks1' \<and>
    okx_lastPositions (prov q) symb' = Some prev' \<and>
    prev' \<noteq> 0 \<and>
    okx_price env' symb'
      (fold (okx_sweep_step env' accountValue positions) ks1'
         (fold (okx_diff_step env' accountValue) positions
            (q\<lparr>prov := okx_ingest env' trades (prov q)\<rparr>))) = (price', q1) \<longrightarrow>
    filter (\<lambda>s. Symbol s = symb')
      (emitted q (snd (okx_fetchAndEmit env' (Inr trades) (Inr accountValue) (Inr positions) order' q))) =
      (if 0 < price'
       then [\<lparr>Symbol = symb',
               Action = (if 0 < prev' then ActionCloseLong else ActionCloseShort),
               NotionalUSD = \<bar>prev'\<bar> * price', Price = 0, LeaderEquity = accountValue,
               LeaderLeverage = 0, MarginMode = [],
               Timestamp = time_Now env' (ticks q1),
               DeltaSize = - prev', LeaderPosBefore = prev', LeaderPosAfter = 0\<rparr>]
       else []))"
proof (intro conjI impI)
  assume "hl_lastPositions (prov r) symb = Some prev \<and>
          prev \<noteq> 0 \<and>
          map_of ps symb = None \<and>
          hl_price env (convertHyperliquidSymbol symb) r = (price, r1)"
  then have
    a: "hl_lastPositions (prov r) symb = Some prev" "prev \<noteq> 0"
      "map_of ps symb = None"
      "hl_price env (convertHyperliquidSymbol symb) r = (price, r1)"
    by blast+
  show "hl_sweep_step env av ps symb r =
          (if 0 < price
           then r1\<lparr>sent := sent r1 @
                  [\<lparr>Symbol = convertHyperliquidSymbol symb,
                     Action = (if 0 < prev then ActionCloseLong else ActionCloseShort),
                     NotionalUSD = \<bar>prev\<bar> * price, Price = price, LeaderEquity = av,
                     LeaderLeverage = 0, MarginMode = [],
                     Timestamp = time_Now env (ticks r1),
                     DeltaSize = - prev, LeaderPosBefore = prev, LeaderPosAfter = 0\<rparr>],
                  ticks := Suc (ticks r1),
                  prov := (prov r1)\<lparr>hl_lastPositions :=
                            (hl_lastPositions (prov r1))(symb := None)\<rparr>\<rparr>
           else r1\<lparr>prov := (prov r1)\<lparr>hl_lastPositions :=
                            (hl_lastPositions (prov r1))(symb := None)\<rparr>\<rparr>)"
    by (rule hl_sweep_step_gone [OF a])
next
  assume "hl_initialized (prov r) \<and>
          0 < AccountValue state \<and>
          map_of (Positions state) symb = None \<and>
          symb \<in> set order"
  then have
    a: "hl_initialized (prov r)" "0 < AccountValue state"
      "map_of (Positions state) symb = None" "symb \<in> set order"
    by blast+
  show "hl_lastPositions
          (prov (snd (hl_fetchAndEmit env (Inr fills) (Inr state) order r))) symb
          = None"
    by (rule hl_cycle_sweeps [OF a])
next
  assume "hl_initialized (prov r) \<and>
          0 < AccountValue state \<and>
          map_of (Positions state) symb = None \<and>
          order = ks1 @ symb # ks2 \<and>
          symb \<notin> set ks1 \<and>
          (\<forall>k \<in> fst ` set (Positions state) \<union> dom (hl_lastPositions (prov r)).
              k \<noteq> symb \<longrightarrow>
              convertHyperliquidSymbol k \<noteq> convertHyperliquidSymbol symb) \<and>
          hl_lastPositions (prov r) symb = Some prev \<and>
          prev \<noteq> 0 \<and>
          hl_price env (convertHyperliquidSymbol symb)
            (fold (hl_sweep_step env (AccountValue state) (Positions state)) ks1
               (fold (hl_diff_step env (AccountValue state)) (Positions state)
                  (r\<lparr>prov := hl_ingest env fills (prov r)\<rparr>))) = (price, r1)"
  then have
    init: "hl_initialized (prov r)" "0 < AccountValue state"
    and absent: "map_of (Positions state) symb = None"
    and order: "order = ks1 @ symb # ks2" "symb \<notin> set ks1"
    and inj: "(\<forall>k \<in> fst ` set (Positions state) \<union> dom (hl_lastPositions (prov r)).
          k \<noteq> symb \<longrightarrow>
          convertHyperliquidSymbol k \<noteq> convertHyperliquidSymbol symb)"
    and p: "hl_lastPositions (prov r) symb = Some prev" "prev \<noteq> 0"
    and pr: "hl_price env (convertHyperliquidSymbol symb)
        (fold (hl_sweep_step env (AccountValue state) (Positions state)) ks1
           (fold (hl_diff_step env (AccountValue state)) (Positions state)
              (r\<lparr>prov := hl_ingest env fills (prov r)\<rparr>))) = (price, r1)"
    by blast+
  show "filter (\<lambda>s. Symbol s = convertHyperliquidSymbol symb)
          (emitted r (snd (hl_fetchAndEmit env (Inr fills) (Inr state) order r))) =
          (if 0 < price
           then [\<lparr>Symbol = convertHyperliquidSymbol symb,
                   Action = (if 0 < prev then ActionCloseLong else ActionCloseShort),
                   NotionalUSD = \<bar>prev\<bar> * price, Price = price, LeaderEquity = AccountValue state,
                   LeaderLeverage = 0, MarginMode = [],
                   Timestamp = time_Now env (ticks r1),
                   DeltaSize = - prev, LeaderPosBefore = prev, LeaderPosAfter = 0\<rparr>]
           else [])"
    by (rule hl_cycle_gone [OF init absent order inj p pr])
next
  assume "okx_lastPositions (prov q) symb' = Some prev' \<and>
          prev' \<noteq> 0 \<and>
          map_of qs symb' = None \<and>
          okx_price env' symb' q = (price', q1)"
  then have
    a: "okx_lastPositions (prov q) symb' = Some prev'" "prev' \<noteq> 0"
      "map_of qs symb' = None"
      "okx_price env' symb' q = (price', q1)"
    by blast+
  show "okx_sweep_step env' av' qs symb' q =
          (if 0 < price'
           then q1\<lparr>sent := sent q1 @
                  [\<lparr>Symbol = symb',
                     Action = (if 0 < prev' then ActionCloseLong else ActionCloseShort),
                     NotionalUSD = \<bar>prev'\<bar> * price', Price = 0, LeaderEquity = av',
                     LeaderLeverage = 0, MarginMode = [],
                     Timestamp = time_Now env' (ticks q1),
                     DeltaSize = - prev', LeaderPosBefore = prev', LeaderPosAfter = 0\<rparr>],
                  ticks := Suc (ticks q1),
                  prov := (prov q1)\<lparr>okx_lastPositions :=
                            (okx_lastPositions (prov q1))(symb' := None)\<rparr>\<rparr>
           else q1\<lparr>prov := (prov q1)\<lparr>okx_lastPositions :=
                            (okx_lastPositions (prov q1))(symb' := None)\<rparr>\<rparr>)"
    by (rule okx_sweep_step_gone [OF a])
next
  assume "okx_initialized (prov q) \<and>
          0 < accountValue \<and>
          map_of positions symb' = None \<and>
          symb' \<in> set order'"
  then have
    a: "okx_initialized (prov q)" "0 < accountValue"
      "map_of positions symb' = None" "symb' \<in> set order'"
    by blast+
  show "okx_lastPositions
          (prov (snd (okx_fetchAndEmit env' (Inr trades) (Inr accountValue) (Inr positions) order' q))) symb'
          = None"
    by (rule okx_cycle_sweeps [OF a])
next
  assume "okx_initialized (prov q) \<and>
          0 < accountValue \<and>
          map_of positions symb' = None \<and>
          order' = ks1' @ symb' # ks2' \<and>
          symb' \<notin> set ks1' \<and>
          okx_lastPositions (prov q) symb' = Some prev' \<and>
          prev' \<noteq> 0 \<and>
          okx_price env' symb'
            (fold (okx_sweep_step env' accountValue positions) ks1'
               (fold (okx_diff_step env' accountValue) positions
                  (q\<lparr>prov := okx_ingest env' trades (prov q)\<rparr>))) = (price', q1)"
  then have
    init: "okx_initialized (prov q)" "0 < accountValue"
    and absent: "map_of positions symb' = None"
    and order: "order' = ks1' @ symb' # ks2'" "symb' \<notin> set ks1'"
    and p: "okx_lastPositions (prov q) symb' = Some prev'" "prev' \<noteq> 0"
    and pr: "okx_price env' symb'
        (fold (okx_sweep_step env' accountValue positions) ks1'
           (fold (okx_diff_step env' accountValue) positions
              (q\<lparr>prov := okx_ingest env' trades (prov q)\<rparr>))) = (price', q1)"
    by blast+
  show "filter (\<lambda>s. Symbol s = symb')
          (emitted q (snd (okx_fetchAndEmit env' (Inr trades) (Inr accountValue) (Inr positions) order' q))) =
          (if 0 < price'
           then [\<lparr>Symbol = symb',
                   Action = (if 0 < prev' then ActionCloseLong else ActionCloseShort),
                   NotionalUSD = \<bar>prev'\<bar> * price', Price = 0, LeaderEquity = accountValue,
                   LeaderLeverage = 0, MarginMode = [],
                   Timestamp = time_Now env' (ticks q1),
                   DeltaSize = - prev', LeaderPosBefore = prev', LeaderPosAfter = 0\<rparr>]
           else [])"
    by (rule okx_cycle_gone [OF init absent order p pr])
qed

text \<open>
  The witness is the specification's fourth scenario: the leader has left \<open>ETH\<close>, the
  snapshot has \<open>-2\<close> for it. Hyperliquid has the cached price 3000 and sends the
  \<open>close_short\<close>; OKX has no price at all and sends nothing. Both delete the entry.
\<close>

theorem disappeared_symbol_swept_witness:
  "hl_price
     \<lparr>ParseFloat = (\<lambda>s. 0), market_Get = (\<lambda>k s. None), time_Now = (\<lambda>k. 1000 + int k)\<rparr>
     (convertHyperliquidSymbol ''ETH'')
     \<lparr>prov = \<lparr>hl_user = ''0xabc'', hl_pollInterval = 3000000000, hl_client = None,
              hl_lastTID = 7, hl_initialized = True, hl_lastPositions = [''ETH'' \<mapsto> - 2],
              hl_lastPrices = [''ETHUSDT'' \<mapsto> 3000]\<rparr>, sent = [], ticks = 0\<rparr>
   = (3000,
      \<lparr>prov = \<lparr>hl_user = ''0xabc'', hl_pollInterval = 3000000000, hl_client = None,
               hl_lastTID = 7, hl_initialized = True, hl_lastPositions = [''ETH'' \<mapsto> - 2],
               hl_lastPrices = [''ETHUSDT'' \<mapsto> 3000]\<rparr>, sent = [], ticks = 0\<rparr>) \<and>
   hl_sweep_step
     \<lparr>ParseFloat = (\<lambda>s. 0), market_Get = (\<lambda>k s. None), time_Now = (\<lambda>k. 1000 + int k)\<rparr>
     100000 [] ''ETH''
     \<lparr>prov = \<lparr>hl_user = ''0xabc'', hl_pollInterval = 3000000000, hl_client = None,
              hl_lastTID = 7, hl_initialized = True, hl_lastPositions = [''ETH'' \<mapsto> - 2],
              hl_lastPrices = [''ETHUSDT'' \<mapsto> 3000]\<rparr>, sent = [], ticks = 0\<rparr>
   = \<lparr>prov = \<lparr>hl_user = ''0xabc'', hl_pollInterval = 3000000000, hl_client = None,
              hl_lastTID = 7, hl_initialized = True, hl_lastPositions = Map.empty,
              hl_lastPrices = [''ETHUSDT'' \<mapsto> 3000]\<rparr>,
      sent =
        [\<lparr>Symbol = ''ETHUSDT'', Action = ActionCloseShort, NotionalUSD = 6000,
           Price = 3000, LeaderEquity = 100000, LeaderLeverage = 0, MarginMode = [],
           Timestamp = 1000, DeltaSize = 2, LeaderPosBefore = - 2, LeaderPosAfter = 0\<rparr>],
      ticks = 1\<rparr> \<and>
   hl_lastPositions (prov (snd (hl_fetchAndEmit
       \<lparr>ParseFloat = (\<lambda>s. 0), market_Get = (\<lambda>k s. None), time_Now = (\<lambda>k. 1000 + int k)\<rparr>
       (Inr []) (Inr \<lparr>AccountValue = 100000, Positions = []\<rparr>) [''ETH'']
       \<lparr>prov = \<lparr>hl_user = ''0xabc'', hl_pollInterval = 3000000000, hl_client = None,
                hl_lastTID = 7, hl_initialized = True, hl_lastPositions = [''ETH'' \<mapsto> - 2],
                hl_lastPrices = [''ETHUSDT'' \<mapsto> 3000]\<rparr>, sent = [], ticks = 0\<rparr>))) ''ETH''
   = None \<and>
   filter (\<lambda>s. Symbol s = ''ETHUSDT'')
     (emitted
        \<lparr>prov = \<lparr>hl_user = ''0xabc'', hl_pollInterval = 3000000000, hl_client = None,
                 hl_lastTID = 7, hl_initialized = True, hl_lastPositions = [''ETH'' \<mapsto> - 2],
                 hl_lastPrices = [''ETHUSDT'' \<mapsto> 3000]\<rparr>, sent = [], ticks = 0\<rparr>
        (snd (hl_fetchAndEmit
          \<lparr>ParseFloat = (\<lambda>s. 0), market_Get = (\<lambda>k s. None), time_Now = (\<lambda>k. 1000 + int k)\<rparr>
          (Inr []) (Inr \<lparr>AccountValue = 100000, Positions = []\<rparr>) [''ETH'']
          \<lparr>prov = \<lparr>hl_user = ''0xabc'', hl_pollInterval = 3000000000, hl_client = None,
                   hl_lastTID = 7, hl_initialized = True, hl_lastPositions = [''ETH'' \<mapsto> - 2],
                   hl_lastPrices = [''ETHUSDT'' \<mapsto> 3000]\<rparr>, sent = [], ticks = 0\<rparr>)))
   =
     [\<lparr>Symbol = ''ETHUSDT'', Action = ActionCloseShort, NotionalUSD = 6000,
        Price = 3000, LeaderEquity = 100000, LeaderLeverage = 0, MarginMode = [],
        Timestamp = 1000, DeltaSize = 2, LeaderPosBefore = - 2, LeaderPosAfter = 0\<rparr>] \<and>
   okx_price
     \<lparr>ParseFloat = (\<lambda>s. 0), market_Get = (\<lambda>k s. None), time_Now = (\<lambda>k. 1000 + int k)\<rparr>
     ''ETHUSDT''
     \<lparr>prov = \<lparr>okx_uniqueName = ''leader'', okx_pollInterval = 3000000000, okx_client = None,
              okx_lastFillTime = 2, okx_initialized = True,
              okx_lastPositions = [''ETHUSDT'' \<mapsto> - 2], okx_lastPrices = Map.empty\<rparr>,
       sent = [], ticks = 0\<rparr>
   = (0,
      \<lparr>prov = \<lparr>okx_uniqueName = ''leader'', okx_pollInterval = 3000000000, okx_client = None,
               okx_lastFillTime = 2, okx_initialized = True,
               okx_lastPositions = [''ETHUSDT'' \<mapsto> - 2], okx_lastPrices = Map.empty\<rparr>,
        sent = [], ticks = 1\<rparr>) \<and>
   okx_sweep_step
     \<lparr>ParseFloat = (\<lambda>s. 0), market_Get = (\<lambda>k s. None), time_Now = (\<lambda>k. 1000 + int k)\<rparr>
     100000 [] ''ETHUSDT''
     \<lparr>prov = \<lparr>okx_uniqueName = ''leader'', okx_pollInterval = 3000000000, okx_client = None,
              okx_lastFillTime = 2, okx_initialized = True,
              okx_lastPositions = [''ETHUSDT'' \<mapsto> - 2], okx_lastPrices = Map.empty\<rparr>,
       sent = [], ticks = 0\<rparr>
   = \<lparr>prov = \<lparr>okx_uniqueName = ''leader'', okx_pollInterval = 3000000000, okx_client = None,
              okx_lastFillTime = 2, okx_initialized = True,
              okx_lastPositions = Map.empty, okx_lastPrices = Map.empty\<rparr>,
      sent = [], ticks = 1\<rparr> \<and>
   okx_lastPositions (prov (snd (okx_fetchAndEmit
       \<lparr>ParseFloat = (\<lambda>s. 0), market_Get = (\<lambda>k s. None), time_Now = (\<lambda>k. 1000 + int k)\<rparr>
       (Inr []) (Inr 100000) (Inr []) [''ETHUSDT'']
       \<lparr>prov = \<lparr>okx_uniqueName = ''leader'', okx_pollInterval = 3000000000, okx_client = None,
                okx_lastFillTime = 2, okx_initialized = True,
                okx_lastPositions = [''ETHUSDT'' \<mapsto> - 2], okx_lastPrices = Map.empty\<rparr>,
         sent = [], ticks = 0\<rparr>))) ''ETHUSDT''
   = None \<and>
   filter (\<lambda>s. Symbol s = ''ETHUSDT'')
     (emitted
        \<lparr>prov = \<lparr>okx_uniqueName = ''leader'', okx_pollInterval = 3000000000, okx_client = None,
                 okx_lastFillTime = 2, okx_initialized = True,
                 okx_lastPositions = [''ETHUSDT'' \<mapsto> - 2], okx_lastPrices = Map.empty\<rparr>,
          sent = [], ticks = 0\<rparr>
        (snd (okx_fetchAndEmit
          \<lparr>ParseFloat = (\<lambda>s. 0), market_Get = (\<lambda>k s. None), time_Now = (\<lambda>k. 1000 + int k)\<rparr>
          (Inr []) (Inr 100000) (Inr []) [''ETHUSDT'']
          \<lparr>prov = \<lparr>okx_uniqueName = ''leader'', okx_pollInterval = 3000000000, okx_client = None,
                   okx_lastFillTime = 2, okx_initialized = True,
                   okx_lastPositions = [''ETHUSDT'' \<mapsto> - 2], okx_lastPrices = Map.empty\<rparr>,
            sent = [], ticks = 0\<rparr>)))
   = []"
proof -
  let ?env = "\<lparr>ParseFloat = (\<lambda>s. 0), market_Get = (\<lambda>k s. None), time_Now = (\<lambda>k. 1000 + int k)\<rparr>"
  let ?r = "\<lparr>prov = \<lparr>hl_user = ''0xabc'', hl_pollInterval = 3000000000, hl_client = None,
         hl_lastTID = 7, hl_initialized = True, hl_lastPositions = [''ETH'' \<mapsto> - 2],
         hl_lastPrices = [''ETHUSDT'' \<mapsto> 3000]\<rparr>, sent = [], ticks = 0\<rparr>"
  let ?state = "\<lparr>AccountValue = 100000, Positions = []\<rparr>"
  let ?q = "\<lparr>prov = \<lparr>okx_uniqueName = ''leader'', okx_pollInterval = 3000000000, okx_client = None,
         okx_lastFillTime = 2, okx_initialized = True,
         okx_lastPositions = [''ETHUSDT'' \<mapsto> - 2], okx_lastPrices = Map.empty\<rparr>,
  sent = [], ticks = 0\<rparr>"
  let ?q1 = "\<lparr>prov = \<lparr>okx_uniqueName = ''leader'', okx_pollInterval = 3000000000, okx_client = None,
         okx_lastFillTime = 2, okx_initialized = True,
         okx_lastPositions = [''ETHUSDT'' \<mapsto> - 2], okx_lastPrices = Map.empty\<rparr>,
  sent = [], ticks = 1\<rparr>"
  let ?none = "[]::(string \<times> okxPositionMeta) list"
  have reach: "?r\<lparr>prov := hl_ingest ?env [] (prov ?r)\<rparr> = ?r"
    by (simp add: hl_ingest_def sort_Slice_def Let_def)
  have reach': "?q\<lparr>prov := okx_ingest ?env [] (prov ?q)\<rparr> = ?q"
    by (simp add: okx_ingest_def sort_Slice_def Let_def)
  have price: "hl_price ?env (convertHyperliquidSymbol ''ETH'') ?r = (3000, ?r)"
    by (simp add: lookup0_def hl_price_def convertHyperliquidSymbol_ETH)
  have price': "okx_price ?env ''ETHUSDT'' ?q = (0, ?q1)"
    by (simp add: lookup0_def okx_price_def)
  have hl_round: "hl_lastPositions (prov ?r) ''ETH'' = Some (- 2) \<and> (- 2::real) \<noteq> 0 \<and>
      map_of ([]::(string \<times> hyperliquidPositionMeta) list) ''ETH'' = None \<and>
      hl_price ?env (convertHyperliquidSymbol ''ETH'') ?r = (3000, ?r)"
    using price by simp
  have hl_end: "hl_initialized (prov ?r) \<and> 0 < AccountValue ?state \<and>
      map_of (Positions ?state) ''ETH'' = None \<and> ''ETH'' \<in> set [''ETH'']"
    by simp
  have hl_cycle: "hl_initialized (prov ?r) \<and> 0 < AccountValue ?state \<and>
      map_of (Positions ?state) ''ETH'' = None \<and>
      [''ETH''] = [] @ ''ETH'' # [] \<and> ''ETH'' \<notin> set [] \<and>
      (\<forall>k \<in> fst ` set (Positions ?state) \<union> dom (hl_lastPositions (prov ?r)).
          k \<noteq> ''ETH'' \<longrightarrow>
          convertHyperliquidSymbol k \<noteq> convertHyperliquidSymbol ''ETH'') \<and>
      hl_lastPositions (prov ?r) ''ETH'' = Some (- 2) \<and> (- 2::real) \<noteq> 0 \<and>
      hl_price ?env (convertHyperliquidSymbol ''ETH'')
        (fold (hl_sweep_step ?env (AccountValue ?state) (Positions ?state)) []
           (fold (hl_diff_step ?env (AccountValue ?state)) (Positions ?state)
              (?r\<lparr>prov := hl_ingest ?env [] (prov ?r)\<rparr>))) = (3000, ?r)"
    unfolding reach using price by simp
  have okx_round: "okx_lastPositions (prov ?q) ''ETHUSDT'' = Some (- 2) \<and> (- 2::real) \<noteq> 0 \<and>
      map_of ?none ''ETHUSDT'' = None \<and>
      okx_price ?env ''ETHUSDT'' ?q = (0, ?q1)"
    using price' by simp
  have okx_end: "okx_initialized (prov ?q) \<and> 0 < (100000::real) \<and>
      map_of ?none ''ETHUSDT'' = None \<and> ''ETHUSDT'' \<in> set [''ETHUSDT'']"
    by simp
  have okx_cycle: "okx_initialized (prov ?q) \<and> 0 < (100000::real) \<and>
      map_of ?none ''ETHUSDT'' = None \<and>
      [''ETHUSDT''] = [] @ ''ETHUSDT'' # [] \<and> ''ETHUSDT'' \<notin> set [] \<and>
      okx_lastPositions (prov ?q) ''ETHUSDT'' = Some (- 2) \<and> (- 2::real) \<noteq> 0 \<and>
      okx_price ?env ''ETHUSDT''
        (fold (okx_sweep_step ?env 100000 ?none) []
           (fold (okx_diff_step ?env 100000) ?none
              (?q\<lparr>prov := okx_ingest ?env [] (prov ?q)\<rparr>))) = (0, ?q1)"
    unfolding reach' using price' by simp
  note inst = disappeared_symbol_swept
        [where r = "?r" and symb = "''ETH''" and prev = "- 2" and ps = "[]" and env = "?env"
           and price = "3000" and ?r1.0 = "?r" and av = "100000" and state = "?state"
           and order = "[''ETH'']" and fills = "[]" and ?ks1.0 = "[]" and ?ks2.0 = "[]"
           and q = "?q" and symb' = "''ETHUSDT''" and prev' = "- 2" and qs = "[]"
           and env' = "?env" and price' = "0" and ?q1.0 = "?q1" and av' = "100000"
           and accountValue = "100000" and positions = "[]" and order' = "[''ETHUSDT'']"
           and trades = "[]" and ks1' = "[]" and ks2' = "[]"]
  have 1: "hl_sweep_step ?env 100000 [] ''ETH'' ?r = ?r\<lparr>sent := sent ?r @
        [\<lparr>Symbol = ''ETHUSDT'', Action = ActionCloseShort, NotionalUSD = 6000,
           Price = 3000, LeaderEquity = 100000, LeaderLeverage = 0, MarginMode = [],
           Timestamp = 1000, DeltaSize = 2, LeaderPosBefore = - 2, LeaderPosAfter = 0\<rparr>],
        ticks := Suc (ticks ?r),
        prov := (prov ?r)\<lparr>hl_lastPositions := (hl_lastPositions (prov ?r))(''ETH'' := None)\<rparr>\<rparr>"
    using inst [THEN conjunct1] hl_round
    by (simp add: convertHyperliquidSymbol_ETH)
  have 2: "hl_lastPositions
        (prov (snd (hl_fetchAndEmit ?env (Inr []) (Inr ?state) [''ETH''] ?r))) ''ETH'' = None"
    using inst [THEN conjunct2, THEN conjunct1] hl_end
    by simp
  have 3: "filter (\<lambda>s. Symbol s = ''ETHUSDT'')
        (emitted ?r (snd (hl_fetchAndEmit ?env (Inr []) (Inr ?state) [''ETH''] ?r)))
      =
        [\<lparr>Symbol = ''ETHUSDT'', Action = ActionCloseShort, NotionalUSD = 6000,
           Price = 3000, LeaderEquity = 100000, LeaderLeverage = 0, MarginMode = [],
           Timestamp = 1000, DeltaSize = 2, LeaderPosBefore = - 2, LeaderPosAfter = 0\<rparr>]"
    using inst [THEN conjunct2, THEN conjunct2, THEN conjunct1] hl_cycle
    by (simp add: convertHyperliquidSymbol_ETH)
  have 4: "okx_sweep_step ?env 100000 [] ''ETHUSDT'' ?q =
        ?q1\<lparr>prov := (prov ?q1)\<lparr>okx_lastPositions :=
                  (okx_lastPositions (prov ?q1))(''ETHUSDT'' := None)\<rparr>\<rparr>"
    using inst [THEN conjunct2, THEN conjunct2, THEN conjunct2, THEN conjunct1] okx_round
    by simp
  have 5: "okx_lastPositions
        (prov (snd (okx_fetchAndEmit ?env (Inr []) (Inr 100000) (Inr []) [''ETHUSDT''] ?q)))
        ''ETHUSDT'' = None"
    using inst [THEN conjunct2, THEN conjunct2, THEN conjunct2, THEN conjunct2, THEN conjunct1]
      okx_end
    by simp
  have 6: "filter (\<lambda>s. Symbol s = ''ETHUSDT'')
        (emitted ?q (snd (okx_fetchAndEmit ?env (Inr []) (Inr 100000) (Inr []) [''ETHUSDT''] ?q)))
      = []"
    using inst [THEN conjunct2, THEN conjunct2, THEN conjunct2, THEN conjunct2, THEN conjunct2]
      okx_cycle
    by simp
  show ?thesis
    unfolding price price' 1 2 3 4 5 6 by simp
qed

subsection \<open>C7: an account value that is not positive aborts the cycle\<close>



end
